(* ===== verification/Prelude.thy ===== *)
theory Prelude
  imports Main "HOL-Library.Sublist"
begin

text \<open>
  Shared vocabulary of the JanPath model: JavaScript values as they reach the
  dashboard scripts from JSON and from form fields, the string operations of the
  scripts (\<open>trim\<close>, \<open>toLowerCase\<close>, \<open>includes\<close>, \<open>String(v)\<close>) and the
  truthiness and nullish tests behind \<open>||\<close> and \<open>??\<close>.
  A JavaScript string is a sequence of UTF-16 code units; the model reads a
  \<open>char\<close> as one code unit in the Latin-1 range (0 to 255), so \<open>length\<close> is
  JavaScript's \<open>.length\<close> on such strings. Numbers are integers: the scripts only
  print, compare and count them, and no claim depends on fractions or NaN.
\<close>

named_theorems js_simps "evaluation rules of the JavaScript primitives"

section \<open>Values\<close>

datatype jsval = JUndefined | JNull | JBool bool | JNum int | JStr string

text \<open>Exceptions a handler can raise; an uncaught one ends that handler only.\<close>

datatype js_error = TypeError string | ReferenceError string | SyntaxError string

definition js_truthy :: "jsval \<Rightarrow> bool" where
  "js_truthy v = (case v of
     JUndefined \<Rightarrow> False | JNull \<Rightarrow> False | JBool b \<Rightarrow> b
   | JNum n \<Rightarrow> n \<noteq> 0 | JStr s \<Rightarrow> s \<noteq> [])"

definition js_nullish :: "jsval \<Rightarrow> bool" where
  "js_nullish v \<longleftrightarrow> v = JUndefined \<or> v = JNull"

text \<open>\<open>a ?? b\<close> and \<open>a || b\<close>.\<close>

definition js_coalesce :: "jsval \<Rightarrow> jsval \<Rightarrow> jsval" where
  "js_coalesce a b = (if js_nullish a then b else a)"

definition js_or :: "jsval \<Rightarrow> jsval \<Rightarrow> jsval" where
  "js_or a b = (if js_truthy a then a else b)"

fun nat_str :: "nat \<Rightarrow> string" where
  "nat_str n = (if n < 10 then [char_of (48 + n)]
                else nat_str (n div 10) @ [char_of (48 + n mod 10)])"

declare nat_str.simps [simp del]

definition int_str :: "int \<Rightarrow> string" where
  "int_str i = (if i < 0 then CHR ''-'' # nat_str (nat (- i)) else nat_str (nat i))"

text \<open>\<open>String(v)\<close>.\<close>

fun js_to_string :: "jsval \<Rightarrow> string" where
  "js_to_string JUndefined = ''undefined''"
| "js_to_string JNull = ''null''"
| "js_to_string (JBool b) = (if b then ''true'' else ''false'')"
| "js_to_string (JNum n) = int_str n"
| "js_to_string (JStr s) = s"

section \<open>String primitives\<close>

text \<open>
  \<open>String.prototype.trim\<close> removes WhiteSpace and LineTerminator code units from
  both ends; in the Latin-1 range these are TAB, LF, VT, FF, CR, SPACE and NBSP.
\<close>

definition js_space :: "char \<Rightarrow> bool" where
  "js_space c \<longleftrightarrow>
     c \<in> set [CHR 0x09, CHR 0x0A, CHR 0x0B, CHR 0x0C, CHR 0x0D, CHR 0x20, CHR 0xA0]"

definition js_trim :: "string \<Rightarrow> string" where
  "js_trim s = rev (dropWhile js_space (rev (dropWhile js_space s)))"

text \<open>
  \<open>String.prototype.toLowerCase\<close> on Latin-1: \<open>A\<close>..\<open>Z\<close> and the capitals
  U+00C0..U+00DE except U+00D7 (the multiplication sign) move up by 32.
\<close>

definition js_upper_char :: "char \<Rightarrow> bool" where
  "js_upper_char c \<longleftrightarrow>
     (let n = of_char c :: nat in (65 \<le> n \<and> n \<le> 90) \<or> (192 \<le> n \<and> n \<le> 222 \<and> n \<noteq> 215))"

definition js_lower_char :: "char \<Rightarrow> char" where
  "js_lower_char c = (if js_upper_char c then char_of (of_char c + (32::nat)) else c)"

definition js_lower :: "string \<Rightarrow> string" where
  "js_lower s = map js_lower_char s"

text \<open>\<open>xs.join(sep)\<close> on an array of strings.\<close>

fun js_join :: "string \<Rightarrow> string list \<Rightarrow> string" where
  "js_join sep [] = []"
| "js_join sep [x] = x"
| "js_join sep (x # y # ys) = x @ sep @ js_join sep (y # ys)"

text \<open>\<open>hay.includes(needle)\<close>: a contiguous occurrence.\<close>

definition js_includes :: "string \<Rightarrow> string \<Rightarrow> bool" where
  "js_includes hay needle \<longleftrightarrow> sublist needle hay"

section \<open>Numbers, \<open>Number(str)\<close> and \<open>Array.prototype.slice\<close>\<close>

text \<open>
  A computed JavaScript number where the scripts can divide by zero or by NaN:
  finite (an integer wherever the model needs one), \<open>Infinity\<close> or \<open>NaN\<close>.
\<close>

datatype jsnum = JFin int | JInf | JNaN

definition js_digit :: "char \<Rightarrow> bool" where
  "js_digit c \<longleftrightarrow> (48::nat) \<le> of_char c \<and> of_char c \<le> (57::nat)"

definition digits_val :: "string \<Rightarrow> nat" where
  "digits_val ds = foldl (\<lambda>n c. 10 * n + (of_char c - 48)) 0 ds"

text \<open>
  \<open>Number(str)\<close> for the strings a form field holds: blank is 0, an optionally signed
  run of decimal digits is its value. Every other string gives \<open>None\<close>, read as
  NaN; JavaScript also accepts fractions, exponents and hexadecimal, which no claim
  of the model feeds it.
\<close>

definition js_Number_str :: "string \<Rightarrow> int option" where
  "js_Number_str s =
     (let t = js_trim s in
      if t = [] then Some 0
      else if hd t = CHR ''-'' \<and> tl t \<noteq> [] \<and> list_all js_digit (tl t)
        then Some (- int (digits_val (tl t)))
      else if hd t = CHR ''+'' \<and> tl t \<noteq> [] \<and> list_all js_digit (tl t)
        then Some (int (digits_val (tl t)))
      else if list_all js_digit t then Some (int (digits_val t))
      else None)"

text \<open>
  \<open>parseInt(str, 10)\<close>: leading white space and one sign are skipped, then the
  longest run of decimal digits is read; no digit gives NaN (\<open>None\<close>).
\<close>

definition js_parseInt :: "string \<Rightarrow> int option" where
  "js_parseInt s =
     (let t = dropWhile js_space s;
          neg = (t \<noteq> [] \<and> hd t = CHR ''-'');
          u = (if t \<noteq> [] \<and> (hd t = CHR ''-'' \<or> hd t = CHR ''+'') then tl t else t);
          ds = takeWhile js_digit u
      in if ds = [] then None
         else Some (if neg then - int (digits_val ds) else int (digits_val ds)))"

text \<open>\<open>String(x)\<close> of a number that may be NaN.\<close>

definition num_str :: "int option \<Rightarrow> string" where
  "num_str x = (case x of None \<Rightarrow> ''NaN'' | Some n \<Rightarrow> int_str n)"

text \<open>\<open>xs.slice(a, b)\<close>: a negative index counts from the end, indices are clamped.\<close>

definition js_rel_index :: "int \<Rightarrow> nat \<Rightarrow> nat" where
  "js_rel_index i n = (if i < 0 then nat (max (int n + i) 0) else nat (min i (int n)))"

definition js_slice :: "'a list \<Rightarrow> int \<Rightarrow> int \<Rightarrow> 'a list" where
  "js_slice xs a b =
     (let s = js_rel_index a (length xs); e = js_rel_index b (length xs) in take (e - s) (drop s xs))"

text \<open>\<open>xs.map(f)\<close> or \<open>xs.forEach(f)\<close> where \<open>f\<close> may raise: the first
  exception ends the loop.\<close>

fun map_items :: "('a \<Rightarrow> js_error + 'b) \<Rightarrow> 'a list \<Rightarrow> js_error + 'b list" where
  "map_items f [] = Inr []"
| "map_items f (x # xs) =
     (case f x of
        Inl e \<Rightarrow> Inl e
      | Inr s \<Rightarrow> (case map_items f xs of Inl e \<Rightarrow> Inl e | Inr ss \<Rightarrow> Inr (s # ss)))"

section \<open>Lemmas shared by the components\<close>

lemma js_slice_nonneg:
  "0 \<le> a \<Longrightarrow> a \<le> b \<Longrightarrow> js_slice xs a b = take (nat b - nat a) (drop (nat a) xs)"
  by (auto simp: js_slice_def js_rel_index_def Let_def min_def not_le nat_le_iff
      intro!: arg_cong2 [where f = take])

lemma length_js_slice: "length (js_slice xs a b) \<le> length xs"
  by (simp add: js_slice_def Let_def)

lemma set_js_slice: "set (js_slice xs a b) \<subseteq> set xs"
  by (auto simp: js_slice_def Let_def dest: in_set_takeD in_set_dropD)


lemma js_coalesce_simps [simp, js_simps]:
  "js_coalesce JUndefined b = b"
  "js_coalesce JNull b = b"
  "js_coalesce (JBool x) b = JBool x"
  "js_coalesce (JNum n) b = JNum n"
  "js_coalesce (JStr s) b = JStr s"
  by (simp_all add: js_coalesce_def js_nullish_def)

lemma js_truthy_simps [simp, js_simps]:
  "\<not> js_truthy JUndefined"
  "\<not> js_truthy JNull"
  "js_truthy (JBool b) = b"
  "js_truthy (JNum n) = (n \<noteq> 0)"
  "js_truthy (JStr s) = (s \<noteq> [])"
  by (simp_all add: js_truthy_def)

lemma js_or_simps [simp, js_simps]:
  "js_or JUndefined b = b"
  "js_or JNull b = b"
  "js_or (JStr s) b = (if s = [] then b else JStr s)"
  by (simp_all add: js_or_def)

lemma dropWhile_all_iff: "(\<forall>c\<in>set (dropWhile P xs). P c) \<longleftrightarrow> (\<forall>c\<in>set xs. P c)"
  by (induction xs) auto

lemma dropWhile_none: "\<forall>c\<in>set xs. \<not> P c \<Longrightarrow> dropWhile P xs = xs"
  by (cases xs) auto

lemma js_trim_Nil_iff: "js_trim s = [] \<longleftrightarrow> (\<forall>c\<in>set s. js_space c)"
  by (simp add: js_trim_def dropWhile_eq_Nil_conv dropWhile_all_iff)

lemma js_trim_no_space [simp]:
  "\<forall>c\<in>set s. \<not> js_space c \<Longrightarrow> js_trim s = s"
  by (simp add: js_trim_def dropWhile_none)

lemma set_js_trim: "set (js_trim s) \<subseteq> set s"
  by (auto simp: js_trim_def dest!: set_dropWhileD)

lemma length_js_trim: "length (js_trim s) \<le> length s"
  unfolding js_trim_def by (metis length_dropWhile_le length_rev order_trans)

lemma dropWhile_hd_not: "dropWhile P xs = y # ys \<Longrightarrow> \<not> P y"
  by (induction xs) (auto split: if_splits)

lemma dropWhile_rev_prefix: "xs = rev (dropWhile P (rev xs)) @ rev (takeWhile P (rev xs))"
  by (metis rev_append rev_rev_ident takeWhile_dropWhile_id)

lemma js_trim_idem [simp]: "js_trim (js_trim s) = js_trim s"
proof -
  define a where "a = dropWhile js_space s"
  define b where "b = dropWhile js_space (rev a)"
  have t: "js_trim s = rev b" by (simp add: js_trim_def a_def b_def)
  show ?thesis
  proof (cases b)
    case Nil
    then show ?thesis unfolding t by (simp add: js_trim_def)
  next
    case (Cons y ys)
    have b_hd: "\<not> js_space y" using Cons b_def dropWhile_hd_not by metis
    have ab: "a = rev b @ rev (takeWhile js_space (rev a))"
      unfolding b_def by (rule dropWhile_rev_prefix)
    have "rev b \<noteq> []" using Cons by simp
    then have "a \<noteq> []" and hd_a: "hd (rev b) = hd a"
      using ab by (metis Nil_is_append_conv hd_append2)+
    then have "\<not> js_space (hd (rev b))" using a_def dropWhile_hd_not by (metis list.collapse)
    then have "dropWhile js_space (rev b) = rev b"
      using \<open>rev b \<noteq> []\<close> by (cases "rev b") auto
    moreover have "dropWhile js_space b = b" using Cons b_hd by simp
    ultimately have "js_trim (rev b) = rev b" by (simp add: js_trim_def)
    then show ?thesis by (simp add: t)
  qed
qed

lemma js_lower_append [simp]: "js_lower (xs @ ys) = js_lower xs @ js_lower ys"
  by (simp add: js_lower_def)

lemma length_js_lower [simp]: "length (js_lower s) = length s"
  by (simp add: js_lower_def)

lemma js_lower_char_not_upper: "\<not> js_upper_char (js_lower_char c)"
proof (cases "js_upper_char c")
  case True
  then have "of_char (char_of (of_char c + (32::nat))) = (of_char c + 32 :: nat)"
    using nat_of_char_less_256 [of c]
    by (auto simp: js_upper_char_def Let_def of_char_of)
  with True show ?thesis
    by (auto simp: js_lower_char_def js_upper_char_def Let_def)
next
  case False
  then show ?thesis by (simp add: js_lower_char_def)
qed

lemma js_lower_char_idem [simp]: "js_lower_char (js_lower_char c) = js_lower_char c"
  using js_lower_char_not_upper [of c] by (simp add: js_lower_char_def [of "js_lower_char c"])

lemma js_lower_idem [simp]: "js_lower (js_lower s) = js_lower s"
  by (simp add: js_lower_def)

lemma js_includes_char [simp, js_simps]: "js_includes s [c] \<longleftrightarrow> c \<in> set s"
proof
  assume "js_includes s [c]"
  then show "c \<in> set s"
    by (simp add: js_includes_def subseq_singleton_left [symmetric] sublist_imp_subseq)
next
  assume "c \<in> set s"
  then obtain us vs where "s = us @ [c] @ vs" by (metis split_list append_Cons append_Nil)
  then show "js_includes s [c]" using sublist_appendI [of "[c]" us vs] by (simp add: js_includes_def)
qed

lemma js_join_Cons: "xs \<noteq> [] \<Longrightarrow> js_join sep (x # xs) = x @ sep @ js_join sep xs"
  by (cases xs) simp_all

lemma js_join_append_last: "js_join sep (xs @ [y]) @ z = js_join sep (xs @ [y @ z])"
  by (induction xs) (simp_all add: js_join_Cons)

lemma digits_val_snoc: "digits_val (xs @ [c]) = 10 * digits_val xs + (of_char c - 48)"
  by (simp add: digits_val_def)

lemma nat_str_digits:
  "nat_str n \<noteq> [] \<and> list_all js_digit (nat_str n) \<and> digits_val (nat_str n) = n"
proof (induction n rule: nat_str.induct)
  case (1 n)
  show ?case
  proof (cases "n < 10")
    case True
    then show ?thesis
      by (simp add: nat_str.simps [of n] js_digit_def digits_val_def of_char_of)
  next
    case False
    have "n mod 10 < 10" by simp
    then have d: "of_char (char_of (48 + n mod 10) :: char) = 48 + n mod 10"
      by (simp add: of_char_of)
    from "1.IH" False d show ?thesis
      by (simp add: nat_str.simps [of n] js_digit_def digits_val_snoc)
  qed
qed

lemma js_digit_not_space: "js_digit c \<Longrightarrow> \<not> js_space c"
  by (auto simp: js_digit_def js_space_def)

lemma js_parseInt_digits:
  assumes "ds \<noteq> []" and "list_all js_digit ds"
  shows "js_parseInt ds = Some (int (digits_val ds))"
    and "js_parseInt (CHR ''-'' # ds) = Some (- int (digits_val ds))"
proof -
  have h: "\<not> js_space (hd ds)" "hd ds \<noteq> CHR ''-''" "hd ds \<noteq> CHR ''+''"
    using assms by (cases ds; auto simp: js_digit_not_space js_digit_def)+
  have t: "takeWhile js_digit ds = ds" using assms(2) by (simp add: list_all_iff)
  have dw: "dropWhile js_space ds = ds" using assms(1) h(1) by (cases ds) auto
  show "js_parseInt ds = Some (int (digits_val ds))"
    using assms h by (simp add: js_parseInt_def Let_def dw t)
  have "\<not> js_space (CHR ''-'')" by (simp add: js_space_def)
  then show "js_parseInt (CHR ''-'' # ds) = Some (- int (digits_val ds))"
    using assms by (simp add: js_parseInt_def Let_def t)
qed

lemma js_parseInt_int_str: "js_parseInt (int_str n) = Some n"
  using nat_str_digits [of "nat (- n)"] nat_str_digits [of "nat n"]
    js_parseInt_digits [of "nat_str (nat (- n))"] js_parseInt_digits [of "nat_str (nat n)"]
  by (simp add: int_str_def)

lemma map_items_isl: "isl (map_items f xs) \<longleftrightarrow> (\<exists>x\<in>set xs. isl (f x))"
  by (induction xs) (auto split: sum.splits)

lemma map_items_Inr: "\<forall>x\<in>set xs. f x = Inr (g x) \<Longrightarrow> map_items f xs = Inr (map g xs)"
  by (induction xs) auto

end
