(* ===== verification/Escape.thy ===== *)
theory Escape
  imports Prelude
begin

text \<open>
  HTML escaping of the worker dashboard, \<open>safe\<close> in \<open>src/static/js/worker.js\<close>:
  \<open>String(val ?? '')\<close> with each of \<open>& < > " '\<close> replaced by its character
  reference. Every voter, household, task, message and report field the worker page
  interpolates into \<open>innerHTML\<close> goes through it. The abstract side is
  \<open>html_unescape\<close>, the decoding a browser applies to these five references; the
  lemmas show that decoding inverts escaping and that escaped text holds no
  character that could open a tag or close an attribute value.
\<close>

definition safe_char :: "char \<Rightarrow> string" where
  "safe_char c =
     (if c = CHR ''&'' then ''&amp;''
      else if c = CHR ''<'' then ''&lt;''
      else if c = CHR ''>'' then ''&gt;''
      else if c = CHR 0x22 then ''&quot;''
      else if c = CHR 0x27 then ''&#39;''
      else [c])"

definition escape_str :: "string \<Rightarrow> string" where
  "escape_str s = concat (map safe_char s)"

definition safe :: "jsval \<Rightarrow> string" where
  "safe v = escape_str (js_to_string (js_coalesce v (JStr [])))"

text \<open>The browser's reading of the five references \<open>safe\<close> produces.\<close>

fun html_unescape :: "string \<Rightarrow> string" where
  "html_unescape [] = []"
| "html_unescape (c # cs) =
     (if c = CHR ''&'' \<and> take 4 cs = ''amp;'' then CHR ''&'' # html_unescape (drop 4 cs)
      else if c = CHR ''&'' \<and> take 3 cs = ''lt;'' then CHR ''<'' # html_unescape (drop 3 cs)
      else if c = CHR ''&'' \<and> take 3 cs = ''gt;'' then CHR ''>'' # html_unescape (drop 3 cs)
      else if c = CHR ''&'' \<and> take 5 cs = ''quot;'' then CHR 0x22 # html_unescape (drop 5 cs)
      else if c = CHR ''&'' \<and> take 4 cs = ''#39;'' then CHR 0x27 # html_unescape (drop 4 cs)
      else c # html_unescape cs)"

declare html_unescape.simps(2) [simp del]

definition markup_char :: "char \<Rightarrow> bool" where
  "markup_char c \<longleftrightarrow> c \<in> {CHR ''<'', CHR ''>'', CHR 0x22, CHR 0x27}"

section \<open>Lemmas\<close>

lemma escape_str_simps [simp]:
  "escape_str [] = []"
  "escape_str (c # cs) = safe_char c @ escape_str cs"
  "escape_str (xs @ ys) = escape_str xs @ escape_str ys"
  by (simp_all add: escape_str_def)

lemma safe_JStr [simp]: "safe (JStr s) = escape_str s"
  by (simp add: safe_def)

lemma html_unescape_safe_char:
  "html_unescape (safe_char c @ rest) = c # html_unescape rest"
  by (simp add: safe_char_def html_unescape.simps(2))

lemma safe_char_no_markup: "d \<in> set (safe_char c) \<Longrightarrow> \<not> markup_char d"
  by (auto simp: safe_char_def markup_char_def split: if_splits)

lemma length_safe_char: "1 \<le> length (safe_char c) \<and> length (safe_char c) \<le> 6"
  by (simp add: safe_char_def)

lemma html_unescape_escape_str: "html_unescape (escape_str s) = s"
  by (induction s) (simp_all add: html_unescape_safe_char)

lemma escape_str_no_markup: "d \<in> set (escape_str s) \<Longrightarrow> \<not> markup_char d"
  by (induction s) (auto dest: safe_char_no_markup)

lemma length_escape_str: "length s \<le> length (escape_str s) \<and> length (escape_str s) \<le> 6 * length s"
proof (induction s)
  case Nil
  then show ?case by simp
next
  case (Cons c s)
  with length_safe_char [of c] show ?case by simp
qed

section \<open>Properties\<close>

text \<open>
  C1. Escaping is lossless: a browser that decodes the character references in the
  output of \<open>safe v\<close> reads back exactly \<open>String(v ?? '')\<close>, so a voter's
  name or remark is shown as typed, whatever characters it holds.
\<close>

theorem safe_roundtrip: "html_unescape (safe v) = js_to_string (js_coalesce v (JStr []))"
  by (simp add: safe_def html_unescape_escape_str)

text \<open>
  C2. Escaped text is inert: no character of \<open>safe v\<close> is one of
  \<open>< > " '\<close>, so interpolated into element content or a quoted attribute value
  (as \<open>renderVoterRows\<close> and \<open>renderHouseholds\<close> do) it cannot open a tag or
  end the attribute.
\<close>

theorem safe_no_markup: "c \<in> set (safe v) \<Longrightarrow> \<not> markup_char c"
  by (simp add: safe_def escape_str_no_markup)

theorem safe_no_markup_witness:
  "CHR ''&'' \<in> set (safe (JStr ''<b>'')) \<and> \<not> markup_char (CHR ''&'')"
proof -
  have mem: "CHR ''&'' \<in> set (safe (JStr ''<b>''))"
    by (simp add: safe_char_def)
  show ?thesis using mem safe_no_markup [OF mem] by blast
qed

end
