(* ===== verification/Login.thy ===== *)
theory Login
  imports Prelude
begin

text \<open>
  The login form, \<open>src/static/js/login.js\<close>: the submit handler trims both
  fields, refuses an empty one, and accepts the three demonstration accounts,
  each sending the browser to its role's dashboard. The handler's effects (alerts and
  the assignment to \<open>window.location.href\<close>) are returned in the order the code
  performs them. The lemmas show which inputs reach which dashboard, that only the
  trimmed fields matter, and that every submission ends in exactly one alert.
\<close>

datatype login_effect = Alert string | Navigate string

definition invalid_credentials_msg :: string where
  \<open>invalid_credentials_msg =
     ''Invalid credentials. Try "admin/admin", "candidate/candidate", or "worker/worker".''\<close>

definition login_submit :: "string \<Rightarrow> string \<Rightarrow> login_effect list" where
  "login_submit username_field password_field =
     (let username = js_trim username_field; password = js_trim password_field in
      if username = [] \<or> password = [] then [Alert ''Please enter both username and password.'']
      else if username = ''admin'' \<and> password = ''admin''
        then [Alert ''Admin login successful!'', Navigate ''/admin'']
      else if username = ''candidate'' \<and> password = ''candidate''
        then [Alert ''Candidate login successful!'', Navigate ''/candidate'']
      else if username = ''worker'' \<and> password = ''worker''
        then [Alert ''Party Worker login successful!'', Navigate ''/worker'']
      else [Alert invalid_credentials_msg])"

text \<open>The demonstration accounts: user name, password, dashboard.\<close>

definition demo_accounts :: "(string \<times> string \<times> string) list" where
  "demo_accounts =
     [(''admin'', ''admin'', ''/admin''), (''candidate'', ''candidate'', ''/candidate''),
      (''worker'', ''worker'', ''/worker'')]"

fun is_alert :: "login_effect \<Rightarrow> bool" where
  "is_alert (Alert _) = True"
| "is_alert (Navigate _) = False"

lemma login_submit_trimmed: "login_submit (js_trim u) (js_trim w) = login_submit u w"
  by (simp add: login_submit_def)

lemma login_submit_cases:
  "login_submit u w = [Alert ''Please enter both username and password.'']
   \<or> login_submit u w = [Alert invalid_credentials_msg]
   \<or> (\<exists>m p. login_submit u w = [Alert m, Navigate p])"
  by (simp add: login_submit_def Let_def)

section \<open>Properties\<close>

text \<open>
  C3. The login form sends the browser to a dashboard exactly when the trimmed user
  name and password are one of the three demonstration accounts, and then to that
  account's dashboard: \<open>admin\<close> to \<open>/admin\<close>, \<open>candidate\<close> to
  \<open>/candidate\<close>, \<open>worker\<close> to \<open>/worker\<close>.
\<close>

theorem login_navigates_iff:
  "Navigate p \<in> set (login_submit u w) \<longleftrightarrow> (js_trim u, js_trim w, p) \<in> set demo_accounts"
  by (auto simp: login_submit_def demo_accounts_def Let_def)

text \<open>
  C4. Every submission shows exactly one alert, and it comes before the navigation,
  if there is one; blank fields (empty after trimming) give the request to fill both
  fields and never a navigation.
\<close>

theorem login_one_alert:
  "length (filter is_alert (login_submit u w)) = 1
   \<and> is_alert (hd (login_submit u w))
   \<and> ((\<forall>c\<in>set u. js_space c) \<longrightarrow>
        login_submit u w = [Alert ''Please enter both username and password.''])"
  by (auto simp: login_submit_def Let_def js_trim_Nil_iff)

theorem login_one_alert_witness:
  "js_space (CHR '' '')
   \<and> length (filter is_alert (login_submit ''  '' ''x'')) = 1
   \<and> login_submit ''  '' ''x'' = [Alert ''Please enter both username and password.'']"
proof -
  have sp: "js_space (CHR '' '')" by (simp add: js_space_def)
  then have "\<forall>c\<in>set ''  ''. js_space c" by simp
  then show ?thesis using login_one_alert [of "''  ''" "''x''"] sp by blast
qed

end
