(* ===== verification/RoleModal.thy ===== *)
theory RoleModal
  imports Prelude
begin

text \<open>
  The landing page's two dialogs, \<open>src/static/js/script.js\<close> (the
  \<open>DOMContentLoaded\<close> handler): the login button opens the role dialog; choosing
  Candidate, Party Worker or Admin closes it, opens the login dialog greeting that
  role and stores the role in \<open>localStorage\<close>; close buttons, a click on a
  dialog's backdrop and the Escape key close the dialogs and reset the greeting.
  The elements the script looks up once are \<open>modal_dom\<close>; the state the handlers
  change is \<open>modal_ui\<close> (the two inline \<open>style.display\<close> values, the heading
  text and the stored role). One event is dispatched as the browser does: the
  clicked element's own listener first, then the two \<open>window\<close> click listeners in
  the order they were added; an exception ends one listener and the next still runs.
\<close>

datatype display = DUnset | DFlex | DNone

text \<open>Which elements the page holds (\<open>getElementById\<close> / \<open>querySelector\<close>).\<close>

record modal_dom =
  login_btn :: bool
  login_modal :: bool
  close_in_login_modal :: bool
  h2_in_login_modal :: bool
  role_modal :: bool
  close_in_role_modal :: bool
  candidate_btn :: bool
  party_btn :: bool
  admin_btn :: bool

text \<open>\<open>loginCloseBtn\<close>, \<open>loginTitle\<close>, \<open>roleCloseBtn\<close>: looked up inside their dialog, null without it.\<close>

definition loginCloseBtn :: "modal_dom \<Rightarrow> bool" where
  "loginCloseBtn d \<longleftrightarrow> login_modal d \<and> close_in_login_modal d"

definition loginTitle :: "modal_dom \<Rightarrow> bool" where
  "loginTitle d \<longleftrightarrow> login_modal d \<and> h2_in_login_modal d"

definition roleCloseBtn :: "modal_dom \<Rightarrow> bool" where
  "roleCloseBtn d \<longleftrightarrow> role_modal d \<and> close_in_role_modal d"

record modal_ui =
  login_disp :: display
  role_disp :: display
  login_title :: string
  selected_role :: "string option"

datatype role_choice = Candidate | PartyWorker | Admin

fun role_label :: "role_choice \<Rightarrow> string" where
  "role_label Candidate = ''Candidate''"
| "role_label PartyWorker = ''Party Worker''"
| "role_label Admin = ''Admin''"

fun role_button :: "modal_dom \<Rightarrow> role_choice \<Rightarrow> bool" where
  "role_button d Candidate = candidate_btn d"
| "role_button d PartyWorker = party_btn d"
| "role_button d Admin = admin_btn d"

definition defaultLoginTitle :: string where
  "defaultLoginTitle = ''Welcome Back!''"

definition welcome_text :: "string \<Rightarrow> string" where
  "welcome_text r = ''Welcome '' @ r @ ''!''"

datatype click_target =
  OnLoginBtn | OnRoleClose | OnRoleBtn role_choice | OnLoginClose
  | OnRoleBackdrop | OnLoginBackdrop | OnOther

datatype modal_event = Click click_target | KeyDown string

text \<open>Resetting the heading, written three times in the source.\<close>

definition reset_title :: "modal_dom \<Rightarrow> modal_ui \<Rightarrow> modal_ui" where
  "reset_title d s = (if loginTitle d then s\<lparr>login_title := defaultLoginTitle\<rparr> else s)"

definition openLoginModal :: "modal_dom \<Rightarrow> role_choice \<Rightarrow> modal_ui \<Rightarrow> js_error + modal_ui" where
  "openLoginModal d r s =
     (if \<not> role_modal d then Inl (TypeError ''roleModal is null'')
      else
        let s1 = s\<lparr>role_disp := DNone\<rparr>;
            s2 = (if login_modal d then s1\<lparr>login_disp := DFlex\<rparr> else s1);
            s3 = (if loginTitle d then s2\<lparr>login_title := welcome_text (role_label r)\<rparr> else s2)
        in Inr (s3\<lparr>selected_role := Some (role_label r)\<rparr>))"

text \<open>The listener of the clicked element itself (none for backdrops and other elements).\<close>

fun element_click :: "modal_dom \<Rightarrow> click_target \<Rightarrow> modal_ui \<Rightarrow> js_error + modal_ui" where
  "element_click d OnLoginBtn s =
     (if login_btn d \<and> role_modal d then Inr ((reset_title d s)\<lparr>role_disp := DFlex\<rparr>) else Inr s)"
| "element_click d OnRoleClose s =
     (if roleCloseBtn d then Inr (s\<lparr>role_disp := DNone\<rparr>) else Inr s)"
| "element_click d (OnRoleBtn r) s =
     (if role_button d r then openLoginModal d r s else Inr s)"
| "element_click d OnLoginClose s =
     (if loginCloseBtn d then Inr (reset_title d (s\<lparr>login_disp := DNone\<rparr>)) else Inr s)"
| "element_click d OnRoleBackdrop s = Inr s"
| "element_click d OnLoginBackdrop s = Inr s"
| "element_click d OnOther s = Inr s"

text \<open>The two \<open>window\<close> click listeners, in the order they were added.\<close>

definition window_click :: "modal_dom \<Rightarrow> click_target \<Rightarrow> modal_ui \<Rightarrow> modal_ui" where
  "window_click d t s =
     (let s1 = (if t = OnRoleBackdrop \<and> role_modal d then s\<lparr>role_disp := DNone\<rparr> else s)
      in if t = OnLoginBackdrop \<and> login_modal d then reset_title d (s1\<lparr>login_disp := DNone\<rparr>)
         else s1)"

definition escape_keydown :: "modal_dom \<Rightarrow> string \<Rightarrow> modal_ui \<Rightarrow> modal_ui" where
  "escape_keydown d k s =
     (if k \<noteq> ''Escape'' then s
      else
        let s1 = (if login_modal d \<and> login_disp s = DFlex
                  then reset_title d (s\<lparr>login_disp := DNone\<rparr>) else s)
        in if role_modal d \<and> role_disp s1 = DFlex then s1\<lparr>role_disp := DNone\<rparr> else s1)"

fun absorb :: "modal_ui \<Rightarrow> js_error + modal_ui \<Rightarrow> modal_ui \<times> js_error list" where
  "absorb s (Inl e) = (s, [e])"
| "absorb s (Inr s') = (s', [])"

definition modal_dispatch :: "modal_dom \<Rightarrow> modal_ui \<Rightarrow> modal_event \<Rightarrow> modal_ui \<times> js_error list" where
  "modal_dispatch d s ev =
     (case ev of
        Click t \<Rightarrow> (let (s1, errs) = absorb s (element_click d t s) in (window_click d t s1, errs))
      | KeyDown k \<Rightarrow> (escape_keydown d k s, []))"

definition modal_step :: "modal_dom \<Rightarrow> modal_ui \<Rightarrow> modal_event \<Rightarrow> modal_ui" where
  "modal_step d s ev = fst (modal_dispatch d s ev)"

fun modal_run :: "modal_dom \<Rightarrow> modal_ui \<Rightarrow> modal_event list \<Rightarrow> modal_ui" where
  "modal_run d s [] = s"
| "modal_run d s (ev # evs) = modal_run d (modal_step d s ev) evs"

text \<open>
  A page load: both dialogs without an inline display, the heading as the HTML has
  it, and whatever role an earlier visit left in \<open>localStorage\<close>.
\<close>

definition modal_init :: "string \<Rightarrow> string option \<Rightarrow> modal_ui" where
  "modal_init h0 stored = \<lparr>login_disp = DUnset, role_disp = DUnset, login_title = h0,
                           selected_role = stored\<rparr>"

inductive modal_reach :: "modal_dom \<Rightarrow> string \<Rightarrow> modal_ui \<Rightarrow> bool" for d h0 where
  init: "stored \<in> {None} \<union> Some ` role_label ` UNIV \<Longrightarrow> modal_reach d h0 (modal_init h0 stored)"
| step: "modal_reach d h0 s \<Longrightarrow> modal_reach d h0 (modal_step d s ev)"

text \<open>
  What every reachable state keeps: a dialog is shown only if the page has it, the
  stored role is one the buttons write, the heading changes only where the page has
  one, and a heading other than the page's own and the default greets the stored role
  while the login dialog is open.
\<close>

definition modal_inv :: "modal_dom \<Rightarrow> string \<Rightarrow> modal_ui \<Rightarrow> bool" where
  "modal_inv d h0 s \<longleftrightarrow>
     (login_disp s = DFlex \<longrightarrow> login_modal d \<and> (\<exists>r. selected_role s = Some (role_label r)))
   \<and> (role_disp s = DFlex \<longrightarrow> role_modal d)
   \<and> (selected_role s \<in> {None} \<union> Some ` range role_label)
   \<and> (\<not> loginTitle d \<longrightarrow> login_title s = h0)
   \<and> (login_title s = h0 \<or> login_title s = defaultLoginTitle
      \<or> (login_disp s = DFlex \<and> (\<exists>r. login_title s = welcome_text (role_label r)
                                     \<and> selected_role s = Some (role_label r))))"

text \<open>The page of \<open>index.html\<close>, holding every element the script looks up.\<close>

definition landing_dom :: modal_dom where
  "landing_dom = \<lparr>login_btn = True, login_modal = True, close_in_login_modal = True,
     h2_in_login_modal = True, role_modal = True, close_in_role_modal = True,
     candidate_btn = True, party_btn = True, admin_btn = True\<rparr>"

section \<open>Invariant\<close>

lemma modal_inv_init:
  "stored \<in> {None} \<union> Some ` range role_label \<Longrightarrow> modal_inv d h0 (modal_init h0 stored)"
  by (auto simp: modal_inv_def modal_init_def)

lemma modal_inv_element_click:
  "modal_inv d h0 s \<Longrightarrow> element_click d t s = Inr s' \<Longrightarrow> modal_inv d h0 s'"
  by (cases t) (auto simp: modal_inv_def reset_title_def openLoginModal_def roleCloseBtn_def
      loginCloseBtn_def loginTitle_def Let_def split: if_splits)

lemma modal_inv_window_click:
  "modal_inv d h0 s \<Longrightarrow> modal_inv d h0 (window_click d t s)"
  by (auto simp: modal_inv_def window_click_def reset_title_def Let_def)

lemma modal_inv_escape:
  "modal_inv d h0 s \<Longrightarrow> modal_inv d h0 (escape_keydown d k s)"
  by (auto simp: modal_inv_def escape_keydown_def reset_title_def Let_def)

lemma modal_inv_step:
  assumes "modal_inv d h0 s"
  shows "modal_inv d h0 (modal_step d s ev)"
proof (cases ev)
  case (Click t)
  have "modal_inv d h0 (fst (absorb s (element_click d t s)))"
    using assms modal_inv_element_click by (cases "element_click d t s") auto
  then show ?thesis
    using Click by (simp add: modal_step_def modal_dispatch_def split_def Let_def modal_inv_window_click)
next
  case (KeyDown k)
  then show ?thesis using assms by (simp add: modal_step_def modal_dispatch_def modal_inv_escape)
qed

lemma modal_reach_inv: "modal_reach d h0 s \<Longrightarrow> modal_inv d h0 s"
proof (induction rule: modal_reach.induct)
  case (init stored)
  then show ?case by (simp add: modal_inv_init)
next
  case (step s ev)
  from step.IH show ?case by (rule modal_inv_step)
qed

lemma modal_reach_run: "modal_reach d h0 s \<Longrightarrow> modal_reach d h0 (modal_run d s evs)"
  by (induction evs arbitrary: s) (auto intro: modal_reach.step)

section \<open>Properties\<close>

text \<open>
  C5. The login dialog never greets the wrong role: in every state the landing page
  can reach, a heading other than the page's own and \<open>Welcome Back!\<close> is shown
  only while the login dialog is open, and it greets exactly the role stored in
  \<open>localStorage\<close> as \<open>selectedRole\<close>.
\<close>

theorem modal_greeting_consistent:
  assumes "modal_reach d h0 s" and "login_title s \<notin> {h0, defaultLoginTitle}"
  shows "login_disp s = DFlex
         \<and> (\<exists>r. login_title s = welcome_text (role_label r) \<and> selected_role s = Some (role_label r))"
  using modal_reach_inv [OF assms(1)] assms(2) by (auto simp: modal_inv_def)

theorem modal_greeting_consistent_witness:
  "modal_reach landing_dom ''Welcome Back!''
     (modal_step landing_dom (modal_init ''Welcome Back!'' None) (Click (OnRoleBtn Candidate)))
   \<and> login_title (modal_step landing_dom (modal_init ''Welcome Back!'' None) (Click (OnRoleBtn Candidate)))
       \<notin> {''Welcome Back!'', defaultLoginTitle}
   \<and> login_disp (modal_step landing_dom (modal_init ''Welcome Back!'' None) (Click (OnRoleBtn Candidate))) = DFlex"
proof -
  let ?s = "modal_step landing_dom (modal_init ''Welcome Back!'' None) (Click (OnRoleBtn Candidate))"
  have r: "modal_reach landing_dom ''Welcome Back!'' ?s"
    by (rule modal_reach.step, rule modal_reach.init) simp
  have t: "login_title ?s \<notin> {''Welcome Back!'', defaultLoginTitle}"
    by (simp add: modal_step_def modal_dispatch_def openLoginModal_def landing_dom_def loginTitle_def
        window_click_def modal_init_def welcome_text_def defaultLoginTitle_def)
  show ?thesis using modal_greeting_consistent [OF r t] r t by blast
qed

text \<open>
  C6. The Escape key closes whatever is open: after it, in any reachable state,
  neither dialog has \<open>display: flex\<close>.
\<close>

theorem modal_escape_closes:
  assumes "modal_reach d h0 s"
  shows "login_disp (modal_step d s (KeyDown ''Escape'')) \<noteq> DFlex
         \<and> role_disp (modal_step d s (KeyDown ''Escape'')) \<noteq> DFlex"
  using modal_reach_inv [OF assms]
  by (auto simp: modal_inv_def modal_step_def modal_dispatch_def escape_keydown_def reset_title_def Let_def)

theorem modal_escape_closes_witness:
  "modal_reach landing_dom ''Welcome Back!'' (modal_init ''Welcome Back!'' (Some ''Admin''))
   \<and> login_disp (modal_step landing_dom (modal_init ''Welcome Back!'' (Some ''Admin'')) (KeyDown ''Escape'')) \<noteq> DFlex
   \<and> role_disp (modal_step landing_dom (modal_init ''Welcome Back!'' (Some ''Admin'')) (KeyDown ''Escape'')) \<noteq> DFlex"
proof -
  have "Some ''Admin'' = Some (role_label Admin)" by simp
  then have r: "modal_reach landing_dom ''Welcome Back!'' (modal_init ''Welcome Back!'' (Some ''Admin''))"
    by (intro modal_reach.init) blast
  show ?thesis using modal_escape_closes [OF r] r by blast
qed

text \<open>
  C7. Choosing a role on a page with both dialogs and the heading closes the role
  dialog, opens the login dialog, greets the role and stores it, and raises nothing.
\<close>

theorem modal_choose_role:
  assumes "role_button d r" and "role_modal d" and "login_modal d" and "h2_in_login_modal d"
  shows "modal_dispatch d s (Click (OnRoleBtn r)) =
           (s\<lparr>role_disp := DNone, login_disp := DFlex, login_title := welcome_text (role_label r),
               selected_role := Some (role_label r)\<rparr>, [])"
  using assms by (simp add: modal_dispatch_def openLoginModal_def loginTitle_def window_click_def)

theorem modal_choose_role_witness:
  "modal_dispatch landing_dom (modal_init ''Welcome Back!'' None) (Click (OnRoleBtn PartyWorker)) =
     ((modal_init ''Welcome Back!'' None)\<lparr>role_disp := DNone, login_disp := DFlex,
        login_title := ''Welcome Party Worker!'', selected_role := Some ''Party Worker''\<rparr>, [])"
  using modal_choose_role [of landing_dom PartyWorker "modal_init ''Welcome Back!'' None"]
  by (simp add: landing_dom_def welcome_text_def)

text \<open>
  C8. On a page with a role button but no role dialog, \<open>openLoginModal\<close> dereferences
  the missing dialog first: the click raises a \<open>TypeError\<close> and changes nothing.
\<close>

theorem modal_choose_role_no_dialog:
  assumes "role_button d r" and "\<not> role_modal d"
  shows "modal_dispatch d s (Click (OnRoleBtn r)) = (s, [TypeError ''roleModal is null''])"
  using assms by (simp add: modal_dispatch_def openLoginModal_def window_click_def)

theorem modal_choose_role_no_dialog_witness:
  "modal_dispatch (landing_dom\<lparr>role_modal := False\<rparr>) (modal_init ''x'' None) (Click (OnRoleBtn Admin))
     = (modal_init ''x'' None, [TypeError ''roleModal is null''])"
  using modal_choose_role_no_dialog [of "landing_dom\<lparr>role_modal := False\<rparr>" Admin]
  by (simp add: landing_dom_def)

end
