(* ===== verification/PageScript.thy ===== *)
theory PageScript
  imports Prelude
begin

text \<open>
  The top level of a dashboard script, run once when the browser loads it. Each
  statement the model needs is one of: install a listener if an element exists
  (\<open>if (el) el.addEventListener(...)\<close>), install one on an element without checking
  it (\<open>document.getElementById(id).addEventListener(...)\<close>, a \<open>TypeError\<close> when the
  element is missing), install one on \<open>document\<close> or \<open>window\<close>, or, inside an
  \<open>if (el)\<close>, read a name no enclosing scope declares (a \<open>ReferenceError\<close>),
  use an element without checking it otherwise (\<open>Touch\<close>: a property write or
  method call on \<open>null\<close> raises), or call a function no script defines
  (\<open>Reads\<close>). The first exception ends the script: nothing after it runs. A document is the set of
  element ids it holds.
\<close>

type_synonym element_id = string
type_synonym listener = string

datatype top_stmt =
    IfPresent element_id listener
  | Unchecked element_id listener
  | Global listener
  | IfPresentReads element_id string
  | Touch element_id
  | Reads string

fun run_top :: "(element_id \<Rightarrow> bool) \<Rightarrow> top_stmt list \<Rightarrow> listener list \<Rightarrow> js_error option \<times> listener list" where
  "run_top has [] acc = (None, acc)"
| "run_top has (IfPresent e l # ss) acc = run_top has ss (if has e then acc @ [l] else acc)"
| "run_top has (Unchecked e l # ss) acc =
     (if has e then run_top has ss (acc @ [l])
      else (Some (TypeError (''Cannot read properties of null (reading addEventListener) at #'' @ e)), acc))"
| "run_top has (Global l # ss) acc = run_top has ss (acc @ [l])"
| "run_top has (IfPresentReads e x # ss) acc =
     (if has e then (Some (ReferenceError (x @ '' is not defined'')), acc) else run_top has ss acc)"
| "run_top has (Touch e # ss) acc =
     (if has e then run_top has ss acc
      else (Some (TypeError (''Cannot read properties of null at #'' @ e)), acc))"
| "run_top has (Reads x # ss) acc = (Some (ReferenceError (x @ '' is not defined'')), acc)"

fun stmt_listeners :: "top_stmt \<Rightarrow> listener list" where
  "stmt_listeners (IfPresent e l) = [l]"
| "stmt_listeners (Unchecked e l) = [l]"
| "stmt_listeners (Global l) = [l]"
| "stmt_listeners (IfPresentReads e x) = []"
| "stmt_listeners (Touch e) = []"
| "stmt_listeners (Reads x) = []"

definition load_script :: "(element_id \<Rightarrow> bool) \<Rightarrow> top_stmt list \<Rightarrow> js_error option \<times> listener list" where
  "load_script has ss = run_top has ss []"

section \<open>Lemmas\<close>

lemma run_top_append_ok:
  "fst (run_top has ss acc) = None \<Longrightarrow>
   run_top has (ss @ ts) acc = run_top has ts (snd (run_top has ss acc))"
  by (induction has ss acc rule: run_top.induct) (auto split: if_splits)

lemma run_top_append_err:
  "fst (run_top has ss acc) = Some e \<Longrightarrow> run_top has (ss @ ts) acc = run_top has ss acc"
  by (induction has ss acc rule: run_top.induct) (auto split: if_splits)

lemma run_top_listeners:
  "set (snd (run_top has ss acc)) \<subseteq> set acc \<union> set (concat (map stmt_listeners ss))"
  by (induction has ss acc rule: run_top.induct) auto

lemma run_top_keeps_acc: "set acc \<subseteq> set (snd (run_top has ss acc))"
  by (induction has ss acc rule: run_top.induct) (auto split: if_splits)

lemma run_top_global_installed:
  "fst (run_top has ss acc) = None \<Longrightarrow> Global l \<in> set ss \<Longrightarrow> l \<in> set (snd (run_top has ss acc))"
proof (induction has ss acc rule: run_top.induct)
  case (4 has l' ss acc)
  then show ?case using run_top_keeps_acc [of "acc @ [l']" has ss] by auto
qed (auto split: if_splits)

lemma run_top_stops:
  assumes "fst (run_top has pre []) = None" and "has e"
  shows "run_top has (pre @ IfPresentReads e x # post) [] =
           (Some (ReferenceError (x @ '' is not defined'')), snd (run_top has pre []))"
  using run_top_append_ok [OF assms(1)] assms(2) by simp

end
