(* ===== verification/Households.thy ===== *)
theory Households
  imports Escape
begin

text \<open>
  The household table of the worker dashboard, \<open>src/static/js/worker.js\<close>:
  \<open>fetchHouseholds\<close> stores the server's list in \<open>allHouseholds\<close> and calls
  \<open>renderHouseholds\<close>, which filters by the search box (case-insensitive substring of
  the house number), computes the number of pages, clamps \<open>householdCurrentPage\<close>
  into range and renders one page of rows with a chip per voter. The listeners on the
  paging controls and the search box move the page and render again. The state is
  \<open>hh_state\<close> (the three globals), the form fields read are \<open>hh_dom\<close>, and a
  rendering is \<open>hh_view\<close> (the table body's rows and the page caption). Which
  listeners exist is \<open>hh_listeners\<close>; \<open>WorkerPage\<close> computes it from the script's
  top level.
\<close>

record hh_voter =
  v_id :: jsval
  v_name :: jsval
  v_landmark :: jsval
  v_latitude :: jsval
  v_longitude :: jsval

record household =
  house_number :: jsval
  hh_voters :: "hh_voter list option"

record hh_state =
  householdCurrentPage :: int
  householdEntriesPerPage :: "int option"
  allHouseholds :: "household list"

text \<open>The elements \<open>renderHouseholds\<close> reads: present or not, and the fields' values.\<close>

record hh_dom =
  householdTableBody :: bool
  householdSearchInput :: "string option"
  householdEntriesSelect :: "string option"
  householdPageInfo :: bool

record voter_chip =
  chip_id :: string
  chip_name :: string
  chip_landmark :: string
  chip_lat :: string
  chip_lng :: string
  chip_label :: string

datatype hh_table = HhRows "(string \<times> voter_chip list) list" | HhNoneFound

record hh_view =
  hh_tbody :: hh_table
  hh_caption :: "string option"

datatype hh_outcome = NoTable | Thrown js_error | Rendered hh_view

section \<open>One rendering\<close>

text \<open>\<open>document.getElementById('householdSearchInput')?.value.toLowerCase() || ''\<close>\<close>

definition hh_search_term :: "string option \<Rightarrow> string" where
  "hh_search_term f = (case f of None \<Rightarrow> [] | Some v \<Rightarrow> js_lower v)"

text \<open>\<open>Number(document.getElementById('householdEntriesPerPage')?.value || 25)\<close>\<close>

definition hh_entries_value :: "string option \<Rightarrow> int option" where
  "hh_entries_value f = (case f of None \<Rightarrow> Some 25 | Some v \<Rightarrow> if v = [] then Some 25 else js_Number_str v)"

text \<open>\<open>(h.house_number || '').toLowerCase()\<close>: a truthy non-string has no \<open>toLowerCase\<close>.\<close>

definition hh_key :: "jsval \<Rightarrow> js_error + string" where
  "hh_key v = (case js_or v (JStr []) of
                 JStr s \<Rightarrow> Inr (js_lower s)
               | _ \<Rightarrow> Inl (TypeError ''toLowerCase is not a function''))"

fun hh_filter :: "string \<Rightarrow> household list \<Rightarrow> js_error + household list" where
  "hh_filter t [] = Inr []"
| "hh_filter t (h # hs) =
     (case hh_key (house_number h) of
        Inl e \<Rightarrow> Inl e
      | Inr k \<Rightarrow> (case hh_filter t hs of
                   Inl e \<Rightarrow> Inl e
                 | Inr r \<Rightarrow> Inr (if js_includes k t then h # r else r)))"

text \<open>\<open>Math.max(1, Math.ceil(filtered.length / householdEntriesPerPage))\<close>\<close>

definition hh_total_pages :: "nat \<Rightarrow> int option \<Rightarrow> jsnum" where
  "hh_total_pages n per =
     (case per of
        None \<Rightarrow> JNaN
      | Some p \<Rightarrow> if p = 0 then (if n = 0 then JNaN else JInf)
                  else JFin (max 1 (- ((- int n) div p))))"

text \<open>\<open>if (householdCurrentPage > totalPages) householdCurrentPage = totalPages\<close>\<close>

definition clamp_page :: "int \<Rightarrow> jsnum \<Rightarrow> int" where
  "clamp_page page tp = (case tp of JFin t \<Rightarrow> if page > t then t else page | _ \<Rightarrow> page)"

text \<open>\<open>filtered.slice((page - 1) * per, page * per)\<close>; NaN bounds slice nothing.\<close>

definition hh_page_items :: "'a list \<Rightarrow> int \<Rightarrow> int option \<Rightarrow> 'a list" where
  "hh_page_items xs page per =
     (case per of None \<Rightarrow> [] | Some p \<Rightarrow> js_slice xs ((page - 1) * p) (page * p))"

definition jsnum_str :: "jsnum \<Rightarrow> string" where
  "jsnum_str x = (case x of JFin i \<Rightarrow> int_str i | JInf \<Rightarrow> ''Infinity'' | JNaN \<Rightarrow> ''NaN'')"

definition render_chip :: "hh_voter \<Rightarrow> voter_chip" where
  "render_chip v =
     \<lparr>chip_id = js_to_string (v_id v), chip_name = safe (v_name v),
      chip_landmark = safe (js_or (v_landmark v) (JStr [])),
      chip_lat = js_to_string (js_or (v_latitude v) (JStr [])),
      chip_lng = js_to_string (js_or (v_longitude v) (JStr [])),
      chip_label = safe (v_name v)\<rparr>"

definition render_household_row :: "household \<Rightarrow> string \<times> voter_chip list" where
  "render_household_row h =
     (safe (house_number h), map render_chip (case hh_voters h of None \<Rightarrow> [] | Some vs \<Rightarrow> vs))"

definition renderHouseholds :: "hh_dom \<Rightarrow> hh_state \<Rightarrow> hh_state \<times> hh_outcome" where
  "renderHouseholds d s =
     (if \<not> householdTableBody d then (s, NoTable)
      else
        let term = hh_search_term (householdSearchInput d);
            per = hh_entries_value (householdEntriesSelect d);
            s1 = s\<lparr>householdEntriesPerPage := per\<rparr>
        in case hh_filter term (allHouseholds s1) of
             Inl e \<Rightarrow> (s1, Thrown e)
           | Inr filtered \<Rightarrow>
               let tp = hh_total_pages (length filtered) per;
                   page = clamp_page (householdCurrentPage s1) tp;
                   s2 = s1\<lparr>householdCurrentPage := page\<rparr>;
                   items = hh_page_items filtered page per;
                   table = (if items = [] then HhNoneFound
                            else HhRows (map render_household_row items));
                   caption = (if householdPageInfo d
                              then Some (''Page '' @ int_str page @ '' of '' @ jsnum_str tp)
                              else None)
               in (s2, Rendered \<lparr>hh_tbody = table, hh_caption = caption\<rparr>))"

section \<open>Listeners\<close>

text \<open>Which of the paging listeners the script managed to install.\<close>

record hh_listeners =
  prev_onclick :: bool
  next_onclick :: bool
  search_oninput :: bool
  entries_onchange :: bool

datatype hh_event =
  HhFetched "household list option"
  | HhPrev | HhNext | HhSearch string | HhEntries string

text \<open>
  \<open>fetchHouseholds\<close>: a failed request (network error, non-2xx status, unreadable
  body) is \<open>None\<close> and is only logged.
\<close>

definition fetchHouseholds :: "hh_dom \<Rightarrow> hh_state \<Rightarrow> household list option \<Rightarrow> hh_state \<times> hh_outcome option" where
  "fetchHouseholds d s resp =
     (case resp of
        None \<Rightarrow> (s, None)
      | Some hs \<Rightarrow> let (s', out) = renderHouseholds d (s\<lparr>allHouseholds := hs\<rparr>) in (s', Some out))"

definition hh_prev :: "hh_dom \<Rightarrow> hh_state \<Rightarrow> hh_state \<times> hh_outcome option" where
  "hh_prev d s =
     (if householdCurrentPage s > 1
      then let (s', out) = renderHouseholds d (s\<lparr>householdCurrentPage := householdCurrentPage s - 1\<rparr>)
           in (s', Some out)
      else (s, None))"

definition hh_restart :: "hh_dom \<Rightarrow> hh_state \<Rightarrow> hh_state \<times> hh_outcome option" where
  "hh_restart d s =
     (let (s', out) = renderHouseholds d (s\<lparr>householdCurrentPage := 1\<rparr>) in (s', Some out))"

text \<open>
  One event on the pair of form fields and globals. Typing into the search box or
  choosing a page size changes the field whether or not a listener is installed.
  The next-page listener compares with \<open>totalPages\<close>, which no scope of it
  declares: were it installed, a click would raise a \<open>ReferenceError\<close> before any
  state changes (\<open>WorkerPage\<close> shows it never is).
\<close>

fun hh_step :: "hh_listeners \<Rightarrow> hh_dom \<times> hh_state \<Rightarrow> hh_event \<Rightarrow> (hh_dom \<times> hh_state) \<times> hh_outcome option" where
  "hh_step L (d, s) (HhFetched resp) = (let (s', out) = fetchHouseholds d s resp in ((d, s'), out))"
| "hh_step L (d, s) HhPrev =
     (if prev_onclick L then let (s', out) = hh_prev d s in ((d, s'), out) else ((d, s), None))"
| "hh_step L (d, s) HhNext =
     (if next_onclick L then ((d, s), Some (Thrown (ReferenceError ''totalPages is not defined'')))
      else ((d, s), None))"
| "hh_step L (d, s) (HhSearch v) =
     (let d' = (if householdSearchInput d = None then d else d\<lparr>householdSearchInput := Some v\<rparr>)
      in if search_oninput L then let (s', out) = hh_restart d' s in ((d', s'), out) else ((d', s), None))"
| "hh_step L (d, s) (HhEntries v) =
     (let d' = (if householdEntriesSelect d = None then d else d\<lparr>householdEntriesSelect := Some v\<rparr>)
      in if entries_onchange L then let (s', out) = hh_restart d' s in ((d', s'), out) else ((d', s), None))"

text \<open>The number of pages for a positive page size: \<open>Math.max(1, Math.ceil(n / p))\<close>.\<close>

definition hh_last_page :: "nat \<Rightarrow> int \<Rightarrow> int" where
  "hh_last_page n p = max 1 (- ((- int n) div p))"

text \<open>A worker page with every household control, showing two rows per page.\<close>

definition hh_demo_dom :: hh_dom where
  "hh_demo_dom = \<lparr>householdTableBody = True, householdSearchInput = None,
     householdEntriesSelect = Some ''2'', householdPageInfo = True\<rparr>"

definition hh_demo_households :: "household list" where
  "hh_demo_households =
     [\<lparr>house_number = JStr ''A1'', hh_voters = None\<rparr>, \<lparr>house_number = JStr ''A2'', hh_voters = None\<rparr>,
      \<lparr>house_number = JStr ''B1'', hh_voters = None\<rparr>]"

definition hh_init :: "hh_state" where
  "hh_init = \<lparr>householdCurrentPage = 1, householdEntriesPerPage = Some 25, allHouseholds = []\<rparr>"

inductive hh_reach :: "hh_listeners \<Rightarrow> hh_dom \<times> hh_state \<Rightarrow> bool" for L where
  init: "hh_reach L (d, hh_init)"
| step: "hh_reach L ds \<Longrightarrow> hh_reach L (fst (hh_step L ds ev))"

section \<open>Paging lemmas\<close>

lemma take_chunks: "concat (map (\<lambda>i. take p (drop (i * p) xs)) [0..<k]) = take (k * p) xs"
proof (induction k)
  case 0 then show ?case by simp
next
  case (Suc k)
  have "take (Suc k * p) xs = take (k * p + p) xs" by (simp add: add.commute)
  also have "\<dots> = take (k * p) xs @ take p (drop (k * p) xs)" by (rule take_add)
  finally have "take (Suc k * p) xs = take (k * p) xs @ take p (drop (k * p) xs)" .
  with Suc show ?case by simp
qed

lemma hh_page_items_pos:
  assumes "0 < p"
  shows "hh_page_items xs (int i + 1) (Some p) = take (nat p) (drop (i * nat p) xs)"
proof -
  have lo: "0 \<le> int i * p" and hi: "int i * p \<le> (int i + 1) * p"
    using assms by (simp_all add: algebra_simps)
  have "nat (int i * p) = i * nat p" using assms by (simp add: nat_mult_distrib)
  moreover have "nat ((int i + 1) * p) = i * nat p + nat p"
    using assms by (simp add: algebra_simps nat_add_distrib nat_mult_distrib)
  ultimately show ?thesis
    using js_slice_nonneg [OF lo hi, of xs] by (simp add: hh_page_items_def)
qed

lemma last_page_covers: "0 < p \<Longrightarrow> int n \<le> hh_last_page n p * p"
proof -
  assume p: "0 < p"
  have "- ((- int n) div p) * p \<ge> int n"
  proof -
    have "(- int n) div p * p + (- int n) mod p = - int n" by (rule div_mult_mod_eq)
    moreover have "0 \<le> (- int n) mod p" using p by simp
    ultimately show ?thesis by linarith
  qed
  moreover have "- ((- int n) div p) * p \<le> hh_last_page n p * p"
  proof (rule mult_right_mono)
    show "- ((- int n) div p) \<le> hh_last_page n p" by (simp add: hh_last_page_def)
  qed (use p in simp)
  ultimately show ?thesis by linarith
qed

lemma upto_one_map: "[1..int k] = map (\<lambda>i. int i + 1) [0..<k]"
proof (induction k)
  case 0 then show ?case by simp
next
  case (Suc k)
  have "[1..int (Suc k)] = [1..int k] @ [int k + 1]"
    using upto_rec2 [of 1 "int (Suc k)"] by simp
  with Suc show ?case by simp
qed

lemma hh_total_pages_pos: "0 < p \<Longrightarrow> hh_total_pages n (Some p) = JFin (hh_last_page n p)"
  by (simp add: hh_total_pages_def hh_last_page_def)

lemma hh_total_pages_fin_ge1: "hh_total_pages n per = JFin t \<Longrightarrow> 1 \<le> t"
  by (auto simp: hh_total_pages_def split: option.splits if_splits)

lemma hh_last_page_ge1: "1 \<le> hh_last_page n p"
  by (simp add: hh_last_page_def)

lemma hh_last_page_tight:
  assumes "0 < p" and "0 < n"
  shows "(hh_last_page n p - 1) * p < int n"
proof -
  have eq: "(- int n) div p * p + (- int n) mod p = - int n" by (rule div_mult_mod_eq)
  have m: "(- int n) mod p < p" using assms(1) by simp
  have "(- ((- int n) div p) - 1) * p = - ((- int n) div p * p) - p" by (simp add: algebra_simps)
  with eq m have lt: "(- ((- int n) div p) - 1) * p < int n" by linarith
  have "(- int n) div p < 0" using assms by (simp add: div_neg_pos_less0)
  then have "hh_last_page n p = - ((- int n) div p)" by (simp add: hh_last_page_def)
  with lt show ?thesis by simp
qed

lemma clamp_page_bounds:
  "1 \<le> page \<Longrightarrow> 1 \<le> t \<Longrightarrow> 1 \<le> clamp_page page (JFin t) \<and> clamp_page page (JFin t) \<le> t"
  by (simp add: clamp_page_def)

lemma clamp_page_ge1: "1 \<le> page \<Longrightarrow> hh_total_pages n per = tp \<Longrightarrow> 1 \<le> clamp_page page tp"
  by (cases tp) (auto simp: clamp_page_def dest: hh_total_pages_fin_ge1)

lemma hh_page_items_shape:
  assumes "0 < p" and "1 \<le> q"
  shows "hh_page_items xs q (Some p) = take (nat p) (drop (nat (q - 1) * nat p) xs)"
proof -
  have "q = int (nat (q - 1)) + 1" using assms(2) by simp
  then show ?thesis using hh_page_items_pos [OF assms(1), of xs "nat (q - 1)"] by simp
qed

lemma hh_page_items_nonempty:
  assumes "0 < p" and "1 \<le> q" and "q \<le> hh_last_page (length xs) p" and "xs \<noteq> []"
  shows "hh_page_items xs q (Some p) \<noteq> []"
proof -
  have "(q - 1) * p \<le> (hh_last_page (length xs) p - 1) * p"
    using assms by (simp add: mult_right_mono)
  also have "\<dots> < int (length xs)"
    using assms by (simp add: hh_last_page_tight)
  finally have "nat (q - 1) * nat p < length xs"
    using assms by (simp add: nat_mult_distrib [symmetric] nat_less_iff)
  then show ?thesis using assms by (simp add: hh_page_items_shape)
qed

lemma length_hh_page_items: "0 < p \<Longrightarrow> 1 \<le> q \<Longrightarrow> length (hh_page_items xs q (Some p)) \<le> nat p"
  by (simp add: hh_page_items_shape)

lemma renderHouseholds_page_ge1:
  "1 \<le> householdCurrentPage s \<Longrightarrow> 1 \<le> householdCurrentPage (fst (renderHouseholds d s))"
  by (auto simp: renderHouseholds_def Let_def clamp_page_ge1 split: sum.splits)

lemma hh_step_page_ge1:
  assumes "1 \<le> householdCurrentPage (snd ds)"
  shows "1 \<le> householdCurrentPage (snd (fst (hh_step L ds ev)))"
proof -
  obtain d s where ds: "ds = (d, s)" by fastforce
  show ?thesis using assms ds
    by (cases ev) (auto simp: fetchHouseholds_def hh_prev_def hh_restart_def Let_def split_def
        renderHouseholds_page_ge1 split: option.splits)
qed

lemma clamp_page_one: "hh_total_pages n per = tp \<Longrightarrow> clamp_page 1 tp = 1"
  by (cases tp) (auto simp: clamp_page_def dest: hh_total_pages_fin_ge1)

lemma renderHouseholds_page_one:
  "householdCurrentPage s = 1 \<Longrightarrow> householdCurrentPage (fst (renderHouseholds d s)) = 1"
  by (auto simp: renderHouseholds_def Let_def clamp_page_one split: sum.splits)

lemma hh_step_page_one:
  assumes "householdCurrentPage (snd ds) = 1"
  shows "householdCurrentPage (snd (fst (hh_step L ds ev))) = 1"
proof -
  obtain d s where ds: "ds = (d, s)" by fastforce
  show ?thesis using assms ds
    by (cases ev) (auto simp: fetchHouseholds_def hh_prev_def hh_restart_def Let_def split_def
        renderHouseholds_page_one split: option.splits)
qed

lemma hh_filter_strings:
  "(\<forall>h\<in>set hs. house_number h = JStr (hn h)) \<Longrightarrow>
   hh_filter (js_lower q) hs = Inr [h\<leftarrow>hs. js_includes (js_lower (hn h)) (js_lower q)]"
  by (induction hs) (auto simp: hh_key_def js_or_def)

lemma hh_filter_error:
  "h \<in> set hs \<Longrightarrow> house_number h = JNum n \<Longrightarrow> n \<noteq> 0 \<Longrightarrow> \<exists>e. hh_filter t hs = Inl e"
  by (induction hs) (auto simp: hh_key_def js_or_def split: sum.splits jsval.splits)

lemma hh_reach_page_ge1: "hh_reach L ds \<Longrightarrow> 1 \<le> householdCurrentPage (snd ds)"
proof (induction rule: hh_reach.induct)
  case (init d)
  then show ?case by (simp add: hh_init_def)
next
  case (step ds ev)
  from step.IH show ?case by (rule hh_step_page_ge1)
qed

section \<open>Properties\<close>

text \<open>
  C9. One rendering with a positive page size: the current page ends in
  \<open>1 .. totalPages\<close>, the table shows between one and \<open>per\<close> households, and it
  says ``No households found'' only when no household matches the search.
\<close>

theorem renderHouseholds_page_bounds:
  assumes r: "renderHouseholds d s = (s', Rendered v)"
    and f: "hh_filter (hh_search_term (householdSearchInput d)) (allHouseholds s) = Inr fl"
    and e: "hh_entries_value (householdEntriesSelect d) = Some p" and p: "0 < p"
    and g: "1 \<le> householdCurrentPage s"
  shows "1 \<le> householdCurrentPage s' \<and> householdCurrentPage s' \<le> hh_last_page (length fl) p
         \<and> (case hh_tbody v of HhNoneFound \<Rightarrow> fl = [] | HhRows rows \<Rightarrow> rows \<noteq> [] \<and> length rows \<le> nat p)"
proof -
  have tb: "householdTableBody d" using r by (auto simp: renderHouseholds_def split: if_splits)
  define q where "q = clamp_page (householdCurrentPage s) (JFin (hh_last_page (length fl) p))"
  have q: "1 \<le> q \<and> q \<le> hh_last_page (length fl) p"
    unfolding q_def using clamp_page_bounds g hh_last_page_ge1 by blast
  have s': "householdCurrentPage s' = q"
    and v: "hh_tbody v = (if hh_page_items fl q (Some p) = [] then HhNoneFound
                          else HhRows (map render_household_row (hh_page_items fl q (Some p))))"
    using r tb f e p by (auto simp: renderHouseholds_def Let_def q_def hh_total_pages_pos)
  show ?thesis
    using q s' v hh_page_items_nonempty [OF p, of q fl] length_hh_page_items [OF p, of q fl]
    by auto
qed

theorem renderHouseholds_page_bounds_witness:
  "1 \<le> householdCurrentPage (fst (renderHouseholds hh_demo_dom
          \<lparr>householdCurrentPage = 5, householdEntriesPerPage = Some 25, allHouseholds = hh_demo_households\<rparr>))
   \<and> householdCurrentPage (fst (renderHouseholds hh_demo_dom
          \<lparr>householdCurrentPage = 5, householdEntriesPerPage = Some 25, allHouseholds = hh_demo_households\<rparr>))
       \<le> hh_last_page 3 2"
proof -
  let ?s = "\<lparr>householdCurrentPage = 5, householdEntriesPerPage = Some 25, allHouseholds = hh_demo_households\<rparr>"
  have r: "renderHouseholds hh_demo_dom ?s =
    (?s\<lparr>householdEntriesPerPage := Some 2, householdCurrentPage := 2\<rparr>,
     Rendered \<lparr>hh_tbody = HhRows [(''B1'', [])], hh_caption = Some ''Page 2 of 2''\<rparr>)"
    unfolding hh_demo_dom_def hh_demo_households_def by code_simp
  have f: "hh_filter (hh_search_term (householdSearchInput hh_demo_dom)) (allHouseholds ?s) = Inr hh_demo_households"
    unfolding hh_demo_dom_def hh_demo_households_def by code_simp
  have e: "hh_entries_value (householdEntriesSelect hh_demo_dom) = Some 2"
    unfolding hh_demo_dom_def by code_simp
  have l: "length hh_demo_households = 3" by (simp add: hh_demo_households_def)
  show ?thesis
    using renderHouseholds_page_bounds [OF r f e _] r l by simp
qed

text \<open>
  C10. Paging loses and repeats nothing: with a positive page size, the pages
  \<open>1 .. totalPages\<close> of the filtered list, one after the other, are that list.
\<close>

theorem hh_pages_partition:
  assumes "0 < p"
  shows "concat (map (\<lambda>q. hh_page_items xs q (Some p)) [1..hh_last_page (length xs) p]) = xs"
proof -
  define T where "T = hh_last_page (length xs) p"
  have T1: "1 \<le> T" by (simp add: T_def hh_last_page_def)
  have "[1..T] = map (\<lambda>i. int i + 1) [0..<nat T]"
    using T1 upto_one_map [of "nat T"] by simp
  then have "concat (map (\<lambda>q. hh_page_items xs q (Some p)) [1..T])
      = concat (map (\<lambda>i. take (nat p) (drop (i * nat p) xs)) [0..<nat T])"
    using assms by (simp add: hh_page_items_pos comp_def del: upto.simps)
  also have "\<dots> = take (nat T * nat p) xs" by (rule take_chunks)
  also have "\<dots> = xs"
  proof -
    have "int (length xs) \<le> T * p" using last_page_covers [OF assms] by (simp add: T_def)
    moreover have "nat (T * p) = nat T * nat p" using T1 by (simp add: nat_mult_distrib)
    ultimately have "length xs \<le> nat T * nat p" by (metis nat_int nat_mono)
    then show ?thesis by simp
  qed
  finally show ?thesis by (simp add: T_def)
qed
theorem hh_pages_partition_witness:
  "concat (map (\<lambda>q. hh_page_items hh_demo_households q (Some 2))
     [1..hh_last_page (length hh_demo_households) 2]) = hh_demo_households"
  using hh_pages_partition [of 2 hh_demo_households] by simp

text \<open>
  C11. In every state the household controls can reach from page load,
  \<open>householdCurrentPage\<close> is at least 1.
\<close>

theorem hh_reach_page_positive:
  assumes "hh_reach L (d, s)"
  shows "1 \<le> householdCurrentPage s"
  using hh_reach_page_ge1 [OF assms] by simp

theorem hh_reach_page_positive_witness:
  "1 \<le> householdCurrentPage (snd (fst (hh_step \<lparr>prev_onclick = True, next_onclick = False,
      search_oninput = False, entries_onchange = False\<rparr> (hh_demo_dom, hh_init) HhPrev)))"
proof -
  let ?L = "\<lparr>prev_onclick = True, next_onclick = False, search_oninput = False, entries_onchange = False\<rparr>"
  have "hh_reach ?L (fst (hh_step ?L (hh_demo_dom, hh_init) HhPrev))"
    by (rule hh_reach.step, rule hh_reach.init)
  then have "hh_reach ?L (fst (fst (hh_step ?L (hh_demo_dom, hh_init) HhPrev)),
                          snd (fst (hh_step ?L (hh_demo_dom, hh_init) HhPrev)))" by simp
  from hh_reach_page_positive [OF this] show ?thesis .
qed

text \<open>
  C12. The search is a case-insensitive substring match on the house number: when
  every house number is a string, the filter keeps exactly the households whose
  lower-cased number contains the lower-cased search text, in the server's order.
\<close>

theorem hh_filter_matches:
  assumes "\<forall>h\<in>set hs. house_number h = JStr (hn h)"
  shows "hh_filter (hh_search_term (Some q)) hs = Inr [h\<leftarrow>hs. sublist (js_lower q) (js_lower (hn h))]"
  using hh_filter_strings [OF assms, of q] by (simp add: hh_search_term_def js_includes_def)

theorem hh_filter_matches_witness:
  "hh_filter (hh_search_term (Some ''a'')) hh_demo_households = Inr (take 2 hh_demo_households)"
proof -
  have h: "\<forall>h\<in>set hh_demo_households. house_number h = JStr (js_to_string (house_number h))"
    by (simp add: hh_demo_households_def)
  show ?thesis
    using hh_filter_matches [OF h, of "''a''"]
    unfolding hh_demo_households_def by code_simp
qed

text \<open>
  C13. A house number the server sends as a non-zero number has no
  \<open>toLowerCase\<close>: the filter raises a \<open>TypeError\<close> and \<open>renderHouseholds\<close>
  renders nothing.
\<close>

theorem renderHouseholds_numeric_house:
  assumes "householdTableBody d" and "h \<in> set (allHouseholds s)"
    and "house_number h = JNum n" and "n \<noteq> 0"
  shows "\<exists>e. snd (renderHouseholds d s) = Thrown e"
proof -
  obtain e where "hh_filter (hh_search_term (householdSearchInput d)) (allHouseholds s) = Inl e"
    using hh_filter_error [OF assms(2,3,4)] by blast
  then show ?thesis using assms(1) by (auto simp: renderHouseholds_def Let_def)
qed

theorem renderHouseholds_numeric_house_witness:
  "\<exists>e. snd (renderHouseholds hh_demo_dom
      \<lparr>householdCurrentPage = 1, householdEntriesPerPage = Some 25,
       allHouseholds = [\<lparr>house_number = JNum 12, hh_voters = None\<rparr>]\<rparr>) = Thrown e"
  by (rule renderHouseholds_numeric_house [where h = "\<lparr>house_number = JNum 12, hh_voters = None\<rparr>" and n = 12])
    (simp_all add: hh_demo_dom_def)

text \<open>
  C16. The household list never leaves its first page: in every state the
  household controls can reach from page load, whichever of their listeners the
  script installed, \<open>householdCurrentPage\<close> is 1. The next-page listener reads the
  undeclared \<open>totalPages\<close> and raises before it increments, the previous-page
  listener only acts above page 1, a search or a page-size change restarts at page
  1, and a rendering only lowers the page.
\<close>

theorem hh_reach_page_one:
  assumes "hh_reach L (d, s)"
  shows "householdCurrentPage s = 1"
proof -
  have "householdCurrentPage (snd ds) = 1" if "hh_reach L ds" for ds
    using that
  proof (induction rule: hh_reach.induct)
    case (init d)
    then show ?case by (simp add: hh_init_def)
  next
    case (step ds ev)
    from step.IH show ?case by (rule hh_step_page_one)
  qed
  from this [OF assms] show ?thesis by simp
qed

theorem hh_reach_page_one_witness:
  "householdCurrentPage (snd (fst (hh_step \<lparr>prev_onclick = True, next_onclick = True,
      search_oninput = True, entries_onchange = True\<rparr> (hh_demo_dom, hh_init) HhNext))) = 1"
proof -
  let ?L = "\<lparr>prev_onclick = True, next_onclick = True, search_oninput = True, entries_onchange = True\<rparr>"
  have "hh_reach ?L (fst (hh_step ?L (hh_demo_dom, hh_init) HhNext))"
    by (rule hh_reach.step, rule hh_reach.init)
  then have "hh_reach ?L (fst (fst (hh_step ?L (hh_demo_dom, hh_init) HhNext)),
                          snd (fst (hh_step ?L (hh_demo_dom, hh_init) HhNext)))" by simp
  from hh_reach_page_one [OF this] show ?thesis .
qed

end
