(* ===== verification/WorkerPage.thy ===== *)
theory WorkerPage
  imports PageScript Households
begin

text \<open>
  The top level of \<open>src/static/js/worker.js\<close>: the statements that run when the
  script loads, in source order. Every one installs a listener when its element
  exists, except the household next-page block, which first assigns
  \<open>householdNextBtn.disabled = householdCurrentPage >= totalPages\<close>; \<open>totalPages\<close>
  is a constant local to \<open>renderHouseholds\<close>, so on a page with that button the
  assignment raises a \<open>ReferenceError\<close> and the rest of the script never runs.
  \<open>worker_hh_listeners\<close> reads off which household controls got a listener, the
  interface to \<open>Households\<close>.
\<close>

definition worker_script :: "top_stmt list" where
  "worker_script =
     [IfPresent ''prevPage'' ''prevPage.click'',
      IfPresent ''nextPage'' ''nextPage.click'',
      IfPresent ''searchBtn'' ''searchBtn.click'',
      IfPresent ''entriesPerPage'' ''entriesPerPage.change'',
      IfPresent ''genderFilter'' ''genderFilter.change'',
      IfPresent ''householdPrevPage'' ''householdPrevPage.onclick'',
      IfPresentReads ''householdNextPage'' ''totalPages'',
      IfPresent ''householdSearchInput'' ''householdSearchInput.oninput'',
      IfPresent ''householdEntriesPerPage'' ''householdEntriesPerPage.onchange'',
      IfPresent ''taskForm'' ''taskForm.submit'',
      IfPresent ''messageForm'' ''messageForm.submit'',
      IfPresent ''reportForm'' ''reportForm.submit'',
      IfPresent ''searchInput'' ''searchInput.keypress'',
      Global ''document.DOMContentLoaded'']"

text \<open>The statements before the household next-page block.\<close>

definition worker_script_head :: "top_stmt list" where
  "worker_script_head = take 6 worker_script"

definition worker_hh_listeners :: "listener list \<Rightarrow> hh_listeners" where
  "worker_hh_listeners ls =
     \<lparr>prev_onclick = ''householdPrevPage.onclick'' \<in> set ls,
      next_onclick = ''householdNextPage.onclick'' \<in> set ls,
      search_oninput = ''householdSearchInput.oninput'' \<in> set ls,
      entries_onchange = ''householdEntriesPerPage.onchange'' \<in> set ls\<rparr>"

text \<open>The listeners that come after the household next-page block.\<close>

definition worker_late_listeners :: "listener set" where
  "worker_late_listeners =
     {''householdSearchInput.oninput'', ''householdEntriesPerPage.onchange'', ''taskForm.submit'',
      ''messageForm.submit'', ''reportForm.submit'', ''searchInput.keypress'',
      ''document.DOMContentLoaded''}"

section \<open>Lemmas\<close>

lemma worker_head_ok: "fst (run_top has worker_script_head []) = None"
  by (simp add: worker_script_head_def worker_script_def)

lemma worker_script_split:
  "worker_script = worker_script_head @ IfPresentReads ''householdNextPage'' ''totalPages'' # drop 7 worker_script"
  by (simp add: worker_script_def worker_script_head_def)

lemma worker_head_listeners:
  "set (snd (run_top has worker_script_head [])) \<inter> worker_late_listeners = {}"
proof -
  have "set (concat (map stmt_listeners worker_script_head)) \<inter> worker_late_listeners = {}"
    by (simp add: worker_script_head_def worker_script_def worker_late_listeners_def)
  then show ?thesis using run_top_listeners [of has worker_script_head "[]"] by auto
qed

lemma worker_no_next_listener:
  "''householdNextPage.onclick'' \<notin> set (snd (load_script has worker_script))"
proof -
  have "''householdNextPage.onclick'' \<notin> set (concat (map stmt_listeners worker_script))"
    by (simp add: worker_script_def)
  then show ?thesis
    using run_top_listeners [of has worker_script "[]"] unfolding load_script_def by auto
qed

section \<open>Properties\<close>

text \<open>
  C14. On a worker page with a household next-page button, loading \<open>worker.js\<close>
  raises \<open>ReferenceError: totalPages is not defined\<close>, and none of the later
  listeners is installed: not the household search and page-size listeners, not the
  task, message and report forms, not the Enter-key search, and not the
  \<open>DOMContentLoaded\<close> start-up that loads voters and households.
\<close>

theorem worker_load_reference_error:
  assumes "has ''householdNextPage''"
  shows "fst (load_script has worker_script) = Some (ReferenceError ''totalPages is not defined'')
         \<and> set (snd (load_script has worker_script)) \<inter> worker_late_listeners = {}"
proof -
  have "load_script has worker_script =
          (Some (ReferenceError ''totalPages is not defined''), snd (run_top has worker_script_head []))"
    unfolding load_script_def
    using run_top_stops [OF worker_head_ok [of has] assms, of "''totalPages''" "drop 7 worker_script"]
    by (subst worker_script_split) simp
  then show ?thesis using worker_head_listeners [of has] by simp
qed

theorem worker_load_reference_error_witness:
  "fst (load_script (\<lambda>_. True) worker_script) = Some (ReferenceError ''totalPages is not defined'')
   \<and> set (snd (load_script (\<lambda>_. True) worker_script)) \<inter> worker_late_listeners = {}"
  by (rule worker_load_reference_error) simp

text \<open>
  Without that button the script loads without an exception and installs the
  \<open>DOMContentLoaded\<close> start-up.
\<close>

theorem worker_load_without_next:
  assumes "\<not> has ''householdNextPage''"
  shows "fst (load_script has worker_script) = None
         \<and> ''document.DOMContentLoaded'' \<in> set (snd (load_script has worker_script))"
proof -
  have ok: "fst (run_top has worker_script []) = None"
    using assms by (simp add: worker_script_def)
  moreover have "Global ''document.DOMContentLoaded'' \<in> set worker_script"
    by (simp add: worker_script_def)
  ultimately show ?thesis
    using run_top_global_installed by (simp add: load_script_def)
qed

theorem worker_load_without_next_witness:
  "fst (load_script (\<lambda>e. e \<noteq> ''householdNextPage'') worker_script) = None
   \<and> ''document.DOMContentLoaded'' \<in> set (snd (load_script (\<lambda>e. e \<noteq> ''householdNextPage'') worker_script))"
  by (rule worker_load_without_next) simp

end
