(* ===== verification/ActivityFeed.thy ===== *)
theory ActivityFeed
  imports Prelude
begin

text \<open>
  The live activity feed of the candidate's command centre,
  \<open>src/static/js/candidate.js\<close>: \<open>loadActivityFeed\<close> replaces the list
  \<open>#activityFeedList\<close> with the server's activities (reversed, each appended), a
  server-sent event adds one activity at the top (\<open>addActivityItem\<close> with
  \<open>prepend = true\<close>), and after every insertion a \<open>while\<close> loop removes the
  last item until at most 30 remain. The list's items are \<open>feed_item\<close>s: an
  activity's message with its raw timestamp (the time is formatted by
  \<open>toLocaleTimeString\<close>, which the model does not evaluate), or one of the two
  notes the loader writes. The loop is \<open>trim_feed\<close>, a \<open>function\<close> with a length
  measure, and it is shown equal to \<open>take 30\<close>.
\<close>

record activity =
  act_message :: jsval
  act_timestamp :: jsval

datatype feed_note = NoRecentActivities | FeedLoadFailed

datatype feed_item = FeedActivity string jsval | FeedNote feed_note

text \<open>\<open>activity.message || "Unknown event"\<close>, put into the item's HTML as it is.\<close>

definition activity_li :: "activity \<Rightarrow> feed_item" where
  "activity_li a = FeedActivity (js_to_string (js_or (act_message a) (JStr ''Unknown event''))) (act_timestamp a)"

definition feed_cap :: nat where
  "feed_cap = 30"

text \<open>\<open>while (feedList.children.length > 30) feedList.removeChild(feedList.lastChild)\<close>\<close>

function trim_feed :: "feed_item list \<Rightarrow> feed_item list" where
  "trim_feed xs = (if length xs > feed_cap then trim_feed (butlast xs) else xs)"
  by pat_completeness auto
termination
  by (relation "measure length") auto

declare trim_feed.simps [simp del]

text \<open>
  \<open>addActivityItem(activity, prepend)\<close> on a page with (\<open>has_feed\<close>) or without the
  list. A \<open>null\<close> activity (\<open>None\<close>) raises when its \<open>timestamp\<close> is read.
\<close>

definition addActivityItem ::
  "bool \<Rightarrow> activity option \<Rightarrow> bool \<Rightarrow> feed_item list \<Rightarrow> js_error + feed_item list" where
  "addActivityItem has_feed a prepend feed =
     (if \<not> has_feed then Inr feed
      else case a of
        None \<Rightarrow> Inl (TypeError ''Cannot read properties of null (reading timestamp)'')
      | Some act \<Rightarrow>
          let li = activity_li act
          in Inr (trim_feed (if prepend then li # feed else feed @ [li])))"

text \<open>\<open>activities.reverse().forEach(a => addActivityItem(a, false))\<close>\<close>

fun append_all :: "bool \<Rightarrow> activity option list \<Rightarrow> feed_item list \<Rightarrow> js_error + feed_item list" where
  "append_all has_feed [] feed = Inr feed"
| "append_all has_feed (a # as) feed =
     (case addActivityItem has_feed a False feed of
        Inl e \<Rightarrow> Inl e
      | Inr feed' \<Rightarrow> append_all has_feed as feed')"

text \<open>
  \<open>loadActivityFeed\<close>: a failed request or an exception while appending ends in
  the catch block's note; \<open>None\<close> is a failed request.
\<close>

definition loadActivityFeed ::
  "bool \<Rightarrow> activity option list option \<Rightarrow> feed_item list \<Rightarrow> feed_item list" where
  "loadActivityFeed has_feed resp feed =
     (if \<not> has_feed then feed
      else case resp of
        None \<Rightarrow> [FeedNote FeedLoadFailed]
      | Some acts \<Rightarrow>
          if acts = [] then [FeedNote NoRecentActivities]
          else case append_all has_feed (rev acts) [] of
                 Inl e \<Rightarrow> [FeedNote FeedLoadFailed]
               | Inr feed' \<Rightarrow> feed')"

text \<open>
  The \<open>onmessage\<close> handler of the activity stream: the event's data parsed as JSON
  (\<open>None\<close> when it does not parse), then \<open>addActivityItem(activity)\<close>; an
  exception is caught and logged.
\<close>

definition sse_message :: "bool \<Rightarrow> activity option option \<Rightarrow> feed_item list \<Rightarrow> feed_item list" where
  "sse_message has_feed parsed feed =
     (case parsed of
        None \<Rightarrow> feed
      | Some a \<Rightarrow> (case addActivityItem has_feed a True feed of Inl e \<Rightarrow> feed | Inr feed' \<Rightarrow> feed'))"

datatype feed_event = FeedLoad "activity option list option" | FeedPush "activity option option"

fun feed_step :: "bool \<Rightarrow> feed_item list \<Rightarrow> feed_event \<Rightarrow> feed_item list" where
  "feed_step has_feed feed (FeedLoad resp) = loadActivityFeed has_feed resp feed"
| "feed_step has_feed feed (FeedPush parsed) = sse_message has_feed parsed feed"

definition feed_run :: "bool \<Rightarrow> feed_item list \<Rightarrow> feed_event list \<Rightarrow> feed_item list" where
  "feed_run has_feed feed evs = foldl (feed_step has_feed) feed evs"

section \<open>Lemmas\<close>

lemma take_take_append: "take n (take n xs @ ys) = take n (xs @ ys)"
  by (cases "n \<le> length xs") (simp_all add: min_def)

lemma trim_feed_take: "trim_feed xs = take feed_cap xs"
proof (induction xs rule: trim_feed.induct)
  case (1 xs)
  show ?case
  proof (cases "length xs > feed_cap")
    case True
    with "1.IH" have "trim_feed (butlast xs) = take feed_cap (butlast xs)" by simp
    with True show ?thesis by (simp add: trim_feed.simps [of xs] take_butlast)
  next
    case False
    then show ?thesis by (simp add: trim_feed.simps [of xs])
  qed
qed

lemma append_all_Some:
  "length feed \<le> feed_cap \<Longrightarrow>
   append_all True (map Some acts) feed = Inr (take feed_cap (feed @ map activity_li acts))"
proof (induction acts arbitrary: feed)
  case Nil
  then show ?case by simp
next
  case (Cons a acts)
  have "append_all True (map Some (a # acts)) feed
        = append_all True (map Some acts) (take feed_cap (feed @ [activity_li a]))"
    by (simp add: addActivityItem_def trim_feed_take)
  also have "\<dots> = Inr (take feed_cap (take feed_cap (feed @ [activity_li a]) @ map activity_li acts))"
    by (rule Cons.IH) simp
  also have "\<dots> = Inr (take feed_cap (feed @ map activity_li (a # acts)))"
    by (simp only: take_take_append) simp
  finally show ?case .
qed

lemma append_all_None:
  "None \<in> set as \<Longrightarrow> \<exists>e. append_all True as feed = Inl e"
  by (induction as arbitrary: feed) (auto simp: addActivityItem_def split: option.splits sum.splits)

lemma length_append_all:
  "length f \<le> feed_cap \<Longrightarrow> append_all h as f = Inr r \<Longrightarrow> length r \<le> feed_cap"
proof (induction as arbitrary: f)
  case Nil
  then show ?case by simp
next
  case (Cons a as)
  then obtain f' where step: "addActivityItem h a False f = Inr f'" and rest: "append_all h as f' = Inr r"
    by (auto split: sum.splits)
  have "length f' \<le> feed_cap"
    using step Cons.prems(1) by (auto simp: addActivityItem_def trim_feed_take split: if_splits option.splits)
  then show ?case using rest by (rule Cons.IH)
qed

lemma length_loadActivityFeed:
  "length feed \<le> feed_cap \<Longrightarrow> length (loadActivityFeed has_feed resp feed) \<le> feed_cap"
  by (auto simp: loadActivityFeed_def feed_cap_def split: option.splits sum.splits
      dest: length_append_all [rotated, simplified feed_cap_def])

lemma length_sse_message:
  "length feed \<le> feed_cap \<Longrightarrow> length (sse_message has_feed parsed feed) \<le> feed_cap"
  by (auto simp: sse_message_def addActivityItem_def trim_feed_take split: option.splits sum.splits if_splits)

lemma length_feed_step:
  "length feed \<le> feed_cap \<Longrightarrow> length (feed_step has_feed feed ev) \<le> feed_cap"
  by (cases ev) (simp_all add: length_loadActivityFeed length_sse_message)

section \<open>Properties\<close>

text \<open>
  C17. The trimming loop terminates and keeps exactly the first 30 items: for every
  list, running \<open>while (length > 30) remove last\<close> gives \<open>take 30\<close> of it.
\<close>

theorem trim_feed_keeps_first_30: "trim_feed xs = take 30 xs"
  by (simp add: trim_feed_take feed_cap_def)

text \<open>
  C18. The feed never holds more than 30 items: from a list of at most 30, any
  sequence of loads and stream messages (failed, empty, with \<open>null\<close> entries or
  not) leaves at most 30.
\<close>

theorem feed_run_bounded:
  assumes "length feed \<le> 30"
  shows "length (feed_run has_feed feed evs) \<le> 30"
proof -
  have "length (foldl (feed_step has_feed) f evs) \<le> feed_cap" if "length f \<le> feed_cap" for f
    using that by (induction evs arbitrary: f) (simp_all add: length_feed_step)
  then show ?thesis using assms by (simp add: feed_run_def feed_cap_def)
qed

theorem feed_run_bounded_witness:
  "length ([] :: feed_item list) \<le> 30
   \<and> length (feed_run True [] [FeedPush (Some (Some \<lparr>act_message = JStr ''Visit'', act_timestamp = JNull\<rparr>)),
                              FeedLoad None]) \<le> 30"
  using feed_run_bounded [of "[]" True] by simp

text \<open>
  C19. A successful load of activities without \<open>null\<close> entries shows the first 30
  of them in reverse order of the response, one item each.
\<close>

theorem loadActivityFeed_shows:
  assumes "acts \<noteq> []"
  shows "loadActivityFeed True (Some (map Some acts)) feed = take 30 (map activity_li (rev acts))"
proof -
  have "append_all True (rev (map Some acts)) [] = Inr (take feed_cap (map activity_li (rev acts)))"
    using append_all_Some [of "[]" "rev acts"] by (simp add: rev_map)
  then show ?thesis using assms by (simp add: loadActivityFeed_def feed_cap_def)
qed

theorem loadActivityFeed_shows_witness:
  "loadActivityFeed True (Some (map Some [\<lparr>act_message = JStr ''A'', act_timestamp = JNull\<rparr>,
                                          \<lparr>act_message = JNull, act_timestamp = JNull\<rparr>])) []
   = [FeedActivity ''Unknown event'' JNull, FeedActivity ''A'' JNull]"
  using loadActivityFeed_shows [of "[\<lparr>act_message = JStr ''A'', act_timestamp = JNull\<rparr>,
                                     \<lparr>act_message = JNull, act_timestamp = JNull\<rparr>]" "[]"]
  by (simp add: activity_li_def)

text \<open>
  A stream message with an activity puts its item at the top and keeps the first
  30 items.
\<close>

theorem sse_message_prepends: "sse_message True (Some (Some a)) feed = take 30 (activity_li a # feed)"
  by (simp add: sse_message_def addActivityItem_def trim_feed_take feed_cap_def)

text \<open>
  C21. One \<open>null\<close> entry in the response makes \<open>addActivityItem\<close> raise; the
  catch block replaces the whole feed with the failure note.
\<close>

theorem loadActivityFeed_null_entry:
  assumes "None \<in> set acts"
  shows "loadActivityFeed True (Some acts) feed = [FeedNote FeedLoadFailed]"
proof -
  obtain e where "append_all True (rev acts) [] = Inl e"
    using append_all_None [of "rev acts"] assms by auto
  moreover have "acts \<noteq> []" using assms by auto
  ultimately show ?thesis by (simp add: loadActivityFeed_def)
qed

theorem loadActivityFeed_null_entry_witness:
  "loadActivityFeed True (Some [Some \<lparr>act_message = JStr ''A'', act_timestamp = JNull\<rparr>, None]) []
   = [FeedNote FeedLoadFailed]"
  by (rule loadActivityFeed_null_entry) simp

end
