(* ===== verification/CsvExport.thy ===== *)
theory CsvExport
  imports Prelude
begin

text \<open>
  The voter export of the candidate dashboard, \<open>src/static/js/candidate.js\<close>:
  \<open>jsonToCsv\<close> writes a header line of thirteen column names and one line per
  voter, fields separated by commas and lines ended by CR LF; a field holding a
  double quote or a comma is put in double quotes with its quotes doubled.
  \<open>exportVoters\<close> builds the query, fetches every matching voter and hands the
  list to \<open>jsonToCsv\<close> and \<open>downloadCsv\<close>. The abstract side is \<open>csv_parse\<close>, a
  reader in the manner of RFC 4180 that, like common spreadsheet and library readers,
  also ends a record at a lone LF or CR. The lemmas show that reading the export gives
  back the header and every voter's fields when no field holds a line break, and that
  a field with a line break splits its voter over two records.
\<close>

definition CR :: char where "CR = CHR 0x0D"
definition LF :: char where "LF = CHR 0x0A"
definition DQ :: char where "DQ = CHR 0x22"

type_synonym voter_row = "string \<Rightarrow> jsval"

definition csv_headers :: "string list" where
  "csv_headers =
     [''ID'', ''Name'', ''Father's or Husband's name'', ''Age'', ''Gender'',
      ''House number'', ''EPIC number'', ''Mobile Number'', ''Occupation'',
      ''Education Level'', ''Political Affiliation'', ''Key Issues'', ''Remarks'']"

text \<open>\<open>String(row[header] === null || row[header] === undefined ? '' : row[header])\<close>\<close>

definition csv_text :: "jsval \<Rightarrow> string" where
  "csv_text v = js_to_string (js_coalesce v (JStr []))"

definition csv_quote :: "string \<Rightarrow> string" where
  "csv_quote s = concat (map (\<lambda>c. if c = DQ then [DQ, DQ] else [c]) s)"

definition csv_field :: "jsval \<Rightarrow> string" where
  "csv_field v =
     (let s = csv_text v in
      if js_includes s [DQ] \<or> js_includes s '','' then DQ # csv_quote s @ [DQ] else s)"

definition csv_line :: "voter_row \<Rightarrow> string" where
  "csv_line row = js_join '','' (map (\<lambda>h. csv_field (row h)) csv_headers) @ [CR, LF]"

definition jsonToCsv :: "voter_row list \<Rightarrow> string" where
  "jsonToCsv rows = js_join '','' csv_headers @ [CR, LF] @ concat (map csv_line rows)"

text \<open>A value whose text holds no line break.\<close>

definition csv_clean :: "jsval \<Rightarrow> bool" where
  "csv_clean v \<longleftrightarrow> CR \<notin> set (csv_text v) \<and> LF \<notin> set (csv_text v)"

text \<open>A string with no line break, no double quote and no comma.\<close>

definition csv_plain :: "string \<Rightarrow> bool" where
  "csv_plain s \<longleftrightarrow> (\<forall>c\<in>set s. c \<noteq> CR \<and> c \<noteq> LF \<and> c \<noteq> DQ \<and> c \<noteq> CHR '','')"

section \<open>The reader\<close>

text \<open>The rest of a quoted field, after its opening quote: \<open>""\<close> is one quote.\<close>

fun read_quoted :: "string \<Rightarrow> string \<times> string" where
  "read_quoted [] = ([], [])"
| "read_quoted [c] = (if c = DQ then ([], []) else ([c], []))"
| "read_quoted (c # d # cs) =
     (if c = DQ then (if d = DQ then (let (f, r) = read_quoted cs in (DQ # f, r)) else ([], d # cs))
      else (let (f, r) = read_quoted (d # cs) in (c # f, r)))"

definition field_end :: "char \<Rightarrow> bool" where
  "field_end c \<longleftrightarrow> c = CHR '','' \<or> c = CR \<or> c = LF"

definition read_field :: "string \<Rightarrow> string \<times> string" where
  "read_field s =
     (if s \<noteq> [] \<and> hd s = DQ then read_quoted (tl s)
      else (takeWhile (\<lambda>c. \<not> field_end c) s, dropWhile (\<lambda>c. \<not> field_end c) s))"

function read_record :: "string \<Rightarrow> string list \<times> string" where
  "read_record s =
     (let (f, r) = read_field s in
      if r \<noteq> [] \<and> hd r = CHR '','' then (let (fs, r') = read_record (tl r) in (f # fs, r'))
      else ([f], r))"
  by pat_completeness auto
termination
proof (relation "measure length")
  have q: "length (snd (read_quoted t)) \<le> length t" for t
    by (induction t rule: read_quoted.induct) (auto simp: split_def Let_def)
  have rf: "length (snd (read_field s)) \<le> length s" for s
    using q [of "tl s"] by (cases "s \<noteq> [] \<and> hd s = DQ") (auto simp: read_field_def length_dropWhile_le)
  show "wf (measure length)" by simp
  fix s x f r
  assume "x = read_field s" and "(f, r) = x" and "r \<noteq> [] \<and> hd r = CHR '',''"
  then have "snd (read_field s) = r" by (metis snd_conv)
  then show "(tl r, s) \<in> measure length" using rf [of s] \<open>r \<noteq> [] \<and> hd r = CHR '',''\<close> by (cases r) auto
qed

declare read_record.simps [simp del]

definition skip_eol :: "string \<Rightarrow> string" where
  "skip_eol s =
     (case s of
        [] \<Rightarrow> []
      | c # r \<Rightarrow> if c = CR then (case r of d # r' \<Rightarrow> if d = LF then r' else r | [] \<Rightarrow> [])
                 else if c = LF then r else s)"

text \<open>Records until the input is used up; a line break ends a record.\<close>

function csv_parse :: "string \<Rightarrow> string list list" where
  "csv_parse s = (if s = [] then [] else let (fs, r) = read_record s in fs # csv_parse (skip_eol r))"
  by pat_completeness auto
termination
proof (relation "measure length")
  have q: "length (snd (read_quoted t)) \<le> length t" for t
    by (induction t rule: read_quoted.induct) (auto simp: split_def Let_def)
  have f: "length (snd (read_field t)) < length t \<or> (snd (read_field t) = t \<and> (t = [] \<or> field_end (hd t)))" for t
  proof (cases "t \<noteq> [] \<and> hd t = DQ")
    case True
    then show ?thesis using q [of "tl t"] by (cases t) (auto simp: read_field_def)
  next
    case False
    show ?thesis
    proof (cases "t = [] \<or> field_end (hd t)")
      case True
      with False show ?thesis by (cases t) (auto simp: read_field_def)
    next
      case nf: False
      then obtain c u where "t = c # u" and "\<not> field_end c" by (cases t) auto
      with False show ?thesis by (simp add: read_field_def length_dropWhile_le le_imp_less_Suc)
    qed
  qed
  have r: "length (snd (read_record t)) < length t \<or> (snd (read_record t) = t \<and> (t = [] \<or> hd t = CR \<or> hd t = LF))" for t
  proof (induction t rule: read_record.induct)
    case (1 t)
    obtain fl rl where fr: "read_field t = (fl, rl)" by fastforce
    show ?case
    proof (cases "rl \<noteq> [] \<and> hd rl = CHR '',''")
      case True
      obtain fs r' where rr: "read_record (tl rl) = (fs, r')" by fastforce
      have e: "read_record t = (fl # fs, r')" using True by (simp add: read_record.simps [of t] fr rr)
      have "length rl \<le> length t" using f [of t] fr by auto
      moreover have "length r' \<le> length (tl rl)" using "1.IH" [OF refl fr [symmetric] True] rr by auto
      ultimately show ?thesis using True e by (cases rl) auto
    next
      case False
      then have "read_record t = ([fl], rl)" by (auto simp: read_record.simps [of t] fr)
      then show ?thesis using False f [of t] fr by (auto simp: field_end_def)
    qed
  qed
  have sk: "length (skip_eol u) \<le> length u" for u
    by (auto simp: skip_eol_def split: list.splits)
  have sk2: "u \<noteq> [] \<Longrightarrow> hd u = CR \<or> hd u = LF \<Longrightarrow> length (skip_eol u) < length u" for u
    by (cases u) (auto simp: skip_eol_def CR_def LF_def split: list.splits)
  show "wf (measure length)" by simp
  fix s x fs rs
  assume ne: "s \<noteq> []" and "x = read_record s" and "(fs, rs) = x"
  then have rr: "snd (read_record s) = rs" by (metis snd_conv)
  from r [of s] rr ne sk [of rs] sk2 [of s] have "length (skip_eol rs) < length s"
    by (metis le_less_trans)
  then show "(skip_eol rs, s) \<in> measure length" by simp
qed

declare csv_parse.simps [simp del]

section \<open>Lemmas\<close>

lemma read_quoted_csv_quote:
  "rest = [] \<or> hd rest \<noteq> DQ \<Longrightarrow> read_quoted (csv_quote s @ DQ # rest) = (s, rest)"
proof (induction s)
  case Nil
  then show ?case by (cases rest) (simp_all add: csv_quote_def)
next
  case (Cons c s)
  then show ?case
    by (cases "c = DQ"; cases "csv_quote s @ DQ # rest") (auto simp: csv_quote_def split_def)
qed

lemma field_end_not_DQ: "field_end c \<Longrightarrow> c \<noteq> DQ"
  by (auto simp: field_end_def DQ_def CR_def LF_def)

lemma read_field_csv_field:
  assumes "csv_clean v" and "rest = [] \<or> field_end (hd rest)"
  shows "read_field (csv_field v @ rest) = (csv_text v, rest)"
proof (cases "DQ \<in> set (csv_text v) \<or> CHR '','' \<in> set (csv_text v)")
  case True
  then show ?thesis using assms(2)
    by (auto simp: csv_field_def read_field_def read_quoted_csv_quote dest: field_end_not_DQ)
next
  case False
  have "\<forall>c\<in>set (csv_text v). \<not> field_end c"
    using False assms(1) by (auto simp: csv_clean_def field_end_def)
  moreover have "csv_text v \<noteq> [] \<Longrightarrow> hd (csv_text v) \<noteq> DQ" using False by (cases "csv_text v") auto
  moreover have "rest \<noteq> [] \<Longrightarrow> hd rest \<noteq> DQ" using assms(2) by (auto dest: field_end_not_DQ)
  moreover have "takeWhile (\<lambda>c. \<not> field_end c) rest = [] \<and> dropWhile (\<lambda>c. \<not> field_end c) rest = rest"
    using assms(2) by (cases rest) auto
  ultimately show ?thesis using False
    by (cases "csv_text v") (auto simp: csv_field_def read_field_def takeWhile_append dropWhile_append)
qed

lemma read_record_csv_fields:
  assumes "vs \<noteq> []" and "\<forall>v\<in>set vs. csv_clean v" and "rest = [] \<or> hd rest = CR \<or> hd rest = LF"
  shows "read_record (js_join '','' (map csv_field vs) @ rest) = (map csv_text vs, rest)"
  using assms
proof (induction vs)
  case Nil
  then show ?case by simp
next
  case (Cons v vs)
  have fe: "rest = [] \<or> field_end (hd rest)" using Cons.prems(3) by (auto simp: field_end_def)
  have nc: "\<not> (rest \<noteq> [] \<and> hd rest = CHR '','')" using Cons.prems(3) by (auto simp: CR_def LF_def)
  show ?case
  proof (cases "vs = []")
    case True
    then show ?thesis
      using read_field_csv_field [of v rest] Cons.prems fe nc
      by (auto simp: read_record.simps [of "csv_field v @ rest"])
  next
    case False
    let ?r = "js_join '','' (map csv_field vs) @ rest"
    have "read_field (csv_field v @ CHR '','' # ?r) = (csv_text v, CHR '','' # ?r)"
      using read_field_csv_field [of v "CHR '','' # ?r"] Cons.prems(2) by (simp add: field_end_def)
    moreover have "read_record ?r = (map csv_text vs, rest)" using Cons False by simp
    ultimately show ?thesis using False by (simp add: read_record.simps [of "csv_field v @ _"] js_join_Cons)
  qed
qed

lemma skip_eol_CRLF [simp]: "skip_eol (CR # LF # more) = more"
  by (simp add: skip_eol_def CR_def LF_def)

lemma skip_eol_LF [simp]: "skip_eol (LF # more) = more"
  by (simp add: skip_eol_def CR_def LF_def)

lemma csv_parse_record:
  assumes "vs \<noteq> []" and "\<forall>v\<in>set vs. csv_clean v" and "rest \<noteq> []" and "hd rest = CR \<or> hd rest = LF"
  shows "csv_parse (js_join '','' (map csv_field vs) @ rest) = map csv_text vs # csv_parse (skip_eol rest)"
  using read_record_csv_fields [of vs rest] assms by (simp add: csv_parse.simps [of "_ @ rest"])

lemma csv_parse_lines:
  assumes "\<forall>vs\<in>set rows. vs \<noteq> [] \<and> (\<forall>v\<in>set vs. csv_clean v)"
  shows "csv_parse (concat (map (\<lambda>vs. js_join '','' (map csv_field vs) @ [CR, LF]) rows)) = map (map csv_text) rows"
  using assms
proof (induction rows)
  case Nil
  then show ?case by (simp add: csv_parse.simps)
next
  case (Cons vs rows)
  then show ?case using csv_parse_record [of vs "CR # LF # _"] by simp
qed

lemma csv_headers_fields: "map (\<lambda>h. csv_field (JStr h)) csv_headers = csv_headers"
  unfolding csv_headers_def csv_field_def csv_text_def csv_quote_def DQ_def js_includes_def
  by code_simp

lemma csv_headers_clean: "\<forall>h\<in>set csv_headers. csv_clean (JStr h)"
  unfolding csv_headers_def csv_clean_def csv_text_def CR_def LF_def
  by code_simp

lemma csv_headers_ne: "csv_headers \<noteq> []"
  by (simp add: csv_headers_def)

lemma csv_headers_split: "csv_headers = butlast csv_headers @ [''Remarks'']"
  by (simp add: csv_headers_def)

lemma csv_headers_butlast: "''Remarks'' \<notin> set (butlast csv_headers) \<and> butlast csv_headers \<noteq> []"
  by (simp add: csv_headers_def)

lemma jsonToCsv_lines:
  "jsonToCsv rows =
     concat (map (\<lambda>vs. js_join '','' (map csv_field vs) @ [CR, LF])
                 (map JStr csv_headers # map (\<lambda>r. map r csv_headers) rows))"
proof -
  have "js_join '','' csv_headers = js_join '','' (map csv_field (map JStr csv_headers))"
    using csv_headers_fields by (simp add: comp_def)
  then show ?thesis by (simp add: jsonToCsv_def csv_line_def [abs_def] comp_def)
qed

lemma LF_not_special: "DQ \<noteq> LF \<and> CHR '','' \<noteq> LF"
  unfolding LF_def DQ_def by code_simp

lemma csv_plain_iff:
  "csv_plain s \<longleftrightarrow> CR \<notin> set s \<and> LF \<notin> set s \<and> DQ \<notin> set s \<and> CHR '','' \<notin> set s"
  unfolding csv_plain_def by blast

lemma csv_plain_field: "csv_plain s \<Longrightarrow> csv_field (JStr s) = s"
  by (simp add: csv_plain_iff csv_field_def csv_text_def)

lemma csv_plain_clean: "csv_plain s \<Longrightarrow> csv_clean (JStr s)"
  by (simp add: csv_plain_iff csv_clean_def csv_text_def)

lemma csv_field_line_break:
  "csv_plain a \<Longrightarrow> csv_plain b \<Longrightarrow> csv_field (JStr (a @ LF # b)) = a @ LF # b"
  using LF_not_special by (simp add: csv_plain_iff csv_field_def csv_text_def)

section \<open>Properties\<close>

text \<open>
  C22. Reading the export back: when no field's text holds a line break, the CSV
  text \<open>jsonToCsv\<close> builds parses to the header line followed by, for every
  voter in order, the texts of its thirteen fields, commas and quotes included.
\<close>

theorem jsonToCsv_roundtrip:
  assumes "\<forall>r\<in>set rows. \<forall>h\<in>set csv_headers. csv_clean (r h)"
  shows "csv_parse (jsonToCsv rows) = csv_headers # map (\<lambda>r. map (\<lambda>h. csv_text (r h)) csv_headers) rows"
proof -
  have "\<forall>vs\<in>set (map JStr csv_headers # map (\<lambda>r. map r csv_headers) rows).
          vs \<noteq> [] \<and> (\<forall>v\<in>set vs. csv_clean v)"
    using assms csv_headers_clean csv_headers_ne by auto
  from csv_parse_lines [OF this] show ?thesis
    by (simp add: jsonToCsv_lines comp_def csv_text_def)
qed

theorem jsonToCsv_roundtrip_witness:
  \<open>csv_parse (jsonToCsv [\<lambda>h. if h = ''Name'' then JStr ''Doe, "J"'' else JNull])
   = csv_headers # map (\<lambda>r. map (\<lambda>h. csv_text (r h)) csv_headers)
                       [\<lambda>h. if h = ''Name'' then JStr ''Doe, "J"'' else JNull]\<close>
  by (rule jsonToCsv_roundtrip, unfold csv_headers_def csv_clean_def csv_text_def CR_def LF_def, code_simp)

text \<open>
  C23. A line break inside a field is written as it is: \<open>jsonToCsv\<close> quotes a
  field only for a double quote or a comma. A voter whose remarks read
  \<open>a\<close>, a line feed, then \<open>b\<close> comes back as two records: the voter with
  remarks \<open>a\<close>, and a record holding only \<open>b\<close>.
\<close>

theorem jsonToCsv_line_break_splits:
  assumes "\<forall>h\<in>set csv_headers. h \<noteq> ''Remarks'' \<longrightarrow> csv_clean (r h)"
    and "r ''Remarks'' = JStr (a @ LF # b)" and "csv_plain a" and "csv_plain b"
  shows "csv_parse (jsonToCsv [r]) =
           [csv_headers, map (\<lambda>h. csv_text ((r(''Remarks'' := JStr a)) h)) csv_headers, [b]]"
proof -
  let ?hs = "butlast csv_headers" and ?r' = "r(''Remarks'' := JStr a)"
  have same: "map (csv_field \<circ> ?r') ?hs = map (csv_field \<circ> r) ?hs" using csv_headers_butlast by auto
  have "js_join '','' (map csv_field (map r csv_headers)) @ [CR, LF]
        = js_join '','' (map csv_field (map r ?hs) @ [a @ LF # b]) @ [CR, LF]"
    using assms(2-4) csv_field_line_break by (subst csv_headers_split) simp
  also have "\<dots> = js_join '','' (map csv_field (map ?r' csv_headers)) @ LF # (b @ [CR, LF])"
    using js_join_append_last [of "'',''" "map csv_field (map r ?hs)" a "LF # b"] assms(3)
    by (subst (2) csv_headers_split) (simp add: csv_plain_field same)
  finally have line: "js_join '','' (map csv_field (map r csv_headers)) @ [CR, LF]
        = js_join '','' (map csv_field (map ?r' csv_headers)) @ LF # (js_join '','' (map csv_field [JStr b]) @ [CR, LF])"
    using assms(4) by (simp add: csv_plain_field)
  have clean: "\<forall>v\<in>set (map ?r' csv_headers). csv_clean v"
    using assms(1,3) csv_plain_clean by auto
  have "csv_parse (jsonToCsv [r]) =
        csv_headers # csv_parse (js_join '','' (map csv_field (map r csv_headers)) @ [CR, LF])"
    using csv_parse_record [of "map JStr csv_headers"] csv_headers_clean csv_headers_ne
    by (simp add: jsonToCsv_lines comp_def csv_text_def)
  also have "\<dots> = [csv_headers, map csv_text (map ?r' csv_headers), [b]]"
    using csv_parse_record [of "map ?r' csv_headers"] csv_parse_record [of "[JStr b]"] clean
      csv_headers_ne assms(4) csv_plain_clean line
    by (simp add: csv_parse.simps [of "[]"] csv_text_def)
  finally show ?thesis by simp
qed

theorem jsonToCsv_line_break_splits_witness:
  "csv_parse (jsonToCsv [\<lambda>h. if h = ''Remarks'' then JStr (''late'' @ LF # ''night'') else JNull]) =
     [csv_headers,
      map (\<lambda>h. csv_text (((\<lambda>h. if h = ''Remarks'' then JStr (''late'' @ LF # ''night'') else JNull)
                            (''Remarks'' := JStr ''late'')) h)) csv_headers,
      [''night'']]"
  by (rule jsonToCsv_line_break_splits;
      unfold csv_headers_def csv_clean_def csv_plain_def csv_text_def CR_def LF_def DQ_def; code_simp)

end
