(* ===== verification/VoterForm.thy ===== *)
theory VoterForm
  imports Escape
begin

text \<open>
  The voter details form of the worker dashboard, \<open>src/static/js/worker.js\<close>,
  function \<open>toggleDetailsRow\<close>: clicking a voter's name opens a row with six
  fields (mobile number, occupation, education level, political affiliation, key
  issues, remarks), each with an error line, and a save button that starts
  disabled. The inner functions \<open>validateField\<close> and \<open>updateSaveState\<close> run on every
  \<open>input\<close> and \<open>change\<close> event of a field; \<open>saveVoterDetails\<close> collects the
  filled fields when the button is clicked. The form is looked up by the id
  \<open>voterForm_\<close> followed by the raw voter id, while the HTML gives it the escaped id.

  The state is \<open>voter_form\<close>: the fields' current values, the error each error line
  shows and whether the button is disabled. The error texts are the constructors of
  \<open>field_error\<close> (the mobile message holds an en dash, outside the Latin-1 strings
  of the model).
\<close>

datatype voter_field =
  MobileNumber | Occupation | EducationLevel | PoliticalAffiliation | KeyIssues | Remarks

text \<open>The \<open>data-field\<close> elements of the form, in document order.\<close>

definition form_fields :: "voter_field list" where
  "form_fields = [MobileNumber, Occupation, EducationLevel, PoliticalAffiliation, KeyIssues, Remarks]"

fun field_key :: "voter_field \<Rightarrow> string" where
  "field_key MobileNumber = ''mobile_number''"
| "field_key Occupation = ''occupation''"
| "field_key EducationLevel = ''education_level''"
| "field_key PoliticalAffiliation = ''political_affiliation''"
| "field_key KeyIssues = ''key_issues''"
| "field_key Remarks = ''remarks''"

datatype field_error = NoError | BadMobile | AtLeast2 | Max300 | Max200

record voter_form =
  vf_value :: "voter_field \<Rightarrow> string"
  vf_error :: "voter_field \<Rightarrow> field_error"
  vf_save_disabled :: bool

text \<open>\<open>/^[6-9][0-9]{9}$/.test(val)\<close>\<close>

definition is_mobile :: "string \<Rightarrow> bool" where
  "is_mobile s \<longleftrightarrow>
     length s = 10 \<and> hd s \<in> set ''6789'' \<and> list_all (\<lambda>c. c \<in> set ''0123456789'') (tl s)"

definition setError :: "voter_field \<Rightarrow> field_error \<Rightarrow> voter_form \<Rightarrow> voter_form" where
  "setError k e f = f\<lparr>vf_error := (vf_error f)(k := e)\<rparr>"

text \<open>\<open>validateField(key)\<close>: its result and the form with the key's error line set.\<close>

definition validateField :: "voter_field \<Rightarrow> voter_form \<Rightarrow> bool \<times> voter_form" where
  "validateField k f =
     (let val = js_trim (vf_value f k) in
      if val = [] then (True, setError k NoError f)
      else if k = MobileNumber \<and> \<not> is_mobile val then (False, setError k BadMobile f)
      else if k = Occupation \<and> length val < 2 then (False, setError k AtLeast2 f)
      else if k = EducationLevel \<and> length val < 2 then (False, setError k AtLeast2 f)
      else if k = KeyIssues \<and> length val > 300 then (False, setError k Max300 f)
      else if k = Remarks \<and> length val > 200 then (False, setError k Max200 f)
      else (True, setError k NoError f))"

text \<open>\<open>filled.every(validateField)\<close>: stops at the first field that fails.\<close>

fun every_validate :: "voter_field list \<Rightarrow> voter_form \<Rightarrow> bool \<times> voter_form" where
  "every_validate [] f = (True, f)"
| "every_validate (k # ks) f =
     (let (ok, f') = validateField k f in if ok then every_validate ks f' else (False, f'))"

definition filled_fields :: "voter_form \<Rightarrow> voter_field list" where
  "filled_fields f = filter (\<lambda>k. js_trim (vf_value f k) \<noteq> []) form_fields"

definition updateSaveState :: "voter_form \<Rightarrow> voter_form" where
  "updateSaveState f =
     (let filled = filled_fields f;
          (valid, f') = every_validate filled f
      in f'\<lparr>vf_save_disabled := \<not> (filled \<noteq> [] \<and> valid)\<rparr>)"

text \<open>
  The \<open>input\<close> listener of field \<open>k\<close> after the user changes its value to \<open>v\<close>,
  and the \<open>change\<close> listener (the same body, the value unchanged).
\<close>

definition form_input :: "voter_field \<Rightarrow> string \<Rightarrow> voter_form \<Rightarrow> voter_form" where
  "form_input k v f = updateSaveState (snd (validateField k (f\<lparr>vf_value := (vf_value f)(k := v)\<rparr>)))"

definition form_change :: "voter_field \<Rightarrow> voter_form \<Rightarrow> voter_form" where
  "form_change k f = updateSaveState (snd (validateField k f))"

datatype form_event = FormInput voter_field string | FormChange voter_field

fun form_step :: "voter_form \<Rightarrow> form_event \<Rightarrow> voter_form" where
  "form_step f (FormInput k v) = form_input k v f"
| "form_step f (FormChange k) = form_change k f"

definition form_run :: "voter_form \<Rightarrow> form_event list \<Rightarrow> voter_form" where
  "form_run f evs = foldl form_step f evs"

text \<open>The freshly rendered form: empty fields, empty error lines, button disabled.\<close>

definition form_blank :: voter_form where
  "form_blank = \<lparr>vf_value = (\<lambda>k. []), vf_error = (\<lambda>k. NoError), vf_save_disabled = True\<rparr>"

text \<open>
  \<open>saveVoterDetails\<close>: the object \<open>updates\<close> of the filled fields with their
  trimmed values, in the form's order; \<open>None\<close> when it is empty (the early
  return), otherwise the body of the \<open>PUT\<close> request.
\<close>

definition saveVoterDetails :: "voter_form \<Rightarrow> (string \<times> string) list option" where
  "saveVoterDetails f =
     (let updates = map (\<lambda>k. (field_key k, js_trim (vf_value f k))) (filled_fields f)
      in if updates = [] then None else Some updates)"

text \<open>
  What the source's checks mean: a trimmed value passes when it is empty or meets
  its field's rule, and the error line of a field that fails shows its rule.
\<close>

definition mobile_ok :: "string \<Rightarrow> bool" where
  "mobile_ok s \<longleftrightarrow> length s = 10 \<and> hd s \<in> set ''6789'' \<and> (\<forall>c\<in>set s. c \<in> set ''0123456789'')"

definition field_valid :: "voter_field \<Rightarrow> string \<Rightarrow> bool" where
  "field_valid k val \<longleftrightarrow>
     val = [] \<or>
     (case k of
        MobileNumber \<Rightarrow> mobile_ok val
      | Occupation \<Rightarrow> 2 \<le> length val
      | EducationLevel \<Rightarrow> 2 \<le> length val
      | PoliticalAffiliation \<Rightarrow> True
      | KeyIssues \<Rightarrow> length val \<le> 300
      | Remarks \<Rightarrow> length val \<le> 200)"

fun rule_error :: "voter_field \<Rightarrow> field_error" where
  "rule_error MobileNumber = BadMobile"
| "rule_error Occupation = AtLeast2"
| "rule_error EducationLevel = AtLeast2"
| "rule_error PoliticalAffiliation = NoError"
| "rule_error KeyIssues = Max300"
| "rule_error Remarks = Max200"

definition shown_error :: "voter_field \<Rightarrow> string \<Rightarrow> field_error" where
  "shown_error k val = (if field_valid k (js_trim val) then NoError else rule_error k)"

text \<open>
  The form's invariant: every error line shows the rule its field's value breaks,
  and the button is enabled exactly when some field is filled and every filled
  field passes.
\<close>

definition errors_shown :: "voter_form \<Rightarrow> bool" where
  "errors_shown f \<longleftrightarrow> list_all (\<lambda>k. vf_error f k = shown_error k (vf_value f k)) form_fields"

definition save_state_ok :: "voter_form \<Rightarrow> bool" where
  "save_state_ok f \<longleftrightarrow>
     vf_save_disabled f =
       (\<not> (filled_fields f \<noteq> [] \<and> list_all (\<lambda>k. field_valid k (js_trim (vf_value f k))) (filled_fields f)))"

definition form_inv :: "voter_form \<Rightarrow> bool" where
  "form_inv f \<longleftrightarrow> errors_shown f \<and> save_state_ok f"

text \<open>A click on the save button: a disabled button fires no listener.\<close>

definition save_click :: "voter_form \<Rightarrow> (string \<times> string) list option" where
  "save_click f = (if vf_save_disabled f then None else saveVoterDetails f)"

text \<open>
  The form part of \<open>toggleDetailsRow(row, voter, colCount)\<close> for the voter id
  \<open>voter.ID ?? voter.id\<close>: the HTML source names the form
  \<open>voterForm_${safe(id)}\<close>, and the parser decodes the character references
  \<open>safe\<close> wrote, so the element's id is \<open>html_unescape\<close> of that text; the lookup
  asks for \<open>voterForm_${id}\<close>. When the lookup fails, \<open>form\<close> is \<open>null\<close> and
  \<open>form.querySelectorAll\<close> raises before any listener is installed.
\<close>

definition form_html_id :: "jsval \<Rightarrow> string" where
  "form_html_id v = ''voterForm_'' @ html_unescape (safe v)"

definition form_lookup_id :: "jsval \<Rightarrow> string" where
  "form_lookup_id v = ''voterForm_'' @ js_to_string v"

definition openVoterForm :: "jsval \<Rightarrow> js_error + voter_form" where
  "openVoterForm v =
     (if form_lookup_id v = form_html_id v then Inr (updateSaveState form_blank)
      else Inl (TypeError ''Cannot read properties of null (reading querySelectorAll)''))"

section \<open>Lemmas\<close>

lemma is_mobile_iff: "is_mobile s \<longleftrightarrow> mobile_ok s"
  by (cases s) (auto simp: is_mobile_def mobile_ok_def list_all_iff)

lemma validateField_spec:
  "validateField k f = (field_valid k (js_trim (vf_value f k)), setError k (shown_error k (vf_value f k)) f)"
  by (cases k) (auto simp: validateField_def shown_error_def field_valid_def Let_def is_mobile_iff)

lemma setError_simps [simp]:
  "vf_value (setError k e f) = vf_value f"
  "vf_error (setError k e f) = (vf_error f)(k := e)"
  "vf_save_disabled (setError k e f) = vf_save_disabled f"
  by (simp_all add: setError_def)

lemma every_validate_spec:
  "fst (every_validate ks f) = list_all (\<lambda>k. field_valid k (js_trim (vf_value f k))) ks
   \<and> vf_value (snd (every_validate ks f)) = vf_value f
   \<and> vf_error (snd (every_validate ks f)) k \<in> {vf_error f k, shown_error k (vf_value f k)}"
proof (induction ks arbitrary: f)
  case Nil
  then show ?case by simp
next
  case (Cons a ks)
  show ?case
    using Cons.IH [of "setError a (shown_error a (vf_value f a)) f"]
    by (auto simp: validateField_spec Let_def)
qed

lemma updateSaveState_spec:
  "vf_value (updateSaveState f) = vf_value f
   \<and> vf_save_disabled (updateSaveState f) =
       (\<not> (filled_fields f \<noteq> [] \<and> list_all (\<lambda>k. field_valid k (js_trim (vf_value f k))) (filled_fields f)))
   \<and> vf_error (updateSaveState f) k \<in> {vf_error f k, shown_error k (vf_value f k)}"
  using every_validate_spec [of "filled_fields f" f k]
  by (simp add: updateSaveState_def split_def Let_def)

lemma form_fields_all [simp]: "k \<in> set form_fields"
  by (cases k) (simp_all add: form_fields_def)

lemma errors_shown_iff: "errors_shown f \<longleftrightarrow> (\<forall>k. vf_error f k = shown_error k (vf_value f k))"
  by (auto simp: errors_shown_def list_all_iff)

lemma updateSaveState_inv: "errors_shown f \<Longrightarrow> form_inv (updateSaveState f)"
  using updateSaveState_spec [of f]
  by (auto simp: form_inv_def errors_shown_iff save_state_ok_def filled_fields_def)

lemma validateField_shown:
  "\<forall>j. j \<noteq> k \<longrightarrow> vf_error f j = shown_error j (vf_value f j) \<Longrightarrow> errors_shown (snd (validateField k f))"
  by (simp add: validateField_spec errors_shown_iff)

lemma form_step_inv: "errors_shown f \<Longrightarrow> form_inv (form_step f ev)"
proof (cases ev)
  case (FormInput k v)
  assume "errors_shown f"
  then have "errors_shown (snd (validateField k (f\<lparr>vf_value := (vf_value f)(k := v)\<rparr>)))"
    by (intro validateField_shown) (simp add: errors_shown_iff)
  then show ?thesis using FormInput by (simp add: form_input_def updateSaveState_inv)
next
  case (FormChange k)
  assume "errors_shown f"
  then have "errors_shown (snd (validateField k f))"
    by (intro validateField_shown) (simp add: errors_shown_iff)
  then show ?thesis using FormChange by (simp add: form_change_def updateSaveState_inv)
qed

lemma form_blank_shown: "errors_shown form_blank"
  by (simp add: errors_shown_iff form_blank_def shown_error_def field_valid_def)

lemma form_run_inv_gen: "form_inv f \<Longrightarrow> form_inv (form_run f evs)"
proof (induction evs arbitrary: f)
  case Nil
  then show ?case by (simp add: form_run_def)
next
  case (Cons ev evs)
  have "form_inv (form_step f ev)" using Cons.prems form_step_inv by (simp add: form_inv_def)
  then show ?case using Cons.IH by (simp add: form_run_def)
qed

lemma html_unescape_safe_text: "html_unescape (safe v) = js_to_string (js_coalesce v (JStr []))"
  by (cases v) (simp_all add: safe_def html_unescape_escape_str)

lemma form_ids_match: "form_lookup_id v = form_html_id v \<longleftrightarrow> v \<noteq> JUndefined \<and> v \<noteq> JNull"
  by (cases v) (simp_all add: form_lookup_id_def form_html_id_def html_unescape_safe_text html_unescape_escape_str)

section \<open>Properties\<close>

text \<open>
  C24. The form never shows a stale state: after the form opens and after any
  sequence of \<open>input\<close> and \<open>change\<close> events, every error line shows the rule the
  field's trimmed value breaks (or nothing), and the save button is enabled exactly
  when some field is filled and every filled field passes its check.
\<close>

theorem voter_form_inv: "openVoterForm v = Inr f \<Longrightarrow> form_inv (form_run f evs)"
  by (auto simp: openVoterForm_def split: if_splits intro: form_run_inv_gen updateSaveState_inv form_blank_shown)

theorem voter_form_inv_witness:
  "form_inv (form_run (updateSaveState form_blank) [FormInput MobileNumber ''12345'', FormInput Remarks ''ok''])"
  using voter_form_inv [of "JStr ''v1''" "updateSaveState form_blank"]
  by (simp add: openVoterForm_def form_ids_match)

text \<open>
  C25. What is saved is valid: if a click on the save button sends an update, the
  update names at least one field, and each pair in it is a field's key with that
  field's trimmed, non-empty value, which passes the field's check (a ten-digit
  mobile number starting 6 to 9, at least two characters of occupation and
  education, at most 300 characters of key issues and 200 of remarks).
\<close>

theorem save_click_valid:
  assumes "openVoterForm v = Inr f" and "save_click (form_run f evs) = Some ups"
  shows "ups \<noteq> [] \<and> (\<forall>(key, val) \<in> set ups. \<exists>k. key = field_key k \<and> val \<noteq> [] \<and> field_valid k val)"
proof -
  let ?g = "form_run f evs"
  have "save_state_ok ?g" using voter_form_inv [OF assms(1)] by (simp add: form_inv_def)
  then show ?thesis using assms(2)
    by (auto simp: save_click_def saveVoterDetails_def save_state_ok_def Let_def list_all_iff
             filled_fields_def split: if_splits) blast
qed

theorem save_click_valid_witness:
  "save_click (form_run (updateSaveState form_blank)
      [FormInput MobileNumber '' 9876543210'', FormInput Occupation ''farmer''])
     = Some [(''mobile_number'', ''9876543210''), (''occupation'', ''farmer'')]
   \<and> (\<exists>k. ''mobile_number'' = field_key k \<and> ''9876543210'' \<noteq> [] \<and> field_valid k ''9876543210'')"
proof -
  have o: "openVoterForm (JStr ''v1'') = Inr (updateSaveState form_blank)"
    by (simp add: openVoterForm_def form_ids_match)
  have s: "save_click (form_run (updateSaveState form_blank)
      [FormInput MobileNumber '' 9876543210'', FormInput Occupation ''farmer''])
     = Some [(''mobile_number'', ''9876543210''), (''occupation'', ''farmer'')]"
    unfolding save_click_def saveVoterDetails_def form_run_def form_blank_def filled_fields_def
      form_fields_def updateSaveState_def form_input_def validateField_def setError_def is_mobile_def
      js_trim_def js_space_def
    by code_simp
  show ?thesis using save_click_valid [OF o s] s by auto
qed

text \<open>
  C26. The details form is found for every voter that has an id: the parser
  undoes the escaping of \<open>& < > " '\<close>, so ids holding them are found too. It is
  missed, and \<open>toggleDetailsRow\<close> raises a \<open>TypeError\<close> leaving the row open with
  a save button that never enables, exactly when the id is \<open>undefined\<close> or
  \<open>null\<close>: the lookup then asks for \<open>voterForm_undefined\<close> or
  \<open>voterForm_null\<close> while the element is \<open>voterForm_\<close>.
\<close>

theorem openVoterForm_fails_iff:
  "(\<exists>e. openVoterForm v = Inl e) \<longleftrightarrow> v = JUndefined \<or> v = JNull"
  using form_ids_match [of v] by (auto simp: openVoterForm_def)

theorem openVoterForm_fails_iff_witness:
  "(\<exists>e. openVoterForm JNull = Inl e) \<and> \<not> (\<exists>e. openVoterForm (JStr ''a&b<\"'') = Inl e)"
  using openVoterForm_fails_iff [of JNull] openVoterForm_fails_iff [of "JStr ''a&b<\"''"]
  by simp

end
