(* ===== verification/VoterTable.thy ===== *)
theory VoterTable
  imports Escape
begin

text \<open>
  The voter table of the worker dashboard, \<open>src/static/js/worker.js\<close>: the globals
  \<open>currentPage\<close> and \<open>entriesPerPage\<close>, \<open>fetchVoters\<close> (read the filters, show
  "Loading...", send \<open>GET /api/voters?page=..&per_page=..\<close>), the rendering of the
  response (\<open>renderVoterRows\<close>, \<open>formatAffiliation\<close>, the page caption and the
  paging buttons) and the five paging listeners of the top level. \<open>fetchVoters\<close> is
  \<open>async\<close>: the request is sent with the globals of the moment and its response
  may come back after later requests, so the state holds the requests still in
  flight and a response is a separate event naming one of them.
\<close>

type_synonym voter_obj = "string \<Rightarrow> jsval"

text \<open>\<open>v[a] ?? v[b] ?? ''\<close>\<close>

definition prop2 :: "voter_obj \<Rightarrow> string \<Rightarrow> string \<Rightarrow> jsval" where
  "prop2 v a b = js_coalesce (v a) (js_coalesce (v b) (JStr []))"

datatype aff_badge = NoBadge | SupporterBadge | OpponentBadge | SwingVoterBadge

definition formatAffiliation :: "jsval \<Rightarrow> aff_badge" where
  "formatAffiliation a =
     (if \<not> js_truthy a then NoBadge
      else let value = js_lower (js_to_string a) in
        if value = ''supporter'' then SupporterBadge
        else if value = ''opponent'' then OpponentBadge
        else SwingVoterBadge)"

datatype vcell = TextCell string | BadgeCell aff_badge | BlankCell

text \<open>One row of \<open>renderVoterRows\<close>: seven escaped cells, the badge, then empty
  cells up to the table's column count.\<close>

definition voter_cells :: "voter_obj \<Rightarrow> nat \<Rightarrow> vcell list" where
  "voter_cells v colCount =
     map TextCell
       [safe (prop2 v ''ID'' ''id''), safe (prop2 v ''Name'' ''name''),
        safe (prop2 v ''Father's or Husband's name'' ''father_or_husband_name''),
        safe (prop2 v ''Age'' ''age''), safe (prop2 v ''Gender'' ''gender''),
        safe (prop2 v ''House number'' ''house_number''),
        safe (prop2 v ''EPIC number'' ''epic_number'')]
     @ [BadgeCell (formatAffiliation (js_coalesce (v ''Political Affiliation'') (v ''political_affiliation'')))]
     @ replicate (colCount - 8) BlankCell"

text \<open>The table body: one message row spanning the columns, or the voters' rows.\<close>

datatype vt_body = VtInitial | VtMessage string nat | VtRows "(voter_obj \<times> vcell list) list"

definition renderVoterRows :: "voter_obj list \<Rightarrow> nat \<Rightarrow> vt_body" where
  "renderVoterRows voters colCount =
     (if voters = [] then VtMessage ''No voters found'' colCount
      else VtRows (map (\<lambda>v. (v, voter_cells v colCount)) voters))"

text \<open>The id a click on a voter's name hands to \<open>toggleDetailsRow\<close>.\<close>

definition row_form_id :: "voter_obj \<Rightarrow> jsval" where
  "row_form_id v = js_coalesce (v ''ID'') (v ''id'')"

text \<open>
  The elements the code looks up: whether they exist, and the number of header
  cells of the table (\<open>None\<close>: no enclosing table).
\<close>

record vt_dom =
  vd_tbody :: bool
  vd_header_count :: "nat option"
  vd_gender :: bool
  vd_search :: bool
  vd_entries :: bool
  vd_search_btn :: bool
  vd_page_info :: bool
  vd_prev :: bool
  vd_next :: bool

record vt_request =
  rq_params :: "(string \<times> string) list"
  rq_cols :: nat

record vt_state =
  currentPage :: int
  entriesPerPage :: "int option"
  vt_gender_value :: string
  vt_search_value :: string
  vt_entries_value :: string
  vt_body :: vt_body
  vt_page_info :: string
  vt_prev_disabled :: bool
  vt_next_disabled :: bool
  vt_pending :: "vt_request list"

text \<open>\<open>fetchVoters()\<close> up to its \<open>await\<close>: the request it sends.\<close>

definition fetchVoters :: "vt_dom \<Rightarrow> vt_state \<Rightarrow> vt_state" where
  "fetchVoters d s =
     (if \<not> vd_tbody d then s
      else
        let cols = (case vd_header_count d of None \<Rightarrow> 7 | Some n \<Rightarrow> n);
            g = (if vd_gender d then js_trim (vt_gender_value s) else []);
            gender = (if js_lower g = ''all'' then [] else g);
            search = (if vd_search d then js_trim (vt_search_value s) else []);
            epp = js_parseInt (if vd_entries d then vt_entries_value s else ''50'');
            params = [(''page'', int_str (currentPage s)), (''per_page'', num_str epp)]
                     @ (if gender \<noteq> [] then [(''gender'', gender)] else [])
                     @ (if search \<noteq> [] then [(''search'', search)] else [])
        in s\<lparr>entriesPerPage := epp, vt_body := VtMessage ''Loading...'' cols,
             vt_pending := vt_pending s @ [\<lparr>rq_params = params, rq_cols = cols\<rparr>]\<rparr>)"

text \<open>
  A response: the request failed (network error, \<open>!res.ok\<close>, a body that is not
  JSON), or the JSON's \<open>items\<close> (\<open>None\<close> when not an array), \<open>page\<close> and
  \<open>pages\<close> (\<open>None\<close> when absent; the API sends integers).
\<close>

datatype vt_response = RespFail | RespData "voter_obj list option" "int option" "int option"

text \<open>\<open>x || 1\<close> on an integer or a missing field.\<close>

definition or1 :: "int option \<Rightarrow> int" where
  "or1 x = (case x of None \<Rightarrow> 1 | Some n \<Rightarrow> if n = 0 then 1 else n)"

definition page_caption :: "int \<Rightarrow> int \<Rightarrow> string" where
  "page_caption p ps = ''Page '' @ int_str p @ '' of '' @ int_str ps"

text \<open>
  The rest of \<open>fetchVoters\<close> when the response to request \<open>rq\<close> arrives: render
  the rows, then set the caption and the two buttons; a missing \<open>#pageInfo\<close>,
  \<open>#prevPage\<close> or \<open>#nextPage\<close> raises a \<open>TypeError\<close>, which the \<open>catch\<close> turns
  into the error row.
\<close>

definition fetchVoters_resume :: "vt_dom \<Rightarrow> vt_request \<Rightarrow> vt_response \<Rightarrow> vt_state \<Rightarrow> vt_state" where
  "fetchVoters_resume d rq r s =
     (let err = VtMessage ''Error loading data'' (rq_cols rq) in
      case r of
        RespFail \<Rightarrow> s\<lparr>vt_body := err\<rparr>
      | RespData items page pages \<Rightarrow>
          let s1 = s\<lparr>vt_body := renderVoterRows (case items of None \<Rightarrow> [] | Some vs \<Rightarrow> vs) (rq_cols rq)\<rparr>;
              p = or1 page; ps = or1 pages
          in if \<not> vd_page_info d then s1\<lparr>vt_body := err\<rparr>
             else let s2 = s1\<lparr>vt_page_info := page_caption p ps\<rparr> in
             if \<not> vd_prev d then s2\<lparr>vt_body := err\<rparr>
             else let s3 = s2\<lparr>vt_prev_disabled := p \<le> 1\<rparr> in
             if \<not> vd_next d then s3\<lparr>vt_body := err\<rparr>
             else s3\<lparr>vt_next_disabled := ps \<le> p\<rparr>)"

text \<open>
  Events: the paging listeners (a disabled button fires nothing), a new value in
  the gender or entries select (its \<open>change\<close> listener), typing in the search box
  (no listener), \<open>showSection('manageVoters')\<close>, and the arrival of the response
  to the \<open>i\<close>-th request in flight.
\<close>

datatype vt_event =
    VtPrev | VtNext | VtSearchClick | VtSetEntries string | VtSetGender string
  | VtType string | VtShow | VtReceive nat vt_response

fun vt_step :: "vt_dom \<Rightarrow> vt_state \<Rightarrow> vt_event \<Rightarrow> vt_state" where
  "vt_step d s VtPrev =
     (if vd_prev d \<and> \<not> vt_prev_disabled s \<and> currentPage s > 1
      then fetchVoters d (s\<lparr>currentPage := currentPage s - 1\<rparr>) else s)"
| "vt_step d s VtNext =
     (if vd_next d \<and> \<not> vt_next_disabled s
      then fetchVoters d (s\<lparr>currentPage := currentPage s + 1\<rparr>) else s)"
| "vt_step d s VtSearchClick =
     (if vd_search_btn d then fetchVoters d (s\<lparr>currentPage := 1\<rparr>) else s)"
| "vt_step d s (VtSetEntries v) =
     (if vd_entries d then fetchVoters d (s\<lparr>vt_entries_value := v, currentPage := 1\<rparr>) else s)"
| "vt_step d s (VtSetGender v) =
     (if vd_gender d then fetchVoters d (s\<lparr>vt_gender_value := v, currentPage := 1\<rparr>) else s)"
| "vt_step d s (VtType v) = (if vd_search d then s\<lparr>vt_search_value := v\<rparr> else s)"
| "vt_step d s VtShow = fetchVoters d s"
| "vt_step d s (VtReceive i r) =
     (if i < length (vt_pending s)
      then fetchVoters_resume d (vt_pending s ! i) r (s\<lparr>vt_pending := take i (vt_pending s) @ drop (Suc i) (vt_pending s)\<rparr>)
      else s)"

definition vt_run :: "vt_dom \<Rightarrow> vt_state \<Rightarrow> vt_event list \<Rightarrow> vt_state" where
  "vt_run d s evs = foldl (vt_step d) s evs"

text \<open>The page as loaded: \<open>currentPage = 1\<close>, \<open>entriesPerPage = 50\<close>, the
  selects on their first options, nothing in flight.\<close>

definition vt_init :: "string \<Rightarrow> string \<Rightarrow> vt_state" where
  "vt_init gender0 entries0 =
     \<lparr>currentPage = 1, entriesPerPage = Some 50, vt_gender_value = gender0, vt_search_value = [],
      vt_entries_value = entries0, vt_body = VtInitial, vt_page_info = [],
      vt_prev_disabled = False, vt_next_disabled = False, vt_pending = []\<rparr>"

inductive vt_reach :: "vt_dom \<Rightarrow> string \<Rightarrow> string \<Rightarrow> vt_state \<Rightarrow> bool" where
  init: "vt_reach d g e (vt_init g e)"
| step: "vt_reach d g e s \<Longrightarrow> vt_reach d g e (vt_step d s ev)"

section \<open>Lemmas\<close>

lemma fetchVoters_keeps [simp]:
  "currentPage (fetchVoters d s) = currentPage s"
  "vt_gender_value (fetchVoters d s) = vt_gender_value s"
  "vt_entries_value (fetchVoters d s) = vt_entries_value s"
  by (simp_all add: fetchVoters_def Let_def)

lemma fetchVoters_resume_page [simp]: "currentPage (fetchVoters_resume d rq r s) = currentPage s"
  by (simp add: fetchVoters_resume_def Let_def split: vt_response.splits)

lemma fetchVoters_resume_pending [simp]: "vt_pending (fetchVoters_resume d rq r s) = vt_pending s"
  by (simp add: fetchVoters_resume_def Let_def split: vt_response.splits)

lemma vt_step_page: "1 \<le> currentPage s \<Longrightarrow> 1 \<le> currentPage (vt_step d s ev)"
  by (cases ev) auto

lemma fetchVoters_request:
  "vd_tbody d \<Longrightarrow>
   last (vt_pending (fetchVoters d s)) =
     \<lparr>rq_params = [(''page'', int_str (currentPage s)),
                   (''per_page'', num_str (js_parseInt (if vd_entries d then vt_entries_value s else ''50'')))]
                  @ (let g = (if vd_gender d then js_trim (vt_gender_value s) else [])
                     in if g \<noteq> [] \<and> js_lower g \<noteq> ''all'' then [(''gender'', g)] else [])
                  @ (let q = (if vd_search d then js_trim (vt_search_value s) else [])
                     in if q \<noteq> [] then [(''search'', q)] else []),
      rq_cols = (case vd_header_count d of None \<Rightarrow> 7 | Some n \<Rightarrow> n)\<rparr>"
  by (simp add: fetchVoters_def Let_def)

lemma length_voter_cells: "length (voter_cells v c) = max 8 c"
  by (simp add: voter_cells_def)

lemma resume_caption:
  "vd_page_info d \<Longrightarrow>
   vt_page_info (fetchVoters_resume d rq (RespData it pg pgs) s) = page_caption (or1 pg) (or1 pgs)"
  by (simp add: fetchVoters_resume_def Let_def)

lemma fetchVoters_more:
  "vt_next_disabled (fetchVoters d s) = vt_next_disabled s"
  "vd_tbody d \<Longrightarrow> vt_pending (fetchVoters d s) = vt_pending s @ [last (vt_pending (fetchVoters d s))]"
  by (simp_all add: fetchVoters_def Let_def)

lemma resume_shows:
  assumes "vd_page_info d" and "vd_prev d" and "vd_next d"
  shows "vt_page_info (fetchVoters_resume d rq (RespData it pg ps) s) = page_caption (or1 pg) (or1 ps)
         \<and> vt_body (fetchVoters_resume d rq (RespData it pg ps) s)
             = renderVoterRows (case it of None \<Rightarrow> [] | Some vs \<Rightarrow> vs) (rq_cols rq)"
  using assms by (simp add: fetchVoters_resume_def Let_def)

section \<open>Properties\<close>

text \<open>
  C27. The voter page number stays positive: in every state reachable from the
  loaded page, by any interleaving of clicks, select changes and responses,
  \<open>currentPage \<ge> 1\<close> (the previous-page listener only decrements above 1; the
  others increment or reset to 1).
\<close>

theorem vt_reach_page_ge1: "vt_reach d g e s \<Longrightarrow> 1 \<le> currentPage s"
proof (induction rule: vt_reach.induct)
  case (init d g e)
  then show ?case by (simp add: vt_init_def)
next
  case (step d g e s ev)
  from step.IH show ?case by (rule vt_step_page)
qed

theorem vt_reach_page_ge1_witness:
  "1 \<le> currentPage (vt_step \<lparr>vd_tbody = True, vd_header_count = Some 8, vd_gender = True, vd_search = True,
                                vd_entries = True, vd_search_btn = True, vd_page_info = True,
                                vd_prev = True, vd_next = True\<rparr>
                      (vt_init ''All'' ''50'') VtPrev)"
  by (rule vt_reach_page_ge1) (rule vt_reach.step, rule vt_reach.init)

text \<open>
  C28. The request carries the page and the page size: with the entries select on
  a decimal numeral of \<open>n\<close>, the \<open>page\<close> parameter \<open>fetchVoters\<close> sends parses
  back to \<open>currentPage\<close>, the \<open>per_page\<close> parameter parses back to \<open>n\<close>, and the
  global \<open>entriesPerPage\<close> becomes \<open>n\<close>.
\<close>

theorem fetchVoters_page_params:
  assumes "vd_tbody d" and "vd_entries d" and "vt_entries_value s = int_str n"
  shows "map_option js_parseInt (map_of (rq_params (last (vt_pending (fetchVoters d s)))) ''page'')
           = Some (Some (currentPage s))
         \<and> map_option js_parseInt (map_of (rq_params (last (vt_pending (fetchVoters d s)))) ''per_page'')
           = Some (Some n)
         \<and> entriesPerPage (fetchVoters d s) = Some n"
  using assms by (simp add: fetchVoters_request js_parseInt_int_str num_str_def)
    (simp add: fetchVoters_def Let_def js_parseInt_int_str)

theorem fetchVoters_page_params_witness:
  "map_option js_parseInt
     (map_of (rq_params (last (vt_pending (fetchVoters
        \<lparr>vd_tbody = True, vd_header_count = Some 8, vd_gender = True, vd_search = True,
         vd_entries = True, vd_search_btn = True, vd_page_info = True, vd_prev = True, vd_next = True\<rparr>
        (vt_init ''All'' (int_str 25)))))) ''per_page'')
   = Some (Some 25)"
  using fetchVoters_page_params [of _ "vt_init ''All'' (int_str 25)" 25] by (simp add: vt_init_def)

text \<open>
  C29. Responses are not matched to requests: from any state with nothing in
  flight and the next-page button enabled, two clicks on it before any response
  (the button stays enabled until a response arrives) send requests for pages
  \<open>p + 1\<close> and \<open>p + 2\<close>; if the answer to the second arrives first, whatever it
  is, the answer to the first one is what the table and the caption end up
  showing, while \<open>currentPage\<close> is \<open>p + 2\<close>.
\<close>

theorem stale_response_shown:
  assumes "vd_tbody d" and "vd_page_info d" and "vd_prev d" and "vd_next d"
    and "\<not> vt_next_disabled s" and "vt_pending s = []"
    and "s' = vt_run d s [VtNext, VtNext, VtReceive 1 r1, VtReceive 0 (RespData it0 pg0 ps0)]"
  shows "rq_params (hd (vt_pending (vt_step d s VtNext))) ! 0 = (''page'', int_str (currentPage s + 1))
         \<and> currentPage s' = currentPage s + 2 \<and> vt_pending s' = []
         \<and> vt_page_info s' = page_caption (or1 pg0) (or1 ps0)
         \<and> vt_body s' = renderVoterRows (case it0 of None \<Rightarrow> [] | Some vs \<Rightarrow> vs)
                          (case vd_header_count d of None \<Rightarrow> 7 | Some n \<Rightarrow> n)"
proof -
  define s1 where "s1 = vt_step d s VtNext"
  define s2 where "s2 = vt_step d s1 VtNext"
  define rq0 where "rq0 = last (vt_pending s1)"
  define rq1 where "rq1 = last (vt_pending s2)"
  have s1: "s1 = fetchVoters d (s\<lparr>currentPage := currentPage s + 1\<rparr>)" using assms(4,5) by (simp add: s1_def)
  have p1: "vt_pending s1 = [rq0]" and c1: "currentPage s1 = currentPage s + 1"
    and n1: "\<not> vt_next_disabled s1"
    using fetchVoters_more(2) [OF assms(1), of "s\<lparr>currentPage := currentPage s + 1\<rparr>"] assms(5,6)
    by (simp_all add: s1 rq0_def fetchVoters_more(1))
  have s2: "s2 = fetchVoters d (s1\<lparr>currentPage := currentPage s1 + 1\<rparr>)" using assms(4) n1 by (simp add: s2_def)
  have p2: "vt_pending s2 = [rq0, rq1]" and c2: "currentPage s2 = currentPage s + 2"
    using fetchVoters_more(2) [OF assms(1), of "s1\<lparr>currentPage := currentPage s1 + 1\<rparr>"] p1 c1
    by (simp_all add: s2 rq1_def)
  define s3 where "s3 = vt_step d s2 (VtReceive 1 r1)"
  have p3: "vt_pending s3 = [rq0]" and c3: "currentPage s3 = currentPage s + 2"
    using p2 c2 by (simp_all add: s3_def)
  define s4 where "s4 = vt_step d s3 (VtReceive 0 (RespData it0 pg0 ps0))"
  have s4: "s4 = fetchVoters_resume d rq0 (RespData it0 pg0 ps0) (s3\<lparr>vt_pending := []\<rparr>)"
    using p3 by (simp add: s4_def)
  have s': "s' = s4" using assms(7) by (simp add: vt_run_def s1_def s2_def s3_def s4_def)
  have rq0: "rq0 = last (vt_pending (fetchVoters d (s\<lparr>currentPage := currentPage s + 1\<rparr>)))"
    by (simp add: rq0_def s1)
  have "rq_params rq0 ! 0 = (''page'', int_str (currentPage s + 1))"
    and "rq_cols rq0 = (case vd_header_count d of None \<Rightarrow> 7 | Some n \<Rightarrow> n)"
    using fetchVoters_request [OF assms(1), of "s\<lparr>currentPage := currentPage s + 1\<rparr>"] by (simp_all add: rq0)
  moreover have "hd (vt_pending (vt_step d s VtNext)) = rq0" using p1 by (simp add: s1_def)
  ultimately show ?thesis
    using resume_shows [OF assms(2,3,4), of rq0 it0 pg0 ps0 "s3\<lparr>vt_pending := []\<rparr>"] c3
    by (simp add: s' s4)
qed


theorem stale_response_shown_witness:
  "currentPage (vt_run \<lparr>vd_tbody = True, vd_header_count = Some 8, vd_gender = True, vd_search = True,
            vd_entries = True, vd_search_btn = True, vd_page_info = True, vd_prev = True, vd_next = True\<rparr>
          (vt_init ''All'' ''50'')
          [VtNext, VtNext, VtReceive 1 RespFail, VtReceive 0 (RespData (Some []) (Some 2) (Some 5))]) = 3
   \<and> vt_page_info (vt_run \<lparr>vd_tbody = True, vd_header_count = Some 8, vd_gender = True, vd_search = True,
            vd_entries = True, vd_search_btn = True, vd_page_info = True, vd_prev = True, vd_next = True\<rparr>
          (vt_init ''All'' ''50'')
          [VtNext, VtNext, VtReceive 1 RespFail, VtReceive 0 (RespData (Some []) (Some 2) (Some 5))])
       = page_caption 2 5"
  using stale_response_shown [of "\<lparr>vd_tbody = True, vd_header_count = Some 8, vd_gender = True, vd_search = True,
            vd_entries = True, vd_search_btn = True, vd_page_info = True, vd_prev = True, vd_next = True\<rparr>"
          "vt_init ''All'' ''50''" _ RespFail "Some []" "Some 2" "Some 5", OF _ _ _ _ _ _ refl]
  by (simp add: vt_init_def or1_def)

text \<open>
  C30. Every rendered row has one entry per voter, in order, each with
  \<open>max 8 colCount\<close> cells: seven escaped fields, the badge, and blank cells up to
  the header's column count.
\<close>

theorem renderVoterRows_shape:
  assumes "renderVoterRows vs c = VtRows rows"
  shows "map fst rows = vs \<and> (\<forall>r\<in>set rows. length (snd r) = max 8 c)"
  using assms by (auto simp: renderVoterRows_def length_voter_cells comp_def split: if_splits)

theorem renderVoterRows_shape_witness:
  "map fst [(\<lambda>k. JNull, voter_cells (\<lambda>k. JNull) 10)] = [\<lambda>k. JNull]
   \<and> length (voter_cells (\<lambda>k. JNull) 10) = 10"
  using renderVoterRows_shape [of "[\<lambda>k. JNull]" 10 "[(\<lambda>k. JNull, voter_cells (\<lambda>k. JNull) 10)]"]
  by (simp add: renderVoterRows_def)

end
