(* ===== verification/Navigation.thy ===== *)
theory Navigation
  imports PageScript
begin

text \<open>
  Section navigation. Each dashboard page shows one of its \<open>.dashboard-section\<close>
  elements at a time; the links of \<open>.main-nav\<close> call \<open>showSection(id)\<close> from their
  \<open>onclick\<close> attribute. There are three versions of \<open>showSection\<close>:
  \<open>src/static/js/main.js\<close> (marks the link whose \<open>onclick\<close> is exactly
  \<open>showSection('id')\<close>, found by a CSS attribute selector), \<open>worker.js\<close> (marks the
  first link whose \<open>onclick\<close> contains the id, then starts the section's loader)
  and \<open>candidate.js\<close> (marks every link whose \<open>onclick\<close> contains the quoted id,
  then starts the section's loaders). All three first hide every section and show
  the element with the id. A page is the list of its element ids, the ids of its
  sections in document order (ids are distinct) and the \<open>onclick\<close> attribute of
  each navigation link; the view is each element's \<open>display\<close> and each link's
  \<open>active\<close> class. Section ids come from the pages' \<open>onclick\<close> attributes; a
  backslash in one would start a CSS escape in the selector of \<open>main.js\<close>, which
  the model does not decode.
\<close>

datatype disp = DispUnset | DispNone | DispBlock

record nav_dom =
  nd_ids :: "element_id list"
  nd_sections :: "element_id list"
  nd_links :: "string option list"

record nav_view =
  nv_display :: "element_id \<Rightarrow> disp"
  nv_active :: "bool list"

text \<open>Hide every section, then show the element with the id, if any.\<close>

definition show_only :: "nav_dom \<Rightarrow> (element_id \<Rightarrow> disp) \<Rightarrow> element_id \<Rightarrow> element_id \<Rightarrow> disp" where
  "show_only d disp sid =
     (let hidden = foldl (\<lambda>f e. f(e := DispNone)) disp (nd_sections d)
      in if sid \<in> set (nd_ids d) then hidden(sid := DispBlock) else hidden)"

text \<open>The first element satisfying \<open>P\<close> is marked (\<open>querySelector\<close>, \<open>find\<close>).\<close>

fun mark_first :: "('a \<Rightarrow> bool) \<Rightarrow> 'a list \<Rightarrow> bool list" where
  "mark_first P [] = []"
| "mark_first P (x # xs) = (if P x then True # map (\<lambda>_. False) xs else False # mark_first P xs)"

definition onclick_of :: "element_id \<Rightarrow> string" where
  "onclick_of sid = ''showSection('' @ [CHR 0x27] @ sid @ [CHR 0x27] @ '')''"

text \<open>
  \<open>.main-nav a[onclick="showSection('id')"]\<close> is not a valid selector when the id
  holds a double quote or a line break: \<open>querySelector\<close> throws.
\<close>

definition css_bad :: "element_id \<Rightarrow> bool" where
  "css_bad sid \<longleftrightarrow> (\<exists>c\<in>set sid. c = CHR 0x22 \<or> c = CHR 0x0A \<or> c = CHR 0x0D \<or> c = CHR 0x0C)"

text \<open>\<open>showSection\<close> of \<open>main.js\<close>.\<close>

definition showSection_main :: "nav_dom \<Rightarrow> nav_view \<Rightarrow> element_id \<Rightarrow> nav_view \<times> js_error option" where
  "showSection_main d v sid =
     (let disp' = show_only d (nv_display v) sid;
          cleared = map (\<lambda>_. False) (nd_links d)
      in if css_bad sid
         then (v\<lparr>nv_display := disp', nv_active := cleared\<rparr>,
               Some (SyntaxError ''is not a valid selector''))
         else (v\<lparr>nv_display := disp', nv_active := mark_first (\<lambda>l. l = Some (onclick_of sid)) (nd_links d)\<rparr>,
               None))"

text \<open>The \<open>DOMContentLoaded\<close> listener of \<open>main.js\<close>: show the first section.\<close>

definition main_loaded :: "nav_dom \<Rightarrow> nav_view \<Rightarrow> nav_view" where
  "main_loaded d v =
     (case nd_sections d of [] \<Rightarrow> v | s # _ \<Rightarrow> v\<lparr>nv_display := (nv_display v)(s := DispBlock)\<rparr>)"

text \<open>The loaders a \<open>showSection\<close> starts, in the order it starts them.\<close>

datatype loader =
    LoadVoters | LoadHouseholds | LoadTasks | LoadMessages | LoadReports
  | LoadCommandCenterData | LoadWardMap | LoadOverdueTasks | LoadBoothPerformance
  | LoadTopIssues | LoadSegmentPerformance | ApplyVoterFilters | LoadCampaignHub
  | LoadBoothStrategy

definition worker_loads :: "element_id \<Rightarrow> loader list" where
  "worker_loads sid =
     (if sid = ''manageVoters'' then [LoadVoters] else [])
     @ (if sid = ''householdData'' then [LoadHouseholds] else [])
     @ (if sid = ''campaignTasks'' then [LoadTasks] else [])
     @ (if sid = ''communication'' then [LoadMessages] else [])
     @ (if sid = ''reports'' then [LoadReports] else [])"

text \<open>\<open>getAttribute('onclick')\<close> is truthy and contains \<open>s\<close>.\<close>

definition onclick_has :: "string \<Rightarrow> string option \<Rightarrow> bool" where
  "onclick_has s l = (case l of None \<Rightarrow> False | Some a \<Rightarrow> a \<noteq> [] \<and> js_includes a s)"

definition showSection_worker :: "nav_dom \<Rightarrow> nav_view \<Rightarrow> element_id \<Rightarrow> nav_view \<times> loader list" where
  "showSection_worker d v sid =
     (v\<lparr>nv_display := show_only d (nv_display v) sid,
        nv_active := mark_first (onclick_has sid) (nd_links d)\<rparr>,
      worker_loads sid)"

definition candidate_loads :: "element_id \<Rightarrow> loader list" where
  "candidate_loads sid =
     (if sid = ''commandCenter'' then
        [LoadCommandCenterData, LoadWardMap, LoadOverdueTasks, LoadBoothPerformance,
         LoadTopIssues, LoadSegmentPerformance]
      else if sid = ''voterAnalytics'' then [ApplyVoterFilters]
      else if sid = ''campaignHub'' then [LoadCampaignHub]
      else if sid = ''boothStrategy'' then [LoadBoothStrategy]
      else [])"

definition showSection_candidate :: "nav_dom \<Rightarrow> nav_view \<Rightarrow> element_id \<Rightarrow> nav_view \<times> loader list" where
  "showSection_candidate d v sid =
     (v\<lparr>nv_display := show_only d (nv_display v) sid,
        nv_active := map (onclick_has ([CHR 0x27] @ sid @ [CHR 0x27])) (nd_links d)\<rparr>,
      candidate_loads sid)"

section \<open>Lemmas\<close>

lemma foldl_hide:
  "foldl (\<lambda>f e. f(e := DispNone)) disp es x = (if x \<in> set es then DispNone else disp x)"
  by (induction es arbitrary: disp) auto

lemma show_only_section:
  "e \<in> set (nd_sections d) \<Longrightarrow>
   show_only d disp sid e = (if e = sid \<and> sid \<in> set (nd_ids d) then DispBlock else DispNone)"
  by (simp add: show_only_def foldl_hide Let_def)

lemma length_mark_first [simp]: "length (mark_first P xs) = length xs"
  by (induction xs) auto

lemma mark_first_at_most_one: "length (filter id (mark_first P xs)) \<le> 1"
proof (induction xs)
  case Nil
  then show ?case by simp
next
  case (Cons x xs)
  have "filter id (map (\<lambda>_. False) xs) = []" by (induction xs) auto
  with Cons show ?case by auto
qed

lemma mark_first_nth:
  "i < length xs \<Longrightarrow> mark_first P xs ! i \<longleftrightarrow> P (xs ! i) \<and> (\<forall>j<i. \<not> P (xs ! j))"
proof (induction xs arbitrary: i)
  case Nil
  then show ?case by simp
next
  case (Cons x xs)
  show ?case
  proof (cases i)
    case 0
    then show ?thesis by simp
  next
    case (Suc k)
    have "(\<forall>j<Suc k. \<not> P ((x # xs) ! j)) \<longleftrightarrow> \<not> P x \<and> (\<forall>j<k. \<not> P (xs ! j))"
      by (auto simp: less_Suc_eq_0_disj)
    then show ?thesis using Cons Suc by auto
  qed
qed

section \<open>Properties\<close>

text \<open>
  C32. Exactly the chosen section is shown: after any of the three
  \<open>showSection\<close>s, a section of the page is displayed when it is the one asked for
  and hidden otherwise, whatever was displayed before.
\<close>

theorem showSection_exclusive:
  assumes "e \<in> set (nd_sections d)"
  shows "nv_display (fst (showSection_main d v sid)) e = (if e = sid \<and> sid \<in> set (nd_ids d) then DispBlock else DispNone)
       \<and> nv_display (fst (showSection_worker d v sid)) e = (if e = sid \<and> sid \<in> set (nd_ids d) then DispBlock else DispNone)
       \<and> nv_display (fst (showSection_candidate d v sid)) e = (if e = sid \<and> sid \<in> set (nd_ids d) then DispBlock else DispNone)"
  using assms
  by (cases "e = sid")
     (simp_all add: show_only_section showSection_main_def showSection_worker_def
        showSection_candidate_def Let_def)

theorem showSection_exclusive_witness:
  "nv_display (fst (showSection_main \<lparr>nd_ids = [''a'', ''b''], nd_sections = [''a'', ''b''], nd_links = []\<rparr>
                                     \<lparr>nv_display = (\<lambda>_. DispBlock), nv_active = []\<rparr> ''b'')) ''a'' = DispNone
   \<and> nv_display (fst (showSection_worker \<lparr>nd_ids = [''a'', ''b''], nd_sections = [''a'', ''b''], nd_links = []\<rparr>
                                     \<lparr>nv_display = (\<lambda>_. DispBlock), nv_active = []\<rparr> ''b'')) ''b'' = DispBlock"
  using showSection_exclusive [of "''a''" "\<lparr>nd_ids = [''a'', ''b''], nd_sections = [''a'', ''b''], nd_links = []\<rparr>"
                                  "\<lparr>nv_display = (\<lambda>_. DispBlock), nv_active = []\<rparr>" "''b''"]
        showSection_exclusive [of "''b''" "\<lparr>nd_ids = [''a'', ''b''], nd_sections = [''a'', ''b''], nd_links = []\<rparr>"
                                  "\<lparr>nv_display = (\<lambda>_. DispBlock), nv_active = []\<rparr>" "''b''"]
  by simp

text \<open>
  C33. \<open>main.js\<close> marks at most one link, and it is the first link whose
  \<open>onclick\<close> is exactly \<open>showSection('id')\<close>.
\<close>

theorem showSection_main_active:
  assumes "\<not> css_bad sid" and "i < length (nd_links d)"
  shows "length (filter id (nv_active (fst (showSection_main d v sid)))) \<le> 1
       \<and> (nv_active (fst (showSection_main d v sid)) ! i \<longleftrightarrow>
            nd_links d ! i = Some (onclick_of sid) \<and> (\<forall>j<i. nd_links d ! j \<noteq> Some (onclick_of sid)))"
  using assms mark_first_at_most_one mark_first_nth [OF assms(2)]
  by (simp add: showSection_main_def Let_def)

theorem showSection_main_active_witness:
  "nv_active (fst (showSection_main \<lparr>nd_ids = [], nd_sections = [], nd_links = [None, Some (onclick_of ''x'')]\<rparr>
                                    \<lparr>nv_display = (\<lambda>_. DispUnset), nv_active = []\<rparr> ''x'')) ! 1"
  using showSection_main_active [of "''x''" 1 "\<lparr>nd_ids = [], nd_sections = [], nd_links = [None, Some (onclick_of ''x'')]\<rparr>"
                                   "\<lparr>nv_display = (\<lambda>_. DispUnset), nv_active = []\<rparr>"]
  by (simp add: css_bad_def)

text \<open>
  The three versions disagree on which link is active: on a page whose links
  call \<open>showSection('reportsArchive')\<close> and \<open>showSection('reports')\<close>,
  \<open>showSection('reports')\<close> of \<open>worker.js\<close> marks the first link (its
  \<open>onclick\<close> contains \<open>reports\<close>), while \<open>main.js\<close> and \<open>candidate.js\<close>
  mark the second.
\<close>

theorem showSection_worker_substring:
  "let d = \<lparr>nd_ids = [''reportsArchive'', ''reports''], nd_sections = [''reportsArchive'', ''reports''],
            nd_links = [Some (onclick_of ''reportsArchive''), Some (onclick_of ''reports'')]\<rparr>;
       v = \<lparr>nv_display = (\<lambda>_. DispUnset), nv_active = [False, False]\<rparr>
   in nv_active (fst (showSection_worker d v ''reports'')) = [True, False]
      \<and> nv_active (fst (showSection_main d v ''reports'')) = [False, True]
      \<and> nv_active (fst (showSection_candidate d v ''reports'')) = [False, True]"
  by code_simp

end
