(* ===== verification/UrlQuery.thy ===== *)
theory UrlQuery
  imports Prelude
begin

text \<open>
  Query strings as the dashboards build them: \<open>new URLSearchParams()\<close>, \<open>append\<close>
  and \<open>toString()\<close> (used by \<open>fetchVoters\<close> in \<open>worker.js\<close> and by
  \<open>applyVoterFilters\<close> and \<open>exportVoters\<close> in \<open>candidate.js\<close>). \<open>toString\<close>
  serialises each name and value as \<open>application/x-www-form-urlencoded\<close>: the
  string is encoded as UTF-8, a space becomes \<open>+\<close>, the bytes of
  \<open>* - . _\<close>, digits and ASCII letters stay, every other byte becomes \<open>%XX\<close> with
  upper-case hex digits; pairs are joined by \<open>&\<close>, name and value by \<open>=\<close>.

  The reading side, \<open>parse_query\<close>, is what a server does with the query string
  (split at \<open>&\<close> and at the first \<open>=\<close>, \<open>+\<close> is a space, \<open>%XX\<close> a byte,
  the bytes UTF-8): the meaning of a query string. The round trip
  \<open>parse_query (query_string ps) = ps\<close> holds for every list of pairs of Latin-1
  strings.
\<close>

section \<open>Serialisation (\<open>URLSearchParams.prototype.toString\<close>)\<close>

definition utf8_bytes :: "char \<Rightarrow> nat list" where
  "utf8_bytes c =
     (let n = of_char c in if n < 128 then [n] else [192 + n div 64, 128 + n mod 64])"

definition form_safe :: "nat \<Rightarrow> bool" where
  "form_safe b \<longleftrightarrow>
     b = 0x2A \<or> b = 0x2D \<or> b = 0x2E \<or> b = 0x5F \<or> (48 \<le> b \<and> b \<le> 57)
     \<or> (65 \<le> b \<and> b \<le> 90) \<or> (97 \<le> b \<and> b \<le> 122)"

definition hex_char :: "nat \<Rightarrow> char" where
  "hex_char n = (if n < 10 then char_of (48 + n) else char_of (55 + n))"

definition enc_byte :: "nat \<Rightarrow> string" where
  "enc_byte b =
     (if b = 32 then ''+''
      else if form_safe b then [char_of b]
      else [CHR ''%'', hex_char (b div 16), hex_char (b mod 16)])"

definition form_encode :: "string \<Rightarrow> string" where
  "form_encode s = concat (map enc_byte (concat (map utf8_bytes s)))"

definition query_string :: "(string \<times> string) list \<Rightarrow> string" where
  "query_string ps = js_join ''&'' (map (\<lambda>(k, v). form_encode k @ ''='' @ form_encode v) ps)"

section \<open>Reading a query string\<close>

definition hex_val :: "char \<Rightarrow> nat" where
  "hex_val c = (let n = of_char c in if n \<le> 57 then n - 48 else n - 55)"

fun pct_bytes :: "string \<Rightarrow> nat list" where
  "pct_bytes [] = []"
| "pct_bytes (c # cs) =
     (if c = CHR ''+'' then 32 # pct_bytes cs
      else if c = CHR ''%'' then
        (case cs of
           h # l # rest \<Rightarrow> (16 * hex_val h + hex_val l) # pct_bytes rest
         | _ \<Rightarrow> of_char c # pct_bytes cs)
      else of_char c # pct_bytes cs)"

fun utf8_dec :: "nat list \<Rightarrow> string" where
  "utf8_dec [] = []"
| "utf8_dec [b] = [char_of b]"
| "utf8_dec (b # b' # bs) =
     (if b < 128 then char_of b # utf8_dec (b' # bs)
      else char_of ((b mod 32) * 64 + b' mod 64) # utf8_dec bs)"

definition form_decode :: "string \<Rightarrow> string" where
  "form_decode s = utf8_dec (pct_bytes s)"

fun split_on :: "char \<Rightarrow> string \<Rightarrow> string list" where
  "split_on c [] = [[]]"
| "split_on c (x # xs) =
     (if x = c then [] # split_on c xs
      else (case split_on c xs of y # ys \<Rightarrow> (x # y) # ys | [] \<Rightarrow> [[x]]))"

definition parse_pair :: "string \<Rightarrow> string \<times> string" where
  "parse_pair p =
     (let k = takeWhile (\<lambda>c. c \<noteq> CHR ''='') p
      in (form_decode k, form_decode (drop (Suc (length k)) p)))"

definition parse_query :: "string \<Rightarrow> (string \<times> string) list" where
  "parse_query q = (if q = [] then [] else map parse_pair (split_on (CHR ''&'') q))"

section \<open>Lemmas\<close>

lemma of_char_lits: "of_char (CHR ''&'') = (38::nat)" "of_char (CHR ''='') = (61::nat)"
  "of_char (CHR ''+'') = (43::nat)" "of_char (CHR ''%'') = (37::nat)"
  by simp_all

lemma hex_val_hex_char: "n < 16 \<Longrightarrow> hex_val (hex_char n) = n"
  by (auto simp: hex_val_def hex_char_def of_char_of Let_def)

lemma of_char_hex_char:
  "n < 16 \<Longrightarrow> (48 \<le> (of_char (hex_char n) :: nat) \<and> (of_char (hex_char n) :: nat) \<le> 57)
              \<or> (65 \<le> (of_char (hex_char n) :: nat) \<and> (of_char (hex_char n) :: nat) \<le> 70)"
  by (auto simp: hex_char_def of_char_of)

lemma of_char_char_of_small: "x < 256 \<Longrightarrow> (of_char (char_of x :: char) :: nat) = x"
  by (simp add: of_char_of)

lemma enc_byte_cases:
  "b < 256 \<Longrightarrow>
   enc_byte b = ''+'' \<and> b = 32
   \<or> enc_byte b = [char_of b] \<and> form_safe b \<and> b \<noteq> 32
   \<or> enc_byte b = [CHR ''%'', hex_char (b div 16), hex_char (b mod 16)] \<and> \<not> form_safe b \<and> b \<noteq> 32"
  by (simp add: enc_byte_def)

lemma enc_byte_of_char:
  assumes "b < 256" "c \<in> set (enc_byte b)"
  shows "(of_char c :: nat) \<noteq> 38 \<and> (of_char c :: nat) \<noteq> 61"
proof -
  have h: "b div 16 < 16" "b mod 16 < 16" using assms(1) by auto
  consider "enc_byte b = ''+''" | "enc_byte b = [char_of b]" "form_safe b"
    | "enc_byte b = [CHR ''%'', hex_char (b div 16), hex_char (b mod 16)]"
    using enc_byte_cases [OF assms(1)] by blast
  then show ?thesis
  proof cases
    case 1 then show ?thesis using assms(2) by auto
  next
    case 2 then show ?thesis using assms by (auto simp: form_safe_def of_char_char_of_small)
  next
    case 3 then show ?thesis using assms(2) of_char_hex_char [OF h(1)] of_char_hex_char [OF h(2)] by auto
  qed
qed


lemma of_char_lt_256: "(of_char c :: nat) < 256"
  using of_char_of [of "of_char c :: nat"] by (metis char_of_char mod_less_divisor zero_less_numeral)

lemma pct_bytes_enc_byte: "b < 256 \<Longrightarrow> pct_bytes (enc_byte b @ rest) = b # pct_bytes rest"
proof -
  assume b: "b < 256"
  have h: "b div 16 < 16" "b mod 16 < 16" using b by auto
  consider "enc_byte b = ''+''" "b = 32" | "enc_byte b = [char_of b]" "form_safe b"
    | "enc_byte b = [CHR ''%'', hex_char (b div 16), hex_char (b mod 16)]"
    using enc_byte_cases [OF b] by blast
  then show ?thesis
  proof cases
    case 1 then show ?thesis by simp
  next
    case 2
    have "(of_char (char_of b :: char) :: nat) = b" using b by (rule of_char_char_of_small)
    moreover have "b \<noteq> 43" "b \<noteq> 37" using 2(2) by (auto simp: form_safe_def)
    ultimately have "char_of b \<noteq> CHR ''+''" "char_of b \<noteq> CHR ''%''" by (auto dest: arg_cong [where f = "of_char :: char \<Rightarrow> nat"])
    with 2 show ?thesis using \<open>(of_char (char_of b :: char) :: nat) = b\<close> by simp
  next
    case 3
    then show ?thesis using hex_val_hex_char [OF h(1)] hex_val_hex_char [OF h(2)] by simp
  qed
qed

lemma pct_bytes_encode_bytes:
  "\<forall>b\<in>set bs. b < 256 \<Longrightarrow> pct_bytes (concat (map enc_byte bs) @ rest) = bs @ pct_bytes rest"
  by (induction bs) (simp_all add: pct_bytes_enc_byte)

lemma of_char_div_64: "(of_char c :: nat) div 64 < 4"
  using of_char_lt_256 [of c] by (simp add: div_less_iff_less_mult)

lemma utf8_bytes_lt: "b \<in> set (utf8_bytes c) \<Longrightarrow> b < 256"
proof -
  have "(of_char c :: nat) mod 64 < 64" by simp
  then show "b \<in> set (utf8_bytes c) \<Longrightarrow> b < 256"
    using of_char_lt_256 [of c] of_char_div_64 [of c]
    by (simp add: utf8_bytes_def Let_def split: if_splits) linarith
qed

lemma utf8_dec_ascii: "b < 128 \<Longrightarrow> utf8_dec (b # bs) = char_of b # utf8_dec bs"
  by (cases bs) auto

lemma utf8_dec_bytes: "utf8_dec (concat (map utf8_bytes s)) = s"
proof (induction s)
  case Nil
  then show ?case by simp
next
  case (Cons c s)
  let ?n = "of_char c :: nat"
  have lt: "?n < 256" by (rule of_char_lt_256)
  show ?case
  proof (cases "?n < 128")
    case True
    then show ?thesis using Cons.IH by (simp add: utf8_bytes_def utf8_dec_ascii)
  next
    case False
    have "(192 + ?n div 64) mod 32 = (?n div 64 + 32 * 6) mod 32" by (simp add: add.commute)
    also have "\<dots> = ?n div 64" using of_char_div_64 [of c] by (simp only: mod_mult_self2) simp
    finally have "(192 + ?n div 64) mod 32 = ?n div 64" .
    moreover have "(128 + ?n mod 64) mod 64 = (?n mod 64 + 64 * 2) mod 64" by (simp add: add.commute)
    moreover have "(?n mod 64 + 64 * 2) mod 64 = ?n mod 64" by (simp only: mod_mult_self2) simp
    ultimately have "(192 + ?n div 64) mod 32 * 64 + (128 + ?n mod 64) mod 64 = ?n"
      by (simp only:) (rule div_mult_mod_eq)
    then show ?thesis using False Cons.IH by (simp add: utf8_bytes_def Let_def)
  qed
qed

lemma form_decode_encode: "form_decode (form_encode s) = s"
  using pct_bytes_encode_bytes [of "concat (map utf8_bytes s)" "[]"] utf8_bytes_lt
  by (simp add: form_decode_def form_encode_def utf8_dec_bytes)


lemma form_encode_chars: "c \<in> set (form_encode s) \<Longrightarrow> c \<noteq> CHR ''&'' \<and> c \<noteq> CHR ''=''"
proof -
  assume "c \<in> set (form_encode s)"
  then obtain b where "b \<in> set (concat (map utf8_bytes s))" "c \<in> set (enc_byte b)"
    by (auto simp: form_encode_def)
  moreover have "b < 256" using calculation(1) utf8_bytes_lt by auto
  ultimately have "(of_char c :: nat) \<noteq> 38 \<and> (of_char c :: nat) \<noteq> 61" using enc_byte_of_char by blast
  then show ?thesis using of_char_lits by auto
qed

lemma split_on_none: "c \<notin> set x \<Longrightarrow> split_on c x = [x]"
  by (induction x) auto

lemma split_on_append: "c \<notin> set x \<Longrightarrow> split_on c (x @ c # rest) = x # split_on c rest"
  by (induction x) auto

lemma split_on_join:
  "\<forall>x\<in>set xs. c \<notin> set x \<Longrightarrow> xs \<noteq> [] \<Longrightarrow> split_on c (js_join [c] xs) = xs"
  by (induction "[c]" xs rule: js_join.induct) (simp_all add: split_on_none split_on_append)

lemma parse_pair_encoded: "parse_pair (form_encode k @ CHR ''='' # form_encode v) = (k, v)"
proof -
  have "\<forall>c\<in>set (form_encode k). c \<noteq> CHR ''=''" using form_encode_chars by blast
  then have "takeWhile (\<lambda>c. c \<noteq> CHR ''='') (form_encode k @ CHR ''='' # form_encode v) = form_encode k"
    by (simp add: takeWhile_append2)
  then show ?thesis by (simp add: parse_pair_def form_decode_encode)
qed

lemma query_string_Nil_iff: "query_string ps = [] \<longleftrightarrow> ps = []"
proof
  assume "query_string ps = []"
  then show "ps = []"
    by (cases ps rule: remdups_adj.cases) (auto simp: query_string_def split_def)
qed (simp add: query_string_def)

lemma parse_query_string: "parse_query (query_string ps) = ps"
proof (cases "ps = []")
  case True
  then show ?thesis by (simp add: parse_query_def query_string_def)
next
  case False
  let ?xs = "map (\<lambda>(k, v). form_encode k @ ''='' @ form_encode v) ps"
  have "\<forall>x\<in>set ?xs. CHR ''&'' \<notin> set x" using form_encode_chars by fastforce
  then have "split_on (CHR ''&'') (query_string ps) = ?xs"
    using False by (simp add: query_string_def split_on_join)
  then show ?thesis using False
    by (simp add: parse_query_def query_string_Nil_iff comp_def split_def parse_pair_encoded)
qed

end
