(* ===== verification/VoterFilters.thy ===== *)
theory VoterFilters
  imports UrlQuery CsvExport
begin

text \<open>
  The voter analytics tab of the candidate dashboard, \<open>src/static/js/candidate.js\<close>:
  seven filter fields (\<open>#filterAffiliation\<close> \<dots> \<open>#filterEducation\<close>) read into an
  object, the non-empty ones appended to a \<open>URLSearchParams\<close> (\<open>UrlQuery\<close>);
  \<open>applyVoterFilters\<close> fetches the matching voters and renders them, \<open>resetFilters\<close>
  clears the fields and reapplies, \<open>saveSegment\<close> posts a named segment with the
  filters, \<open>exportVoters\<close> fetches every matching voter and downloads
  \<open>jsonToCsv\<close> of them (\<open>CsvExport\<close>). A filter field is its value, \<open>None\<close> when
  the element is missing (\<open>.value\<close> of \<open>null\<close> raises). The responses are the
  inputs the handlers read from the server.
\<close>

datatype filter_key = FAffiliation | FAge | FIssues | FOccupation | FGender | FWard | FEducation

definition filter_keys :: "filter_key list" where
  "filter_keys = [FAffiliation, FAge, FIssues, FOccupation, FGender, FWard, FEducation]"

fun filter_name :: "filter_key \<Rightarrow> string" where
  "filter_name FAffiliation = ''affiliation''"
| "filter_name FAge = ''age''"
| "filter_name FIssues = ''issues''"
| "filter_name FOccupation = ''occupation''"
| "filter_name FGender = ''gender''"
| "filter_name FWard = ''ward''"
| "filter_name FEducation = ''education''"

type_synonym filter_dom = "filter_key \<Rightarrow> string option"

text \<open>The object literal \<open>{affiliation: ...value, ...}\<close>, evaluated in order.\<close>

fun read_filters :: "filter_key list \<Rightarrow> filter_dom \<Rightarrow> js_error + (string \<times> string) list" where
  "read_filters [] d = Inr []"
| "read_filters (k # ks) d =
     (case d k of
        None \<Rightarrow> Inl (TypeError ''Cannot read properties of null (reading value)'')
      | Some v \<Rightarrow> (case read_filters ks d of Inl e \<Rightarrow> Inl e | Inr ps \<Rightarrow> Inr ((filter_name k, v) # ps)))"

text \<open>\<open>for (const key in filters) if (filters[key]) queryParams.append(key, filters[key])\<close>\<close>

definition nonempty_params :: "(string \<times> string) list \<Rightarrow> (string \<times> string) list" where
  "nonempty_params ps = filter (\<lambda>(k, v). v \<noteq> []) ps"

text \<open>\<open>getAffiliationClass\<close>: \<open>toLowerCase\<close> of a value that is not a string raises.\<close>

definition getAffiliationClass :: "jsval \<Rightarrow> js_error + string" where
  "getAffiliationClass a =
     (if \<not> js_truthy a then Inr []
      else case a of
        JStr s \<Rightarrow>
          (let aff = js_lower s in
           if aff = ''supporter'' then Inr ''affiliation-supporter''
           else if aff = ''opponent'' then Inr ''affiliation-opponent''
           else if aff = ''swingvoter'' \<or> aff = ''neutral'' then Inr ''affiliation-SwingVoter''
           else Inr [])
      | _ \<Rightarrow> Inl (TypeError ''affiliation.toLowerCase is not a function''))"

text \<open>One row of the analytics table: name, age, gender, badge class and text, issues.\<close>

record an_row =
  ar_name :: string
  ar_age :: string
  ar_gender :: string
  ar_class :: string
  ar_affiliation :: string
  ar_issues :: string

definition analytics_row :: "voter_row \<Rightarrow> js_error + an_row" where
  "analytics_row v =
     (case getAffiliationClass (v ''Political Affiliation'') of
        Inl e \<Rightarrow> Inl e
      | Inr cls \<Rightarrow> Inr \<lparr>ar_name = js_to_string (js_or (v ''Name'') (JStr [])),
                        ar_age = js_to_string (js_or (v ''Age'') (JStr [])),
                        ar_gender = js_to_string (js_or (v ''Gender'') (JStr [])),
                        ar_class = cls,
                        ar_affiliation = js_to_string (js_or (v ''Political Affiliation'') (JStr ''Empty'')),
                        ar_issues = js_to_string (js_or (v ''Key Issues'') (JStr []))\<rparr>)"

fun analytics_rows :: "voter_row list \<Rightarrow> js_error + an_row list" where
  "analytics_rows [] = Inr []"
| "analytics_rows (v # vs) =
     (case analytics_row v of
        Inl e \<Rightarrow> Inl e
      | Inr r \<Rightarrow> (case analytics_rows vs of Inl e \<Rightarrow> Inl e | Inr rs \<Rightarrow> Inr (r # rs)))"

datatype an_body = AnMessage string | AnRows "an_row list"

text \<open>
  The server's answer to \<open>GET /api/candidate/voters\<close>: failed (network, \<open>!ok\<close>,
  not JSON), or \<open>items\<close> (\<open>None\<close> when not an array) and \<open>total\<close>.
\<close>

datatype an_response = AnFail | AnData "voter_row list option" jsval

record an_dom =
  ad_filters :: filter_dom
  ad_tbody :: bool
  ad_count :: bool

text \<open>
  What \<open>applyVoterFilters\<close> leaves: the request's query string, the table body,
  the text of \<open>#voterCount\<close> (\<open>None\<close>: not written) and the query handed to
  \<open>fetchVisualizationData\<close>.
\<close>

record an_view =
  an_query :: string
  an_body :: an_body
  an_count :: "jsval option"
  an_viz :: string

definition applyVoterFilters :: "an_dom \<Rightarrow> an_response \<Rightarrow> js_error + an_view" where
  "applyVoterFilters d r =
     (case read_filters filter_keys (ad_filters d) of
        Inl e \<Rightarrow> Inl e
      | Inr fs \<Rightarrow>
          let q = query_string (nonempty_params fs);
              err = AnMessage ''Error loading data.''
          in if \<not> ad_tbody d then Inl (TypeError ''Cannot set properties of null (setting innerHTML)'')
             else
               let (body, count) =
                 (case r of
                    AnFail \<Rightarrow> (err, None)
                  | AnData None tot \<Rightarrow> (err, None)
                  | AnData (Some vs) tot \<Rightarrow>
                      (case (if vs = [] then Inr (AnMessage ''No voters match the criteria.'')
                             else map_sum id AnRows (analytics_rows vs)) of
                         Inl e \<Rightarrow> (err, None)
                       | Inr b \<Rightarrow> if ad_count d then (b, Some tot) else (err, None)))
               in Inr \<lparr>an_query = q, an_body = body, an_count = count, an_viz = q\<rparr>)"

text \<open>
  \<open>resetFilters\<close>: each field in turn is set to \<open>''\<close> (a missing one raises and
  the later ones keep their values), then \<open>applyVoterFilters\<close>.
\<close>

fun reset_fields :: "filter_key list \<Rightarrow> filter_dom \<Rightarrow> filter_dom \<times> js_error option" where
  "reset_fields [] d = (d, None)"
| "reset_fields (k # ks) d =
     (case d k of
        None \<Rightarrow> (d, Some (TypeError ''Cannot set properties of null (setting value)''))
      | Some _ \<Rightarrow> reset_fields ks (d(k := Some [])))"

definition resetFilters :: "an_dom \<Rightarrow> an_response \<Rightarrow> filter_dom \<times> (js_error + an_view)" where
  "resetFilters d r =
     (case reset_fields filter_keys (ad_filters d) of
        (fd, Some e) \<Rightarrow> (fd, Inl e)
      | (fd, None) \<Rightarrow> (fd, applyVoterFilters (d\<lparr>ad_filters := fd\<rparr>) r))"

text \<open>
  \<open>saveSegment\<close>. The answer to \<open>POST /api/segments\<close>: accepted, refused with
  the body's \<open>error\<close> field, or an exception with its message (network failure,
  an error body that is not JSON).
\<close>

datatype seg_response = SegOk | SegRefused jsval | SegThrown string

record seg_out =
  seg_alerts :: "string list"
  seg_request :: "(string \<times> (string \<times> string) list) option"
  seg_name_after :: string

definition segment_keys :: "filter_key list" where
  "segment_keys = [FAffiliation, FAge, FIssues, FOccupation]"

definition saveSegment :: "string option \<Rightarrow> filter_dom \<Rightarrow> seg_response \<Rightarrow> js_error + seg_out" where
  "saveSegment name_el fd r =
     (case name_el of
        None \<Rightarrow> Inl (TypeError ''Cannot read properties of null (reading value)'')
      | Some raw \<Rightarrow>
          let name = js_trim raw in
          if name = [] then Inr \<lparr>seg_alerts = [''Please enter a segment name''], seg_request = None,
                                 seg_name_after = raw\<rparr>
          else case read_filters segment_keys fd of
            Inl e \<Rightarrow> Inl e
          | Inr fs \<Rightarrow>
              let req = Some (name, nonempty_params fs) in
              case r of
                SegOk \<Rightarrow> Inr \<lparr>seg_alerts = [''Segment '' @ [CHR 0x22] @ name @ [CHR 0x22] @ '' saved successfully!''],
                              seg_request = req, seg_name_after = []\<rparr>
              | SegRefused err \<Rightarrow>
                  Inr \<lparr>seg_alerts = [''Error: '' @ js_to_string (js_or err (JStr ''Failed to save segment''))],
                       seg_request = req, seg_name_after = raw\<rparr>
              | SegThrown msg \<Rightarrow> Inr \<lparr>seg_alerts = [''Error: '' @ msg], seg_request = req, seg_name_after = raw\<rparr>)"

text \<open>\<open>exportVoters\<close>: the query with \<open>page=1&per_page=100000\<close>, then an alert or
  the download of \<open>jsonToCsv(voters)\<close>.\<close>

datatype export_effect = ExportAlert string | ExportDownload string

definition exportVoters :: "filter_dom \<Rightarrow> an_response \<Rightarrow> js_error + string \<times> export_effect" where
  "exportVoters fd r =
     (case read_filters filter_keys fd of
        Inl e \<Rightarrow> Inl e
      | Inr fs \<Rightarrow>
          let q = query_string (nonempty_params fs @ [(''page'', ''1''), (''per_page'', ''100000'')]);
              fail = ExportAlert ''Could not export voter data.''
          in Inr (q, case r of
                       AnFail \<Rightarrow> fail
                     | AnData None tot \<Rightarrow> fail
                     | AnData (Some vs) tot \<Rightarrow>
                         if vs = [] then ExportAlert ''No voters to export for this filter.''
                         else ExportDownload (jsonToCsv vs)))"

text \<open>
  What the filters mean: the value of each filter the user set, by its name (the
  server's reading of the query).
\<close>

definition filter_spec :: "filter_key list \<Rightarrow> filter_dom \<Rightarrow> string \<Rightarrow> string option" where
  "filter_spec ks d name =
     (case find (\<lambda>k. filter_name k = name) ks of
        None \<Rightarrow> None
      | Some k \<Rightarrow> (case d k of Some v \<Rightarrow> if v = [] then None else Some v | None \<Rightarrow> None))"

section \<open>Lemmas\<close>

lemma read_filters_ok:
  "\<forall>k\<in>set ks. d k \<noteq> None \<Longrightarrow> read_filters ks d = Inr (map (\<lambda>k. (filter_name k, the (d k))) ks)"
  by (induction ks) auto

lemma read_filters_dom: "read_filters ks d = Inr fs \<Longrightarrow> \<forall>k\<in>set ks. d k \<noteq> None"
  by (induction ks arbitrary: fs) (auto split: option.splits sum.splits)

lemma read_filters_Inr:
  "read_filters ks d = Inr fs \<longleftrightarrow>
     (\<forall>k\<in>set ks. d k \<noteq> None) \<and> fs = map (\<lambda>k. (filter_name k, the (d k))) ks"
  using read_filters_ok read_filters_dom by fastforce

lemma map_of_nonempty_params:
  "distinct (map filter_name ks) \<Longrightarrow> \<forall>k\<in>set ks. d k \<noteq> None \<Longrightarrow>
   map_of (nonempty_params (map (\<lambda>k. (filter_name k, the (d k))) ks)) = filter_spec ks d"
proof (induction ks)
  case Nil
  then show ?case by (auto simp: nonempty_params_def filter_spec_def)
next
  case (Cons k ks)
  then have IH: "map_of (nonempty_params (map (\<lambda>k. (filter_name k, the (d k))) ks)) = filter_spec ks d"
    by simp
  have "find (\<lambda>j. filter_name j = filter_name k) ks = None"
    using Cons.prems(1) by (auto simp: find_None_iff) (metis image_eqI)
  then have fresh: "filter_spec ks d (filter_name k) = None" by (simp add: filter_spec_def)
  show ?case
  proof
    fix name
    show "map_of (nonempty_params (map (\<lambda>k. (filter_name k, the (d k))) (k # ks))) name = filter_spec (k # ks) d name"
      using IH fresh Cons.prems(2)
      by (cases "name = filter_name k") (auto simp: nonempty_params_def filter_spec_def split: option.splits)
  qed
qed

lemma filter_names_distinct: "distinct (map filter_name filter_keys)" "distinct (map filter_name segment_keys)"
  by (simp_all add: filter_keys_def segment_keys_def)

lemma read_filters_query:
  "read_filters ks d = Inr fs \<Longrightarrow> distinct (map filter_name ks) \<Longrightarrow>
   map_of (parse_query (query_string (nonempty_params fs))) = filter_spec ks d"
  by (simp add: read_filters_Inr parse_query_string map_of_nonempty_params)

section \<open>Properties\<close>

text \<open>
  C35. The analytics request refines the filter form: whenever
  \<open>applyVoterFilters\<close> runs to its request, the query string it fetches with (and
  hands to \<open>fetchVisualizationData\<close>) reads back, name by name, as exactly the
  filters the user set: a name maps to its field's value when that value is
  non-empty and to nothing otherwise, whatever characters the values hold.
\<close>

theorem applyVoterFilters_query_refines:
  assumes "applyVoterFilters d r = Inr v"
  shows "an_viz v = an_query v \<and> map_of (parse_query (an_query v)) = filter_spec filter_keys (ad_filters d)"
proof -
  obtain fs where fs: "read_filters filter_keys (ad_filters d) = Inr fs"
    using assms by (cases "read_filters filter_keys (ad_filters d)") (auto simp: applyVoterFilters_def)
  then have "an_query v = query_string (nonempty_params fs) \<and> an_viz v = an_query v"
    using assms by (auto simp: applyVoterFilters_def Let_def split: if_splits prod.splits)
  then show ?thesis using read_filters_query [OF fs filter_names_distinct(1)] by simp
qed

theorem applyVoterFilters_query_refines_witness:
  "map_of (parse_query (an_query (projr (applyVoterFilters
      \<lparr>ad_filters = (\<lambda>k. if k = FWard then Some ''Ward 5 & 6'' else Some []), ad_tbody = True, ad_count = True\<rparr>
      AnFail)))) ''ward'' = Some ''Ward 5 & 6''"
proof -
  let ?d = "\<lparr>ad_filters = (\<lambda>k. if k = FWard then Some ''Ward 5 & 6'' else Some []), ad_tbody = True, ad_count = True\<rparr>"
  have "\<forall>k\<in>set filter_keys. ad_filters ?d k \<noteq> None" by (simp add: filter_keys_def)
  then obtain v where v: "applyVoterFilters ?d AnFail = Inr v"
    by (simp add: applyVoterFilters_def read_filters_ok Let_def)
  have "filter_spec filter_keys (ad_filters ?d) ''ward'' = Some ''Ward 5 & 6''"
    by (simp add: filter_spec_def filter_keys_def)
  then show ?thesis using applyVoterFilters_query_refines [OF v] v by simp
qed

text \<open>
  C36. A saved segment keeps only four of the seven filters: the body
  \<open>saveSegment\<close> posts carries the set filters among affiliation, age, issues and
  occupation, and never gender, ward or education, although the table the user
  sees (C35) is filtered by all seven.
\<close>

theorem saveSegment_drops_filters:
  assumes "saveSegment nm fd r = Inr out" and "seg_request out = Some (name, fs)"
  shows "map_of fs = filter_spec segment_keys fd
       \<and> map_of fs ''gender'' = None \<and> map_of fs ''ward'' = None \<and> map_of fs ''education'' = None"
proof -
  obtain raw where nm: "nm = Some raw" using assms by (cases nm) (auto simp: saveSegment_def)
  obtain gs where gs: "read_filters segment_keys fd = Inr gs" and fs: "fs = nonempty_params gs"
    using assms nm
    by (cases "read_filters segment_keys fd")
       (auto simp: saveSegment_def Let_def split: if_splits seg_response.splits)
  have spec: "map_of fs = filter_spec segment_keys fd"
    using gs filter_names_distinct(2) by (simp add: fs read_filters_Inr map_of_nonempty_params)
  moreover have "filter_spec segment_keys fd n = None" if "n \<in> {''gender'', ''ward'', ''education''}" for n
    using that by (auto simp: filter_spec_def segment_keys_def)
  ultimately show ?thesis by simp
qed

theorem saveSegment_drops_filters_witness:
  "map_of (snd (the (seg_request (projr (saveSegment (Some ''Young women'')
      (\<lambda>k. if k = FGender then Some ''Female'' else Some []) SegOk))))) ''gender'' = None"
proof -
  let ?fd = "\<lambda>k. if k = FGender then Some ''Female'' else Some []"
  have "read_filters segment_keys ?fd = Inr (map (\<lambda>k. (filter_name k, the (?fd k))) segment_keys)"
    by (rule read_filters_ok) (simp add: segment_keys_def)
  then obtain out where o: "saveSegment (Some ''Young women'') ?fd SegOk = Inr out"
    and r: "seg_request out = Some (''Young women'', nonempty_params (map (\<lambda>k. (filter_name k, the (?fd k))) segment_keys))"
    by (simp add: saveSegment_def Let_def js_trim_def js_space_def)
  from saveSegment_drops_filters [OF o r]
  have g: "map_of (nonempty_params (map (\<lambda>k. (filter_name k, the (?fd k))) segment_keys)) ''gender'' = None"
    by blast
  show ?thesis by (simp only: o r sum.sel option.sel snd_conv g)
qed

text \<open>
  C37. The export asks for the voters the table shows: on the same filter
  fields, the query of \<open>exportVoters\<close> reads back as the query of
  \<open>applyVoterFilters\<close> followed by \<open>page=1\<close> and \<open>per_page=100000\<close>.
\<close>

theorem exportVoters_query_matches_table:
  assumes "applyVoterFilters d r = Inr v" and "exportVoters (ad_filters d) r' = Inr (q, e)"
  shows "parse_query q = parse_query (an_query v) @ [(''page'', ''1''), (''per_page'', ''100000'')]"
proof -
  obtain fs where fs: "read_filters filter_keys (ad_filters d) = Inr fs"
    using assms(1) by (cases "read_filters filter_keys (ad_filters d)") (auto simp: applyVoterFilters_def)
  have "an_query v = query_string (nonempty_params fs)"
    using assms(1) fs by (auto simp: applyVoterFilters_def Let_def split: if_splits prod.splits)
  moreover have "q = query_string (nonempty_params fs @ [(''page'', ''1''), (''per_page'', ''100000'')])"
    using assms(2) fs by (simp add: exportVoters_def Let_def)
  ultimately show ?thesis by (simp add: parse_query_string)
qed

theorem exportVoters_query_matches_table_witness:
  "parse_query (fst (projr (exportVoters (\<lambda>k. Some ''x'') AnFail)))
   = parse_query (an_query (projr (applyVoterFilters
       \<lparr>ad_filters = (\<lambda>k. Some ''x''), ad_tbody = True, ad_count = True\<rparr> AnFail)))
     @ [(''page'', ''1''), (''per_page'', ''100000'')]"
proof -
  let ?d = "\<lparr>ad_filters = (\<lambda>k. Some ''x''), ad_tbody = True, ad_count = True\<rparr>"
  have ok: "read_filters filter_keys (\<lambda>k. Some ''x'') = Inr (map (\<lambda>k. (filter_name k, ''x'')) filter_keys)"
    using read_filters_ok [of filter_keys "\<lambda>k. Some ''x''"] by simp
  obtain v where v: "applyVoterFilters ?d AnFail = Inr v"
    using ok by (simp add: applyVoterFilters_def Let_def)
  obtain q e where qe: "exportVoters (ad_filters ?d) AnFail = Inr (q, e)"
    using ok by (simp add: exportVoters_def Let_def)
  show ?thesis using exportVoters_query_matches_table [OF v qe] v qe by simp
qed

end
