(* ===== verification/Admin.thy ===== *)
theory Admin
  imports Prelude
begin

text \<open>
  The admin dashboard, \<open>src/static/js/admin.js\<close>. Its handlers are demonstration
  stubs: they read a field, a \<open>prompt\<close> or a \<open>confirm\<close>, and answer with alerts;
  none of them sends a request. \<open>importVoterData\<close> writes an upload note into
  \<open>#importStatus\<close> and schedules, with \<open>setTimeout(..., 2000)\<close>, the success
  note and an alert. A handler's run is the list of its effects in order; the
  user's answers to \<open>prompt\<close> (\<open>None\<close> is Cancel, i.e. \<open>null\<close>) and \<open>confirm\<close>
  are its inputs; a missing element is \<open>None\<close>. The ids come from the page's inline
  \<open>onclick\<close> handlers (\<open>jsval\<close>, shown with \<open>String()\<close>).
\<close>

datatype admin_effect =
    AAlert string | APrompt string | AConfirm string | ASetValue string string

definition addWard :: "string option \<Rightarrow> js_error + admin_effect list" where
  "addWard ward =
     (case ward of
        None \<Rightarrow> Inl (TypeError ''Cannot read properties of null (reading value)'')
      | Some w \<Rightarrow>
          if w \<noteq> [] then Inr [AAlert (''Adding Ward: '' @ w), ASetValue ''wardName'' []]
          else Inr [AAlert ''Please enter a ward name.''])"

definition quoted :: "string \<Rightarrow> string" where
  "quoted s = [CHR 0x22] @ s @ [CHR 0x22]"

text \<open>\<open>editWard\<close> and \<open>editWorker\<close> differ only in the noun.\<close>

definition edit_entity :: "string \<Rightarrow> jsval \<Rightarrow> string \<Rightarrow> string option \<Rightarrow> admin_effect list" where
  "edit_entity noun eid name answer =
     [APrompt (''Editing '' @ noun @ '' ID '' @ js_to_string eid @ ''. Enter new name for '' @ quoted name @ '':'')]
     @ (case answer of
          Some n \<Rightarrow> if n \<noteq> [] \<and> n \<noteq> name
                    then [AAlert (''Updating '' @ noun @ '' ID '' @ js_to_string eid @ '' to '' @ n)] else []
        | None \<Rightarrow> [])"

definition editWard :: "jsval \<Rightarrow> string \<Rightarrow> string option \<Rightarrow> admin_effect list" where
  "editWard = edit_entity ''Ward''"

definition editWorker :: "jsval \<Rightarrow> string \<Rightarrow> string option \<Rightarrow> admin_effect list" where
  "editWorker = edit_entity ''Worker''"

definition delete_entity :: "string \<Rightarrow> jsval \<Rightarrow> bool \<Rightarrow> admin_effect list" where
  "delete_entity noun eid ok =
     [AConfirm (''Are you sure you want to delete '' @ noun @ '' ID '' @ js_to_string eid @ ''?'')]
     @ (if ok then [AAlert (''Deleting '' @ noun @ '' ID '' @ js_to_string eid)] else [])"

definition deleteWard :: "jsval \<Rightarrow> bool \<Rightarrow> admin_effect list" where
  "deleteWard = delete_entity ''Ward''"

definition deleteWorker :: "jsval \<Rightarrow> bool \<Rightarrow> admin_effect list" where
  "deleteWorker = delete_entity ''Worker''"

definition addWorker :: "string option \<Rightarrow> string option \<Rightarrow> js_error + admin_effect list" where
  "addWorker name_el user_el =
     (case (name_el, user_el) of
        (Some n, Some u) \<Rightarrow>
          if n \<noteq> [] \<and> u \<noteq> []
          then Inr [AAlert (''Adding Worker: '' @ n @ '' (Username: '' @ u @ '')''),
                    ASetValue ''workerName'' [], ASetValue ''workerUsername'' []]
          else Inr [AAlert ''Please enter worker name and username.'']
      | _ \<Rightarrow> Inl (TypeError ''Cannot read properties of null (reading value)''))"

definition assignWards :: "jsval \<Rightarrow> string option \<Rightarrow> admin_effect list" where
  "assignWards eid answer =
     [APrompt (''Assigning wards for Worker ID '' @ js_to_string eid
               @ ''. Enter ward IDs separated by commas (e.g., 1,2,5):'')]
     @ (case answer of
          Some w \<Rightarrow> if w \<noteq> [] then [AAlert (''Assigning wards ['' @ w @ ''] to Worker ID '' @ js_to_string eid)] else []
        | None \<Rightarrow> [])"

definition loadAnalytics :: "string option \<Rightarrow> js_error + admin_effect list" where
  "loadAnalytics sel =
     (case sel of
        None \<Rightarrow> Inl (TypeError ''Cannot read properties of null (reading value)'')
      | Some w \<Rightarrow> Inr [AAlert (''Loading analytics for Ward ID: '' @ (if w \<noteq> [] then w else ''All Wards''))])"

section \<open>The import and its timers\<close>

text \<open>
  \<open>importVoterData\<close>: the state is the text of \<open>#importStatus\<close>, the uploads whose
  timer has not fired yet (every timer has the same 2000 ms delay, so they fire in
  the order they were set) and the alerts shown. A click selects the file list of
  \<open>#voterFile\<close> (names; the first is used).
\<close>

record import_state =
  imp_status :: string
  imp_timers :: "string list"
  imp_alerts :: "string list"

record import_dom =
  id_file_input :: bool
  id_status :: bool

definition uploading_msg :: "string \<Rightarrow> string" where
  "uploading_msg f = ''Uploading '' @ f @ ''...''"

definition imported_msg :: "string \<Rightarrow> string" where
  "imported_msg f = f @ '' imported successfully! (This is a dummy message)''"

definition importVoterData :: "import_dom \<Rightarrow> string list \<Rightarrow> import_state \<Rightarrow> js_error + import_state" where
  "importVoterData d files s =
     (if \<not> id_file_input d then Inl (TypeError ''Cannot read properties of null (reading files)'')
      else if \<not> id_status d then Inl (TypeError ''Cannot set properties of null (setting textContent)'')
      else case files of
        f # _ \<Rightarrow> Inr (s\<lparr>imp_status := uploading_msg f, imp_timers := imp_timers s @ [f]\<rparr>)
      | [] \<Rightarrow> Inr (s\<lparr>imp_status := ''Please select a file to import.''\<rparr>))"

definition import_timer :: "import_state \<Rightarrow> import_state" where
  "import_timer s =
     (case imp_timers s of
        [] \<Rightarrow> s
      | f # fs \<Rightarrow> s\<lparr>imp_status := imported_msg f, imp_timers := fs,
                     imp_alerts := imp_alerts s @ [''File uploaded and ready for processing by backend.'']\<rparr>)"

datatype import_event = ImportClick "string list" | TimerFires

text \<open>An exception ends the click's listener and leaves the state as it was.\<close>

fun import_step :: "import_dom \<Rightarrow> import_state \<Rightarrow> import_event \<Rightarrow> import_state" where
  "import_step d s (ImportClick files) = (case importVoterData d files s of Inl e \<Rightarrow> s | Inr s' \<Rightarrow> s')"
| "import_step d s TimerFires = import_timer s"

definition import_run :: "import_dom \<Rightarrow> import_state \<Rightarrow> import_event list \<Rightarrow> import_state" where
  "import_run d s evs = foldl (import_step d) s evs"

definition import_alert :: string where
  "import_alert = ''File uploaded and ready for processing by backend.''"

section \<open>Lemmas\<close>

lemma import_run_append: "import_run d s (xs @ ys) = import_run d (import_run d s xs) ys"
  by (simp add: import_run_def)

lemma import_clicks:
  "id_file_input d \<Longrightarrow> id_status d \<Longrightarrow> fs \<noteq> [] \<Longrightarrow>
   import_run d s (map (\<lambda>f. ImportClick [f]) fs)
     = s\<lparr>imp_status := uploading_msg (last fs), imp_timers := imp_timers s @ fs\<rparr>"
proof (induction fs arbitrary: s)
  case Nil
  then show ?case by simp
next
  case (Cons f fs)
  show ?case
  proof (cases "fs = []")
    case True
    then show ?thesis using Cons.prems by (simp add: import_run_def importVoterData_def)
  next
    case False
    have "import_run d s (map (\<lambda>f. ImportClick [f]) (f # fs))
          = import_run d (s\<lparr>imp_status := uploading_msg f, imp_timers := imp_timers s @ [f]\<rparr>)
              (map (\<lambda>f. ImportClick [f]) fs)"
      using Cons.prems by (simp add: import_run_def importVoterData_def)
    then show ?thesis using Cons.IH [OF Cons.prems(1,2) False] False by simp
  qed
qed

lemma import_fires:
  "ts \<noteq> [] \<Longrightarrow> imp_timers s = ts \<Longrightarrow>
   import_run d s (replicate (length ts) TimerFires)
     = s\<lparr>imp_status := imported_msg (last ts), imp_timers := [],
         imp_alerts := imp_alerts s @ replicate (length ts) import_alert\<rparr>"
proof (induction ts arbitrary: s)
  case Nil
  then show ?case by simp
next
  case (Cons t ts)
  show ?case
  proof (cases "ts = []")
    case True
    then show ?thesis using Cons.prems by (simp add: import_run_def import_timer_def import_alert_def)
  next
    case False
    have "import_run d s (replicate (length (t # ts)) TimerFires)
          = import_run d (s\<lparr>imp_status := imported_msg t, imp_timers := ts,
                             imp_alerts := imp_alerts s @ [import_alert]\<rparr>) (replicate (length ts) TimerFires)"
      using Cons.prems by (simp add: import_run_def import_timer_def import_alert_def)
    then show ?thesis using Cons.IH [OF False] False by (simp add: replicate_append_same)
  qed
qed

section \<open>Properties\<close>

text \<open>
  C39. The import timers fire in order and all report: after the admin picks files
  \<open>f1 \<dots> fn\<close> one after the other and the \<open>n\<close> timers have fired, the status
  shows the success note of the last file, one alert per upload has been shown,
  and no timer is left.
\<close>

theorem import_timers_complete:
  assumes "id_file_input d" and "id_status d" and "imp_timers s = []" and "fs \<noteq> []"
  shows "import_run d s (map (\<lambda>f. ImportClick [f]) fs @ replicate (length fs) TimerFires)
       = s\<lparr>imp_status := imported_msg (last fs),
           imp_alerts := imp_alerts s @ replicate (length fs) import_alert\<rparr>"
proof -
  let ?s1 = "s\<lparr>imp_status := uploading_msg (last fs), imp_timers := fs\<rparr>"
  have "import_run d s (map (\<lambda>f. ImportClick [f]) fs) = ?s1"
    using import_clicks [OF assms(1,2,4), of s] assms(3) by simp
  moreover have "import_run d ?s1 (replicate (length fs) TimerFires)
      = ?s1\<lparr>imp_status := imported_msg (last fs), imp_timers := [],
             imp_alerts := imp_alerts ?s1 @ replicate (length fs) import_alert\<rparr>"
    using import_fires [OF assms(4)] by simp
  ultimately show ?thesis using assms(3) by (simp add: import_run_append)
qed

theorem import_timers_complete_witness:
  "import_run \<lparr>id_file_input = True, id_status = True\<rparr>
     \<lparr>imp_status = [], imp_timers = [], imp_alerts = []\<rparr>
     (map (\<lambda>f. ImportClick [f]) [''a.csv'', ''b.csv''] @ replicate (length [''a.csv'', ''b.csv'']) TimerFires)
   = \<lparr>imp_status = imported_msg ''b.csv'', imp_timers = [], imp_alerts = [import_alert, import_alert]\<rparr>"
  using import_timers_complete [of "\<lparr>id_file_input = True, id_status = True\<rparr>"
          "\<lparr>imp_status = [], imp_timers = [], imp_alerts = []\<rparr>" "[''a.csv'', ''b.csv'']"]
  by simp

end
