(* ===== verification/BoothDialog.thy ===== *)
theory BoothDialog
  imports Prelude
begin

text \<open>
  The booth strategy tab of the candidate dashboard, \<open>src/static/js/candidate.js\<close>:
  \<open>loadBoothStrategy\<close> renders one card per booth; \<open>openBoothModal(id)\<close> resets the
  booth form and either (no id) shows it empty in add mode, or (an id) sets the
  title and the hidden id field, fetches every booth, fills the form with the one
  whose \<open>id\<close> is \<open>===\<close> the argument and only then shows the dialog; the form's
  \<open>submit\<close> listener sends \<open>POST /api/booths\<close> when the hidden id is empty and
  \<open>PUT /api/booths/id\<close> otherwise; \<open>deleteBooth\<close> asks for confirmation;
  \<open>closeBoothModal\<close> and the \<open>window.onclick\<close> handler hide the dialog.

  Because \<open>openBoothModal\<close> is \<open>async\<close>, the fetch of an edit may come back after
  other events; the state keeps the edits still waiting for their fetch, and the
  arrival of a fetch is an event naming one of them. The submit's request and the
  server's answer are one step (the listener does nothing else meanwhile).
\<close>

text \<open>A booth as \<open>/api/booths\<close> returns it.\<close>

record booth =
  b_id :: jsval
  b_name :: jsval
  b_number :: jsval
  b_in_charge_name :: jsval
  b_in_charge_contact :: jsval
  b_total :: jsval
  b_supporters :: jsval
  b_neutral :: jsval
  b_opponents :: jsval

text \<open>The text of one booth card (the values are interpolated as they are).\<close>

record booth_card =
  bc_title :: string
  bc_in_charge :: string
  bc_stats :: "string list"
  bc_id :: string

definition booth_card :: "booth \<Rightarrow> booth_card" where
  "booth_card b =
     \<lparr>bc_title = js_to_string (b_name b) @ '' (#'' @ js_to_string (b_number b) @ '')'',
      bc_in_charge = js_to_string (js_or (b_in_charge_name b) (JStr ''Not Assigned'')),
      bc_stats = map js_to_string [b_total b, b_supporters b, b_neutral b, b_opponents b],
      bc_id = js_to_string (b_id b)\<rparr>"

datatype booth_grid = GridMessage string | GridCards "booth_card list"

text \<open>\<open>loadBoothStrategy\<close> after its fetch: \<open>None\<close> is a failed request.\<close>

definition loadBoothStrategy :: "bool \<Rightarrow> booth list option \<Rightarrow> js_error + booth_grid" where
  "loadBoothStrategy has_container resp =
     (if \<not> has_container then Inl (TypeError ''Cannot set properties of null (setting innerHTML)'')
      else case resp of
        None \<Rightarrow> Inr (GridMessage ''Error loading booth data.'')
      | Some [] \<Rightarrow> Inr (GridMessage (''No booths have been added yet. Click '' @ [CHR 0x22] @ ''+ Add New Booth''
                                     @ [CHR 0x22] @ '' to start.''))
      | Some bs \<Rightarrow> Inr (GridCards (map booth_card bs)))"

record booth_fields =
  f_name :: string
  f_number :: string
  f_in_charge_name :: string
  f_in_charge_contact :: string

definition empty_fields :: booth_fields where
  "empty_fields = \<lparr>f_name = [], f_number = [], f_in_charge_name = [], f_in_charge_contact = []\<rparr>"

record booth_request =
  rq_method :: string
  rq_url :: string
  rq_body :: booth_fields

record booth_ui =
  bm_shown :: bool
  bm_title :: string
  bm_id_field :: string
  bm_fields :: booth_fields
  bm_waiting :: "jsval list"
  bm_requests :: "booth_request list"
  bm_alerts :: "string list"

text \<open>\<open>openBoothModal(id)\<close> up to its \<open>await\<close>.\<close>

definition openBoothModal :: "jsval \<Rightarrow> booth_ui \<Rightarrow> booth_ui" where
  "openBoothModal bid u =
     (let u1 = u\<lparr>bm_fields := empty_fields\<rparr> in
      if js_truthy bid
      then u1\<lparr>bm_title := ''Edit Booth'', bm_id_field := js_to_string bid, bm_waiting := bm_waiting u @ [bid]\<rparr>
      else u1\<lparr>bm_title := ''Add New Booth'', bm_id_field := [], bm_shown := True\<rparr>)"

text \<open>
  The rest of \<open>openBoothModal(bid)\<close> when its fetch returns: \<open>None\<close> is a failed
  fetch or a body that is not JSON (the promise rejects, the dialog stays as it is).
\<close>

definition openBoothModal_resume :: "jsval \<Rightarrow> booth list option \<Rightarrow> booth_ui \<Rightarrow> booth_ui" where
  "openBoothModal_resume bid resp u =
     (case resp of
        None \<Rightarrow> u
      | Some bs \<Rightarrow>
          let u1 = (case find (\<lambda>b. b_id b = bid) bs of
                      None \<Rightarrow> u
                    | Some b \<Rightarrow> u\<lparr>bm_fields := \<lparr>f_name = js_to_string (b_name b),
                                                 f_number = js_to_string (b_number b),
                                                 f_in_charge_name = js_to_string (js_or (b_in_charge_name b) (JStr [])),
                                                 f_in_charge_contact = js_to_string (js_or (b_in_charge_contact b) (JStr []))\<rparr>\<rparr>)
          in u1\<lparr>bm_shown := True\<rparr>)"

text \<open>The server's answer to the save: accepted, refused with the body's \<open>error\<close>
  field, or an exception with its message.\<close>

datatype save_response = SaveOk | SaveRefused jsval | SaveThrown string

definition boothForm_submit :: "save_response \<Rightarrow> booth_ui \<Rightarrow> booth_ui" where
  "boothForm_submit r u =
     (let bid = bm_id_field u;
          req = (if bid \<noteq> [] then \<lparr>rq_method = ''PUT'', rq_url = ''/api/booths/'' @ bid, rq_body = bm_fields u\<rparr>
                 else \<lparr>rq_method = ''POST'', rq_url = ''/api/booths'', rq_body = bm_fields u\<rparr>);
          u1 = u\<lparr>bm_requests := bm_requests u @ [req]\<rparr>
      in case r of
           SaveOk \<Rightarrow> u1\<lparr>bm_shown := False\<rparr>
         | SaveRefused err \<Rightarrow> u1\<lparr>bm_alerts := bm_alerts u @ [''Error: '' @ js_to_string (js_or err (JStr ''Failed to save booth.''))]\<rparr>
         | SaveThrown msg \<Rightarrow> u1\<lparr>bm_alerts := bm_alerts u @ [''Error: '' @ msg]\<rparr>)"

text \<open>\<open>deleteBooth(id)\<close>: the user's answer to \<open>confirm\<close>, then the server's
  (\<open>True\<close>: deleted).\<close>

definition deleteBooth :: "jsval \<Rightarrow> bool \<Rightarrow> bool \<Rightarrow> booth_ui \<Rightarrow> booth_ui" where
  "deleteBooth bid confirmed ok u =
     (if \<not> confirmed then u
      else let u1 = u\<lparr>bm_requests := bm_requests u @ [\<lparr>rq_method = ''DELETE'', rq_url = ''/api/booths/'' @ js_to_string bid,
                                                       rq_body = empty_fields\<rparr>]\<rparr>
           in if ok then u1 else u1\<lparr>bm_alerts := bm_alerts u @ [''Error deleting booth.'']\<rparr>)"

datatype booth_field = FName | FNumber | FInChargeName | FInChargeContact

fun set_field :: "booth_field \<Rightarrow> string \<Rightarrow> booth_fields \<Rightarrow> booth_fields" where
  "set_field FName v f = f\<lparr>f_name := v\<rparr>"
| "set_field FNumber v f = f\<lparr>f_number := v\<rparr>"
| "set_field FInChargeName v f = f\<lparr>f_in_charge_name := v\<rparr>"
| "set_field FInChargeContact v f = f\<lparr>f_in_charge_contact := v\<rparr>"

text \<open>
  Events: a click on \<open>+ Add New Booth\<close> or a card's Edit button
  (\<open>openBoothModal(id)\<close>), the arrival of the \<open>i\<close>-th waiting edit's fetch,
  typing in a field, the form's submit, a card's Delete, a click on the dialog's
  backdrop or close button.
\<close>

datatype booth_event =
    BOpen jsval | BFetched nat "booth list option" | BType booth_field string
  | BSubmit save_response | BDelete jsval bool bool | BClose

fun booth_step :: "booth_ui \<Rightarrow> booth_event \<Rightarrow> booth_ui" where
  "booth_step u (BOpen bid) = openBoothModal bid u"
| "booth_step u (BFetched i resp) =
     (if i < length (bm_waiting u)
      then openBoothModal_resume (bm_waiting u ! i) resp
             (u\<lparr>bm_waiting := take i (bm_waiting u) @ drop (Suc i) (bm_waiting u)\<rparr>)
      else u)"
| "booth_step u (BType k v) = u\<lparr>bm_fields := set_field k v (bm_fields u)\<rparr>"
| "booth_step u (BSubmit r) = boothForm_submit r u"
| "booth_step u (BDelete bid c ok) = deleteBooth bid c ok u"
| "booth_step u BClose = u\<lparr>bm_shown := False\<rparr>"

definition booth_run :: "booth_ui \<Rightarrow> booth_event list \<Rightarrow> booth_ui" where
  "booth_run u evs = foldl booth_step u evs"

definition booth_init :: booth_ui where
  "booth_init = \<lparr>bm_shown = False, bm_title = [], bm_id_field = [], bm_fields = empty_fields,
                 bm_waiting = [], bm_requests = [], bm_alerts = []\<rparr>"

text \<open>\<open>generateSlips(id)\<close>: a demonstration alert.\<close>

definition generateSlips :: "jsval \<Rightarrow> string" where
  "generateSlips bid = ''(Demo) Generating printable voter slips for supporters in booth #'' @ js_to_string bid @ ''.''"

section \<open>Lemmas\<close>

lemma booth_run_append: "booth_run u (xs @ ys) = booth_run (booth_run u xs) ys"
  by (simp add: booth_run_def)

lemma submit_request:
  "last (bm_requests (boothForm_submit r u)) =
     (if bm_id_field u \<noteq> [] then \<lparr>rq_method = ''PUT'', rq_url = ''/api/booths/'' @ bm_id_field u, rq_body = bm_fields u\<rparr>
      else \<lparr>rq_method = ''POST'', rq_url = ''/api/booths'', rq_body = bm_fields u\<rparr>)"
  by (simp add: boothForm_submit_def Let_def split: save_response.splits)

section \<open>Properties\<close>

text \<open>
  C40. An edit overtaken by an add creates a duplicate: if the user clicks a
  booth's Edit and then, before the edit's fetch returns, \<open>+ Add New Booth\<close>,
  the fetch still fills the form with the edited booth, but the hidden id is the
  add's empty one, so saving sends \<open>POST /api/booths\<close> with the existing
  booth's name and number: a second copy of the booth instead of an update.
\<close>

theorem booth_edit_add_race:
  assumes "js_truthy (b_id b)" and "bm_waiting u = []"
  shows "last (bm_requests (booth_run u [BOpen (b_id b), BOpen JNull, BFetched 0 (Some [b]), BSubmit r]))
       = \<lparr>rq_method = ''POST'', rq_url = ''/api/booths'',
          rq_body = \<lparr>f_name = js_to_string (b_name b), f_number = js_to_string (b_number b),
                     f_in_charge_name = js_to_string (js_or (b_in_charge_name b) (JStr [])),
                     f_in_charge_contact = js_to_string (js_or (b_in_charge_contact b) (JStr []))\<rparr>\<rparr>"
proof -
  let ?u3 = "booth_run u [BOpen (b_id b), BOpen JNull, BFetched 0 (Some [b])]"
  have "bm_id_field ?u3 = []"
    using assms by (simp add: booth_run_def openBoothModal_def openBoothModal_resume_def Let_def)
  moreover have "bm_fields ?u3 = \<lparr>f_name = js_to_string (b_name b), f_number = js_to_string (b_number b),
                     f_in_charge_name = js_to_string (js_or (b_in_charge_name b) (JStr [])),
                     f_in_charge_contact = js_to_string (js_or (b_in_charge_contact b) (JStr []))\<rparr>"
    using assms by (simp add: booth_run_def openBoothModal_def openBoothModal_resume_def Let_def)
  ultimately show ?thesis
    using submit_request [of r ?u3] by (simp add: booth_run_append [of u "[_, _, _]" "[BSubmit r]", simplified])
      (simp add: booth_run_def)
qed

theorem booth_edit_add_race_witness:
  "rq_method (last (bm_requests (booth_run booth_init
      [BOpen (JNum 5), BOpen JNull,
       BFetched 0 (Some [\<lparr>b_id = JNum 5, b_name = JStr ''North School'', b_number = JStr ''12'',
                          b_in_charge_name = JNull, b_in_charge_contact = JNull, b_total = JNull,
                          b_supporters = JNull, b_neutral = JNull, b_opponents = JNull\<rparr>]),
       BSubmit SaveOk]))) = ''POST''"
  using booth_edit_add_race [of "\<lparr>b_id = JNum 5, b_name = JStr ''North School'', b_number = JStr ''12'',
                          b_in_charge_name = JNull, b_in_charge_contact = JNull, b_total = JNull,
                          b_supporters = JNull, b_neutral = JNull, b_opponents = JNull\<rparr>" booth_init SaveOk]
  by (simp add: booth_init_def)

end
