(* ===== verification/Chatbot.thy ===== *)
theory Chatbot
  imports Prelude
begin

text \<open>
  The chatbot of the candidate dashboard, \<open>src/static/js/candidate.js\<close>:
  \<open>addMessage\<close> appends a bubble to \<open>#chatWindow\<close>; \<open>sendToServer\<close> trims the
  input, ignores an empty one, shows it as the user's bubble, clears the input and
  posts \<open>{message, lang}\<close> to \<open>/chat\<close>; the reply (or a network note) is appended
  when the answer arrives. The send button, the Enter key and a speech result call
  \<open>sendToServer\<close>; the language buttons set \<open>currentLang\<close> from their
  \<open>data-lang\<close> and the input's placeholder. The bubbles whose text lies outside
  Latin-1 (the welcome line, the network note, the Marathi placeholder) are
  constructors. Requests in flight are answered in any order.
\<close>

datatype chat_from = FromUser | FromBot

datatype chat_text = Said string | NetworkIssue | WelcomeText

record chat_msg =
  cm_from :: chat_from
  cm_text :: chat_text

datatype placeholder = AskEnglish | AskMarathi

record chat_state =
  chat_window :: "chat_msg list"
  chat_input :: string
  currentLang :: jsval
  chat_placeholder :: placeholder
  chat_active_btn :: "nat option"
  chat_pending :: "(string \<times> jsval) list"

definition addMessage :: "chat_text \<Rightarrow> chat_from \<Rightarrow> chat_state \<Rightarrow> chat_state" where
  "addMessage t from s = s\<lparr>chat_window := chat_window s @ [\<lparr>cm_from = from, cm_text = t\<rparr>]\<rparr>"

text \<open>\<open>sendToServer()\<close> up to its \<open>await\<close>: the request is \<open>(message, lang)\<close>.\<close>

definition sendToServer :: "chat_state \<Rightarrow> chat_state" where
  "sendToServer s =
     (let msg = js_trim (chat_input s) in
      if msg = [] then s
      else (addMessage (Said msg) FromUser s)\<lparr>chat_input := [],
             chat_pending := chat_pending s @ [(msg, currentLang s)]\<rparr>)"

text \<open>
  The answer to the \<open>i\<close>-th request: \<open>None\<close> when the request fails or the body is
  not JSON, else the body's \<open>reply\<close> field (\<open>undefined\<close> when absent), shown
  with \<open>String()\<close>.
\<close>

definition chat_answer :: "nat \<Rightarrow> jsval option \<Rightarrow> chat_state \<Rightarrow> chat_state" where
  "chat_answer i resp s =
     (if i < length (chat_pending s)
      then let s1 = s\<lparr>chat_pending := take i (chat_pending s) @ drop (Suc i) (chat_pending s)\<rparr> in
           (case resp of
              None \<Rightarrow> addMessage NetworkIssue FromBot s1
            | Some reply \<Rightarrow> addMessage (Said (js_to_string reply)) FromBot s1)
      else s)"

text \<open>The \<open>b\<close>-th language button with its \<open>data-lang\<close> (\<open>undefined\<close> when
  absent): it becomes the only active one.\<close>

definition lang_click :: "nat \<Rightarrow> jsval \<Rightarrow> chat_state \<Rightarrow> chat_state" where
  "lang_click b l s =
     s\<lparr>currentLang := l, chat_active_btn := Some b,
       chat_placeholder := (if l = JStr ''mr'' then AskMarathi else AskEnglish)\<rparr>"

datatype chat_event =
    ChatType string | ChatSendClick | ChatKey string | ChatVoice string
  | ChatLang nat jsval | ChatAnswer nat "jsval option"

fun chat_step :: "chat_state \<Rightarrow> chat_event \<Rightarrow> chat_state" where
  "chat_step s (ChatType v) = s\<lparr>chat_input := v\<rparr>"
| "chat_step s ChatSendClick = sendToServer s"
| "chat_step s (ChatKey k) = (if k = ''Enter'' then sendToServer s else s)"
| "chat_step s (ChatVoice t) = sendToServer (s\<lparr>chat_input := t\<rparr>)"
| "chat_step s (ChatLang b l) = lang_click b l s"
| "chat_step s (ChatAnswer i r) = chat_answer i r s"

definition chat_run :: "chat_state \<Rightarrow> chat_event list \<Rightarrow> chat_state" where
  "chat_run s evs = foldl chat_step s evs"

text \<open>The page as loaded: the welcome bubble, English, nothing in flight; the
  button marked active by the page's markup is a parameter.\<close>

definition chat_init :: "nat option \<Rightarrow> chat_state" where
  "chat_init b =
     \<lparr>chat_window = [\<lparr>cm_from = FromBot, cm_text = WelcomeText\<rparr>], chat_input = [],
      currentLang = JStr ''en'', chat_placeholder = AskEnglish,
      chat_active_btn = b, chat_pending = []\<rparr>"

section \<open>Lemmas\<close>

text \<open>A request carries the trimmed input and the language of the moment it is sent.\<close>

lemma sendToServer_request:
  "js_trim (chat_input s) \<noteq> [] \<Longrightarrow>
   chat_pending (sendToServer s) = chat_pending s @ [(js_trim (chat_input s), currentLang s)]
   \<and> chat_input (sendToServer s) = []
   \<and> chat_window (sendToServer s) = chat_window s @ [\<lparr>cm_from = FromUser, cm_text = Said (js_trim (chat_input s))\<rparr>]"
  by (simp add: sendToServer_def addMessage_def Let_def)

lemma sendToServer_blank: "js_trim (chat_input s) = [] \<Longrightarrow> sendToServer s = s"
  by (simp add: sendToServer_def Let_def)

text \<open>Every step keeps the bubbles already shown: the window only grows.\<close>

lemma chat_step_prefix: "prefix (chat_window s) (chat_window (chat_step s ev))"
  by (cases ev) (auto simp: sendToServer_def chat_answer_def addMessage_def lang_click_def Let_def
                      split: option.splits)

text \<open>Answering the oldest request again and again drains the queue: each
  request gets exactly one bot bubble.\<close>

lemma chat_answers_drain:
  "chat_run s (replicate (length (chat_pending s)) (ChatAnswer 0 r))
     = s\<lparr>chat_window := chat_window s @ replicate (length (chat_pending s))
                        \<lparr>cm_from = FromBot, cm_text = (case r of None \<Rightarrow> NetworkIssue
                                                         | Some v \<Rightarrow> Said (js_to_string v))\<rparr>,
         chat_pending := []\<rparr>"
proof (induction "chat_pending s" arbitrary: s)
  case Nil
  then show ?case by (simp add: chat_run_def)
next
  case (Cons p ps)
  let ?m = "\<lparr>cm_from = FromBot, cm_text = (case r of None \<Rightarrow> NetworkIssue | Some v \<Rightarrow> Said (js_to_string v))\<rparr>"
  have step: "chat_step s (ChatAnswer 0 r) = s\<lparr>chat_window := chat_window s @ [?m], chat_pending := ps\<rparr>"
    using Cons.hyps(2) [symmetric]
    by (cases r) (simp_all add: chat_answer_def addMessage_def)
  show ?case
    using Cons.hyps(1) [of "s\<lparr>chat_window := chat_window s @ [?m], chat_pending := ps\<rparr>"]
      Cons.hyps(2) [symmetric] step
    by (simp add: chat_run_def replicate_append_same)
qed

end
