(* ===== verification/CandidatePage.thy ===== *)
theory CandidatePage
  imports PageScript
begin

text \<open>
  The top level of \<open>src/static/js/candidate.js\<close>, run by the loader of
  \<open>PageScript\<close>, and its \<open>DOMContentLoaded\<close> listener. The top level installs the
  start-up listener, the campaign hub's task and message form listeners and the
  booth form's \<open>submit\<close> listener without checking that
  \<open>#boothForm\<close> exists, \<open>window.onclick\<close>, the chatbot's send and Enter-key
  listeners (all unchecked), the voice button's listener when the browser has
  \<open>webkitSpeechRecognition\<close> (otherwise it hides the button, also unchecked), the
  language buttons' listeners, and writes the welcome bubble into
  \<open>#chatWindow\<close>. The start-up listener shows the command centre, starts the
  activity stream and the news feed, then calls \<open>loadElectionNews\<close>, which no
  script defines, so \<open>loadBoothsForFilter\<close> (defined nowhere either) is never
  reached.
\<close>

definition candidate_script :: "bool \<Rightarrow> top_stmt list" where
  "candidate_script webkit =
     [Global ''DOMContentLoaded'',
      Unchecked ''createTaskForm'' ''createTaskForm submit'',
      Unchecked ''sendMessageForm'' ''sendMessageForm submit'',
      Unchecked ''boothForm'' ''submit'',
      Global ''window.onclick'',
      Unchecked ''chatSendBtn'' ''click'',
      Unchecked ''chatInput'' ''keypress'']
     @ (if webkit then [Unchecked ''voiceBtn'' ''voice''] else [Touch ''voiceBtn''])
     @ [Global ''lang-btn click'',
        Touch ''chatWindow'']"

text \<open>The start-up listener: each call a statement, the first missing function ends it.\<close>

definition candidate_dom_loaded :: "top_stmt list" where
  "candidate_dom_loaded =
     [Global ''showSection(commandCenter)'', Global ''startLiveActivityFeed'',
      Global ''startNewsFeed'', Reads ''loadElectionNews'', Global ''loadBoothsForFilter'']"

section \<open>Lemmas\<close>

text \<open>
  The start-up listener always stops at \<open>loadElectionNews\<close>: the booth filter is
  never loaded.
\<close>

lemma candidate_start_reference_error:
  "load_script has candidate_dom_loaded =
     (Some (ReferenceError ''loadElectionNews is not defined''),
      [''showSection(commandCenter)'', ''startLiveActivityFeed'', ''startNewsFeed''])"
  by (simp add: load_script_def candidate_dom_loaded_def)

text \<open>
  On a candidate page without \<open>#boothForm\<close> the script stops at the booth
  listener: the chatbot gets no listener and no welcome bubble.
\<close>

lemma candidate_no_booth_form:
  "has ''createTaskForm'' \<Longrightarrow> has ''sendMessageForm'' \<Longrightarrow> \<not> has ''boothForm'' \<Longrightarrow>
   load_script has (candidate_script w) =
     (Some (TypeError ''Cannot read properties of null (reading addEventListener) at #boothForm''),
      [''DOMContentLoaded'', ''createTaskForm submit'', ''sendMessageForm submit''])"
  by (simp add: load_script_def candidate_script_def)

end
