(* ===== verification/CampaignHub.thy ===== *)
theory CampaignHub
  imports Prelude
begin

text \<open>
  The campaign hub tab of the candidate dashboard, \<open>src/static/js/candidate.js\<close>:
  \<open>loadCampaignHub\<close> selects the tasks tab, renders the tasks from
  \<open>/api/tasks\<close> and reloads the segment list of the message form
  (\<open>loadSegments\<close>); \<open>showHubTab\<close> switches tabs; the task form posts a new
  task assigned to the chosen worker; the message form posts a message whose
  audience is the text of the chosen segment option. A select element is its
  options (value and text) and the index of the selected one; its
  \<open>selectedOptions[0]\<close> is \<open>undefined\<close> when it has no option.
\<close>

record hub_task =
  t_title :: jsval
  t_status :: jsval
  t_due :: jsval

record task_row =
  tr_title :: string
  tr_class :: string
  tr_status :: string
  tr_due :: string

text \<open>\<open>str.replace(' ', '')\<close>: only the first space goes.\<close>

fun replace_first_space :: "string \<Rightarrow> string" where
  "replace_first_space [] = []"
| "replace_first_space (c # cs) = (if c = CHR '' '' then cs else c # replace_first_space cs)"

text \<open>A row of the tasks table; \<open>task.status.toLowerCase()\<close> raises unless the
  status is a string.\<close>

definition task_row :: "hub_task \<Rightarrow> js_error + task_row" where
  "task_row t =
     (case t_status t of
        JStr st \<Rightarrow> Inr \<lparr>tr_title = js_to_string (t_title t), tr_class = replace_first_space (js_lower st),
                         tr_status = st, tr_due = js_to_string (js_or (t_due t) (JStr []))\<rparr>
      | JUndefined \<Rightarrow> Inl (TypeError ''Cannot read properties of undefined (reading toLowerCase)'')
      | JNull \<Rightarrow> Inl (TypeError ''Cannot read properties of null (reading toLowerCase)'')
      | _ \<Rightarrow> Inl (TypeError ''task.status.toLowerCase is not a function''))"

datatype tasks_body = TasksMessage string | TasksRows "task_row list"

text \<open>The tasks table after \<open>loadCampaignHub\<close>'s fetch (\<open>None\<close>: failed).\<close>

definition loadCampaignHub_tasks :: "hub_task list option \<Rightarrow> tasks_body" where
  "loadCampaignHub_tasks resp =
     (case resp of
        None \<Rightarrow> TasksMessage ''Error loading tasks.''
      | Some [] \<Rightarrow> TasksMessage ''No tasks found.''
      | Some ts \<Rightarrow> (case map_items task_row ts of Inl e \<Rightarrow> TasksMessage ''Error loading tasks.'' | Inr rs \<Rightarrow> TasksRows rs))"

record select_el =
  sel_options :: "(string \<times> string) list"
  sel_index :: nat

text \<open>\<open>selectedOptions[0].text\<close>\<close>

definition selected_text :: "select_el \<Rightarrow> js_error + string" where
  "selected_text s =
     (if sel_index s < length (sel_options s) then Inr (snd (sel_options s ! sel_index s))
      else Inl (TypeError ''Cannot read properties of undefined (reading text)''))"

record segment =
  sg_id :: jsval
  sg_name :: jsval

text \<open>Assigning \<open>textContent\<close>: \<open>null\<close> and \<open>undefined\<close> give the empty text.\<close>

definition text_content :: "jsval \<Rightarrow> string" where
  "text_content v = (if js_nullish v then [] else js_to_string v)"

text \<open>\<open>loadSegments\<close>: the default option, then one per segment; a failed
  request leaves the select as it was.\<close>

definition loadSegments :: "segment list option \<Rightarrow> select_el \<Rightarrow> select_el" where
  "loadSegments resp s =
     (case resp of
        None \<Rightarrow> s
      | Some sgs \<Rightarrow> \<lparr>sel_options = ([], ''Select Segment...'')
                                    # map (\<lambda>g. (js_to_string (sg_id g), text_content (sg_name g))) sgs,
                     sel_index = 0\<rparr>)"

text \<open>\<open>showHubTab(tabId, link)\<close>: every tab and link loses \<open>active\<close>, then the
  tab with the id and the link gain it. The result is the exception raised, if any
  (no element with the id, or no link), and the active tabs and links.\<close>

definition showHubTab ::
  "string list \<Rightarrow> string \<Rightarrow> string option \<Rightarrow> js_error option \<times> string list \<times> string list" where
  "showHubTab tabs tabId link =
     (if tabId \<notin> set tabs then (Some (TypeError ''Cannot read properties of null (reading classList)''), [], [])
      else case link of
        None \<Rightarrow> (Some (TypeError ''Cannot read properties of null (reading classList)''), [tabId], [])
      | Some l \<Rightarrow> (None, [tabId], [l]))"

text \<open>The two forms of the hub; \<open>form.reset()\<close> empties the text fields and
  selects the first option again.\<close>

record hub_forms =
  task_title :: string
  task_assignee :: select_el
  task_due :: string
  comm_title :: string
  comm_body :: string
  comm_segment :: select_el

datatype hub_effect = HubPost string "(string \<times> string) list" | HubAlert string | HubReload

datatype post_outcome = PostOk | PostFailed

text \<open>The task form's \<open>submit\<close> listener with the answer of its \<open>POST\<close>: the
  effects in order (the request, the alert, the reload of the hub on success)
  and the forms after it; reading the assignee of an empty select raises before
  any request.\<close>

definition createTask_submit ::
  "post_outcome \<Rightarrow> hub_forms \<Rightarrow> js_error + hub_effect list \<times> hub_forms" where
  "createTask_submit r f =
     (case selected_text (task_assignee f) of
        Inl e \<Rightarrow> Inl e
      | Inr who \<Rightarrow>
          let post = HubPost ''/api/tasks''
                       [(''title'', task_title f), (''description'', ''Assigned to: '' @ who),
                        (''due_date'', task_due f), (''status'', ''Pending'')] in
          Inr (case r of
                 PostOk \<Rightarrow> ([post, HubAlert ''Task assigned successfully!'', HubReload],
                            f\<lparr>task_title := [], task_assignee := (task_assignee f)\<lparr>sel_index := 0\<rparr>,
                              task_due := []\<rparr>)
               | PostFailed \<Rightarrow> ([post, HubAlert ''Error creating task''], f)))"

text \<open>The message form's \<open>submit\<close> listener: the audience is the selected
  option's text.\<close>

definition sendMessage_submit ::
  "post_outcome \<Rightarrow> hub_forms \<Rightarrow> js_error + hub_effect list \<times> hub_forms" where
  "sendMessage_submit r f =
     (case selected_text (comm_segment f) of
        Inl e \<Rightarrow> Inl e
      | Inr audience \<Rightarrow>
          let post = HubPost ''/api/messages''
                       [(''title'', comm_title f), (''body'', comm_body f), (''audience'', audience)] in
          Inr (case r of
                 PostOk \<Rightarrow> ([post, HubAlert ''Message sent successfully!''],
                            f\<lparr>comm_title := [], comm_body := [],
                              comm_segment := (comm_segment f)\<lparr>sel_index := 0\<rparr>\<rparr>)
               | PostFailed \<Rightarrow> ([post, HubAlert ''Error sending message''], f)))"

section \<open>Lemmas\<close>

text \<open>
  A message sent without choosing a segment goes to the audience named by the
  placeholder: after \<open>loadSegments\<close>, and after every successful send (which
  resets the select), the form posts \<open>audience: "Select Segment..."\<close> instead
  of refusing.
\<close>

lemma sendMessage_default_audience:
  "comm_segment f = loadSegments (Some sgs) s \<Longrightarrow>
   \<exists>f'. sendMessage_submit r f
     = Inr (HubPost ''/api/messages''
              [(''title'', comm_title f), (''body'', comm_body f), (''audience'', ''Select Segment...'')]
            # (case r of PostOk \<Rightarrow> [HubAlert ''Message sent successfully!'']
                        | PostFailed \<Rightarrow> [HubAlert ''Error sending message'']), f')"
  by (cases r) (simp_all add: sendMessage_submit_def loadSegments_def selected_text_def)

lemma sendMessage_reset_default:
  "sendMessage_submit PostOk f = Inr (effs, f') \<Longrightarrow> sel_options (comm_segment f) = ([], ''Select Segment...'') # opts \<Longrightarrow>
   selected_text (comm_segment f') = Inr ''Select Segment...''"
  by (auto simp: sendMessage_submit_def selected_text_def Let_def split: sum.splits if_splits)

text \<open>The audience is the segment's name, never its id: two segments with the same
  name are indistinguishable to the server.\<close>

lemma sendMessage_audience_is_name:
  "i < length sgs \<Longrightarrow> comm_segment f = (loadSegments (Some sgs) s)\<lparr>sel_index := Suc i\<rparr> \<Longrightarrow>
   \<exists>effs f'. sendMessage_submit r f = Inr (HubPost ''/api/messages''
              [(''title'', comm_title f), (''body'', comm_body f), (''audience'', text_content (sg_name (sgs ! i)))]
            # effs, f')"
  by (cases r) (simp_all add: sendMessage_submit_def loadSegments_def selected_text_def)

text \<open>One task whose status is not a string replaces the whole table, the
  valid rows included, with the error line.\<close>

lemma task_row_isl: "isl (task_row t) \<longleftrightarrow> (\<forall>st. t_status t \<noteq> JStr st)"
  by (cases "t_status t") (simp_all add: task_row_def)

lemma loadCampaignHub_bad_status:
  "t \<in> set ts \<Longrightarrow> \<forall>st. t_status t \<noteq> JStr st \<Longrightarrow>
   loadCampaignHub_tasks (Some ts) = TasksMessage ''Error loading tasks.''"
proof -
  assume "t \<in> set ts" and "\<forall>st. t_status t \<noteq> JStr st"
  then have "isl (map_items task_row ts)" and "ts \<noteq> []" by (auto simp: task_row_isl map_items_isl)
  then show ?thesis
    by (cases ts) (auto simp: loadCampaignHub_tasks_def split: sum.splits)
qed

end
