(* ===== verification/JsNumber.thy ===== *)
theory JsNumber
  imports Complex_Main Prelude
begin

text \<open>
  JavaScript numbers where the command centre computes with them: an IEEE-754
  binary64 value is \<open>Fin\<close> of its exact rational value or one of the three
  non-finite values (the sign of zero is not kept; the scripts only print numbers,
  and \<open>-0\<close> prints as \<open>0\<close>). \<open>dbl_round\<close> is round-to-nearest, ties-to-even,
  with the subnormal range (exponent below -1022) and overflow to the infinities;
  division and multiplication are the exact operation followed by \<open>dbl_round\<close>,
  as IEEE-754 prescribes. \<open>Math.round\<close> and \<open>Number.prototype.toFixed\<close> follow
  ECMA-262 on the exact value of their argument.
\<close>

datatype f64 = Fin rat | PosInf | NegInf | NaN

text \<open>The number of binary digits of a natural number.\<close>

function nbits :: "nat \<Rightarrow> nat" where
  "nbits n = (if n = 0 then 0 else Suc (nbits (n div 2)))"
  by auto
termination by (relation "measure id") auto

declare nbits.simps [simp del]

text \<open>\<open>\<lfloor>log\<^sub>2 x\<rfloor>\<close> of a positive rational, from the digits of its numerator and denominator.\<close>

definition rat_log2 :: "rat \<Rightarrow> int" where
  "rat_log2 x =
     (let (p, q) = quotient_of x; k = int (nbits (nat p)) - int (nbits (nat q))
      in if 2 powi k \<le> x then k else k - 1)"

definition round_half_even :: "rat \<Rightarrow> int" where
  "round_half_even m =
     (let f = \<lfloor>m\<rfloor>; r = m - of_int f in
      if r < 1/2 then f else if 1/2 < r then f + 1 else if even f then f else f + 1)"

definition dbl_round :: "rat \<Rightarrow> f64" where
  "dbl_round x =
     (if x = 0 then Fin 0
      else let a = \<bar>x\<bar>; e = max (rat_log2 a) (-1022) - 52;
               r = of_int (round_half_even (a / 2 powi e)) * 2 powi e
           in if 2 ^ 1024 \<le> r then (if 0 < x then PosInf else NegInf)
              else Fin (if 0 < x then r else - r))"

text \<open>\<open>x / y\<close> on two finite numbers.\<close>

definition js_div :: "rat \<Rightarrow> rat \<Rightarrow> f64" where
  "js_div x y =
     (if y \<noteq> 0 then dbl_round (x / y)
      else if 0 < x then PosInf else if x < 0 then NegInf else NaN)"

text \<open>\<open>v * k\<close> for a finite constant \<open>k\<close>.\<close>

fun js_mul :: "f64 \<Rightarrow> rat \<Rightarrow> f64" where
  "js_mul (Fin x) k = dbl_round (x * k)"
| "js_mul PosInf k = (if 0 < k then PosInf else if k < 0 then NegInf else NaN)"
| "js_mul NegInf k = (if 0 < k then NegInf else if k < 0 then PosInf else NaN)"
| "js_mul NaN k = NaN"

fun f64_truthy :: "f64 \<Rightarrow> bool" where
  "f64_truthy (Fin x) = (x \<noteq> 0)"
| "f64_truthy NaN = False"
| "f64_truthy _ = True"

text \<open>\<open>Math.round\<close>: the integer closest to the argument, the larger one on a tie.\<close>

fun js_math_round :: "f64 \<Rightarrow> f64" where
  "js_math_round (Fin x) = Fin (of_int \<lfloor>x + 1/2\<rfloor>)"
| "js_math_round v = v"

text \<open>\<open>String(v)\<close> of a number that is an integer below \<open>10\<^sup>21\<close> or not finite.\<close>

fun f64_int_str :: "f64 \<Rightarrow> string" where
  "f64_int_str (Fin x) = int_str \<lfloor>x\<rfloor>"
| "f64_int_str PosInf = ''Infinity''"
| "f64_int_str NegInf = ''-Infinity''"
| "f64_int_str NaN = ''NaN''"

text \<open>
  \<open>x.toFixed(d)\<close> of a finite \<open>x\<close> below \<open>10\<^sup>21\<close> (larger values switch to
  \<open>String(x)\<close>, which the percentages printed here never reach): the integer
  \<open>n\<close> nearest to \<open>\<bar>x\<bar>\<cdot>10\<^sup>d\<close>, the larger on a tie, written with at least
  \<open>d + 1\<close> digits and a point before the last \<open>d\<close>.
\<close>

definition fixed_digits :: "nat \<Rightarrow> rat \<Rightarrow> nat" where
  "fixed_digits d x = nat \<lfloor>\<bar>x\<bar> * 10 ^ d + 1/2\<rfloor>"

definition to_fixed :: "nat \<Rightarrow> rat \<Rightarrow> string" where
  "to_fixed d x =
     (let m = nat_str (fixed_digits d x);
          m' = replicate (d + 1 - length m) (CHR ''0'') @ m;
          k = length m'
      in (if x < 0 then ''-'' else []) @
         (if d = 0 then m' else take (k - d) m' @ ''.'' @ drop (k - d) m'))"

text \<open>
  \<open>parseFloat(s)\<close>: after leading white space, the longest prefix that is a
  decimal literal (sign, digits, an optional fraction, an optional exponent) or
  \<open>Infinity\<close>, rounded to the nearest binary64 value; no such prefix gives NaN.
\<close>

definition sign_prefix :: "string \<Rightarrow> bool \<times> string" where
  "sign_prefix t =
     (case t of
        c # r \<Rightarrow> if c = CHR ''-'' then (True, r) else if c = CHR ''+'' then (False, r) else (False, t)
      | [] \<Rightarrow> (False, []))"

definition exponent_part :: "string \<Rightarrow> int" where
  "exponent_part r =
     (case r of
        c # r' \<Rightarrow>
          if c = CHR ''e'' \<or> c = CHR ''E''
          then (let (neg, u) = sign_prefix r'; ds = takeWhile js_digit u in
                if ds = [] then 0 else if neg then - int (digits_val ds) else int (digits_val ds))
          else 0
      | [] \<Rightarrow> 0)"

definition js_parseFloat :: "string \<Rightarrow> f64" where
  "js_parseFloat s =
     (let (neg, u) = sign_prefix (dropWhile js_space s) in
      if take 8 u = ''Infinity'' then (if neg then NegInf else PosInf)
      else
        let d1 = takeWhile js_digit u; r1 = dropWhile js_digit u;
            (d2, r2) = (case r1 of
                          c # r \<Rightarrow> if c = CHR ''.'' then (takeWhile js_digit r, dropWhile js_digit r) else ([], r1)
                        | [] \<Rightarrow> ([], []));
            x = (of_nat (digits_val d1) + of_nat (digits_val d2) / 10 ^ length d2) * 10 powi exponent_part r2
        in if d1 = [] \<and> d2 = [] then NaN else dbl_round (if neg then - x else x))"

section \<open>Lemmas\<close>

lemma nbits_bounds: "0 < n \<Longrightarrow> 2 ^ (nbits n - 1) \<le> n \<and> n < 2 ^ nbits n"
proof (induction n rule: nbits.induct)
  case (1 n)
  show ?case
  proof (cases "n div 2 = 0")
    case True
    then have "n = 1" using "1.prems" by linarith
    then show ?thesis by (simp add: nbits.simps)
  next
    case False
    then have ih: "2 ^ (nbits (n div 2) - 1) \<le> n div 2 \<and> n div 2 < 2 ^ nbits (n div 2)"
      using "1.IH" "1.prems" by simp
    have "nbits n = Suc (nbits (n div 2))" using "1.prems" by (simp add: nbits.simps)
    moreover have "0 < nbits (n div 2)" using False by (subst nbits.simps) simp
    ultimately show ?thesis using ih by (cases "nbits (n div 2)") auto
  qed
qed

lemma powi_two_diff: "(2::rat) powi (int m - int n) = 2 ^ m / 2 ^ n"
  by (simp add: power_int_diff)

lemma nbits_int_bounds:
  assumes "0 < p"
  shows "(2::rat) ^ (nbits (nat p) - 1) \<le> of_int p \<and> of_int p < (2::rat) ^ nbits (nat p)"
    and "0 < nbits (nat p)"
proof -
  have n: "2 ^ (nbits (nat p) - 1) \<le> nat p \<and> nat p < 2 ^ nbits (nat p)"
    using nbits_bounds [of "nat p"] assms by simp
  have "(2::rat) ^ (nbits (nat p) - 1) = of_nat (2 ^ (nbits (nat p) - 1))" by simp
  also have "\<dots> \<le> of_nat (nat p)" using n by (simp only: of_nat_le_iff)
  finally have 1: "(2::rat) ^ (nbits (nat p) - 1) \<le> of_int p" using assms by simp
  have "(of_nat (nat p) :: rat) < of_nat (2 ^ nbits (nat p))" using n by (simp only: of_nat_less_iff)
  then have 2: "of_int p < (2::rat) ^ nbits (nat p)" using assms by simp
  from 1 2 show "(2::rat) ^ (nbits (nat p) - 1) \<le> of_int p \<and> of_int p < (2::rat) ^ nbits (nat p)" ..
  show "0 < nbits (nat p)" using assms by (subst nbits.simps) simp
qed

lemma rat_log2_bounds:
  assumes "0 < x"
  shows "2 powi rat_log2 x \<le> x \<and> x < 2 powi (rat_log2 x + 1)"
proof -
  obtain p q where pq: "quotient_of x = (p, q)" by (cases "quotient_of x")
  have q: "0 < q" using quotient_of_denom_pos [OF pq] .
  have x: "x = of_int p / of_int q" using quotient_of_div [OF pq] .
  have p: "0 < p" using assms q unfolding x by (simp add: zero_less_divide_iff)
  define a b where "a = nbits (nat p)" and "b = nbits (nat q)"
  have pa: "(2::rat) ^ (a - 1) \<le> of_int p" "of_int p < (2::rat) ^ a" "0 < a"
    using nbits_int_bounds [OF p] unfolding a_def by auto
  have qb: "(2::rat) ^ (b - 1) \<le> of_int q" "of_int q < (2::rat) ^ b" "0 < b"
    using nbits_int_bounds [OF q] unfolding b_def by auto
  define k where "k = int a - int b"
  have up: "x < 2 powi (k + 1)"
  proof -
    have "x \<le> of_int p / 2 ^ (b - 1)"
      unfolding x using qb(1) p by (simp add: frac_le)
    also have "\<dots> < 2 ^ a / 2 ^ (b - 1)"
      using pa(2) by (simp add: divide_strict_right_mono)
    also have "\<dots> = 2 powi (k + 1)"
    proof -
      have "k + 1 = int a - int (b - 1)" using qb(3) by (simp add: k_def)
      then show ?thesis by (simp only: powi_two_diff)
    qed
    finally show ?thesis .
  qed
  have low: "2 powi (k - 1) < x"
  proof -
    have "k - 1 = int (a - 1) - int b" using pa(3) by (simp add: k_def)
    then have "(2::rat) powi (k - 1) = 2 ^ (a - 1) / 2 ^ b" by (simp only: powi_two_diff)
    also have "\<dots> \<le> of_int p / 2 ^ b"
      using pa(1) by (simp add: divide_right_mono)
    also have "\<dots> < x"
      unfolding x using qb(2) p q by (simp add: divide_strict_left_mono)
    finally show ?thesis .
  qed
  have r: "rat_log2 x = (if 2 powi k \<le> x then k else k - 1)"
    by (simp add: rat_log2_def pq a_def b_def k_def)
  show ?thesis
    using up low r by (auto simp: not_le less_imp_le)
qed
lemma round_half_even_int [simp]: "round_half_even (of_int m) = m"
  by (simp add: round_half_even_def)

lemma dbl_round_int:
  assumes "n \<noteq> 0" and "\<bar>n\<bar> \<le> 2 ^ 53"
  shows "dbl_round (of_int n) = Fin (of_int n)"
proof -
  define a where "a = \<bar>of_int n :: rat\<bar>"
  have a1: "1 \<le> a" using assms(1) by (simp add: a_def)
  have a2: "a \<le> 2 ^ 53" using assms(2) unfolding a_def
    by (metis of_int_abs of_int_le_iff of_int_numeral of_int_power)
  define l where "l = rat_log2 a"
  have lb: "2 powi l \<le> a" "a < 2 powi (l + 1)" using rat_log2_bounds [of a] a1 by (auto simp: l_def)
  have l0: "0 \<le> l"
  proof (rule ccontr)
    assume "\<not> 0 \<le> l"
    then have "(2::rat) powi (l + 1) \<le> 2 powi 0" by (intro power_int_increasing) auto
    then show False using lb(2) a1 by simp
  qed
  have l53: "l \<le> 53"
  proof (rule ccontr)
    assume "\<not> l \<le> 53"
    then have "(2::rat) powi 54 \<le> 2 powi l" by (intro power_int_increasing) auto
    then show False using lb(1) a2 by simp
  qed
  define e where "e = l - 52"
  have e: "max (rat_log2 a) (-1022) - 52 = e" using l0 by (simp add: e_def l_def)
  obtain m where m: "a / 2 powi e = of_int m"
  proof (cases "e \<le> 0")
    case True
    have "a / 2 powi e = of_int (\<bar>n\<bar> * 2 ^ nat (- e))"
      using True by (simp add: a_def power_int_def power_one_over)
    then show ?thesis by (rule that)
  next
    case False
    then have "l = 53" using l53 by (simp add: e_def)
    then have "a = 2 ^ 53" using lb(1) a2 by simp
    then have "a / 2 powi e = of_int (2 ^ 52)" using \<open>l = 53\<close> by (simp add: e_def)
    then show ?thesis by (rule that)
  qed
  have r: "of_int (round_half_even (a / 2 powi e)) * 2 powi e = a"
  proof -
    have "of_int (round_half_even (a / 2 powi e)) * 2 powi e = of_int m * 2 powi e"
      by (simp only: m round_half_even_int)
    also have "\<dots> = a" using m by (simp add: divide_eq_eq)
    finally show ?thesis .
  qed
  show ?thesis
    using assms(1) a2 r e unfolding dbl_round_def Let_def a_def by auto
qed
text \<open>\<open>toFixed\<close>'s digits are those ECMA-262 asks for: the integer nearest to
  \<open>\<bar>x\<bar>\<cdot>10\<^sup>d\<close>, the larger one on a tie.\<close>

lemma fixed_digits_nearest:
  "\<bar>x\<bar> * 10 ^ d - 1/2 < of_nat (fixed_digits d x) \<and> of_nat (fixed_digits d x) \<le> \<bar>x\<bar> * 10 ^ d + 1/2"
proof -
  let ?y = "\<bar>x\<bar> * 10 ^ d + 1/2"
  have "0 \<le> \<lfloor>?y\<rfloor>" by simp
  then have "of_nat (fixed_digits d x) = (of_int \<lfloor>?y\<rfloor> :: rat)"
    by (simp add: fixed_digits_def)
  moreover have "of_int \<lfloor>?y\<rfloor> \<le> ?y \<and> ?y < of_int (\<lfloor>?y\<rfloor> + 1)" by (rule floor_correct)
  ultimately show ?thesis by linarith
qed

end
