(* ===== verification/CommandCentre.thy ===== *)
theory CommandCentre
  imports JsNumber
begin

text \<open>
  The command centre of the candidate dashboard, \<open>src/static/js/candidate.js\<close>:
  the KPI cards (\<open>loadCommandCenterData\<close>), the overdue-task alerts
  (\<open>loadOverdueTasks\<close>), the booth leaderboard (\<open>loadBoothPerformance\<close>), the
  segment cards (\<open>loadSegmentPerformance\<close>) and the news list
  (\<open>loadNewsFeed\<close>, reloaded every minute by \<open>startNewsFeed\<close>). Each loader is
  the function from the response it awaits (\<open>None\<close>: the request failed, the
  status was not ok or the body was not JSON) to what its elements show. Counts
  from the API are integers below \<open>2\<^sup>53\<close>; percentages are the binary64 values
  \<open>JSON.parse\<close> gives (\<open>None\<close>: a JSON value that is not a number, which has
  no \<open>toFixed\<close>). \<open>toLocaleString\<close> is not modelled: a localised number or date
  is the constructor holding the value it prints.
\<close>

section \<open>KPI cards\<close>

record kpi_data =
  kd_contacted :: "(int \<times> int) option"
  kd_supporters :: jsval
  kd_undecided :: jsval
  kd_tasks :: "(int \<times> int) option"

datatype kpi_text = KText string | KLocale jsval

text \<open>\<open>kv_bar\<close> is the width of \<open>#kpiContactedBar\<close> in percent (\<open>None\<close>: the
  stylesheet's); \<open>kv_feed_loads\<close> counts the calls of \<open>loadActivityFeed\<close>.\<close>

record kpi_view =
  kv_contacted :: kpi_text
  kv_bar :: "rat option"
  kv_supporters :: kpi_text
  kv_undecided :: kpi_text
  kv_tasks :: kpi_text
  kv_feed_loads :: nat

text \<open>\<open>(count / total) * 100\<close>\<close>

definition kpi_percent :: "int \<times> int \<Rightarrow> f64" where
  "kpi_percent ct = js_mul (js_div (of_int (fst ct)) (of_int (snd ct))) 100"

text \<open>\<open>style.width = `${p}%`\<close>: a negative or non-finite width is not valid CSS and
  leaves the old width.\<close>

definition css_width :: "f64 \<Rightarrow> rat option \<Rightarrow> rat option" where
  "css_width p w = (case p of Fin x \<Rightarrow> if 0 \<le> x then Some x else w | _ \<Rightarrow> w)"

text \<open>\<open>`${Math.round(tasksPercentage || 0)}% (${count})`\<close>\<close>

definition tasks_text :: "int \<times> int \<Rightarrow> string" where
  "tasks_text ct =
     (let p = kpi_percent ct;
          r = js_math_round (if f64_truthy p then p else Fin 0)
      in f64_int_str r @ ''% ('' @ int_str (fst ct) @ '')'')"

definition kpi_errors :: "kpi_view \<Rightarrow> kpi_view" where
  "kpi_errors v =
     v\<lparr>kv_contacted := KText ''Error'', kv_supporters := KText ''Error'',
       kv_undecided := KText ''Error'', kv_tasks := KText ''Error''\<rparr>"

text \<open>
  \<open>loadCommandCenterData\<close> after its \<open>await\<close>s. The statements run in order and
  the \<open>catch\<close> writes \<open>Error\<close> into the four texts: what was written before
  the exception (the bar) stays.
\<close>

definition loadCommandCenterData :: "kpi_data option \<Rightarrow> kpi_view \<Rightarrow> kpi_view" where
  "loadCommandCenterData resp v =
     (case resp of
        None \<Rightarrow> kpi_errors v
      | Some k \<Rightarrow>
          (case kd_contacted k of
             None \<Rightarrow> kpi_errors v
           | Some ct \<Rightarrow>
               let v1 = v\<lparr>kv_contacted := KText (int_str (fst ct) @ '' / '' @ int_str (snd ct)),
                          kv_bar := css_width (kpi_percent ct) (kv_bar v)\<rparr>
               in if js_nullish (kd_supporters k) then kpi_errors v1
                  else let v2 = v1\<lparr>kv_supporters := KLocale (kd_supporters k)\<rparr>
                  in if js_nullish (kd_undecided k) then kpi_errors v2
                  else let v3 = v2\<lparr>kv_undecided := KLocale (kd_undecided k)\<rparr>
                  in (case kd_tasks k of
                        None \<Rightarrow> kpi_errors v3
                      | Some tc \<Rightarrow> v3\<lparr>kv_tasks := KText (tasks_text tc),
                                      kv_feed_loads := Suc (kv_feed_loads v3)\<rparr>)))"

section \<open>Alert and leaderboard lists\<close>

datatype list_body = ListNote string | ListItems "string list"

text \<open>\<open>loadOverdueTasks\<close>: an item is \<open>(title, due_date)\<close>, each shown with
  \<open>String()\<close>.\<close>

definition overdue_item :: "jsval \<times> jsval \<Rightarrow> string" where
  "overdue_item t = ''<li><strong>'' @ js_to_string (fst t) @ ''</strong> (Due: ''
                    @ js_to_string (snd t) @ '')</li>''"

definition loadOverdueTasks :: "(jsval \<times> jsval) list option \<Rightarrow> list_body" where
  "loadOverdueTasks resp =
     (case resp of
        None \<Rightarrow> ListNote ''Error loading tasks.''
      | Some [] \<Rightarrow> ListNote ''No overdue tasks. Great job!''
      | Some ts \<Rightarrow> ListItems (map overdue_item ts))"

text \<open>A booth of the leaderboard: its name and \<open>supporter_percent\<close>.\<close>

record booth_perf =
  bp_name :: jsval
  bp_percent :: "rat option"

definition booth_item :: "booth_perf \<Rightarrow> js_error + string" where
  "booth_item b =
     (case bp_percent b of
        None \<Rightarrow> Inl (TypeError ''booth.supporter_percent.toFixed is not a function'')
      | Some x \<Rightarrow> Inr (''<li>'' @ js_to_string (bp_name b) @ '' <span>'' @ to_fixed 1 x @ ''%</span></li>''))"

definition leader_list :: "booth_perf list \<Rightarrow> js_error + list_body" where
  "leader_list bs =
     (if bs = [] then Inr (ListNote ''Not enough data.'')
      else case map_items booth_item bs of Inl e \<Rightarrow> Inl e | Inr ss \<Rightarrow> Inr (ListItems ss))"

text \<open>\<open>loadBoothPerformance\<close>: \<open>(top, bottom)\<close>, \<open>None\<close> for a missing array
  (reading its \<open>length\<close> raises). The top list is written before the bottom one is
  built, but the \<open>catch\<close> overwrites both.\<close>

definition loadBoothPerformance ::
  "(booth_perf list option \<times> booth_perf list option) option \<Rightarrow> list_body \<times> list_body" where
  "loadBoothPerformance resp =
     (let err = (ListNote ''Error loading data.'', ListNote ''Error loading data.'') in
      case resp of
        Some (Some tops, Some bottoms) \<Rightarrow>
          (case (leader_list tops, leader_list bottoms) of
             (Inr t, Inr b) \<Rightarrow> (t, b)
           | _ \<Rightarrow> err)
      | _ \<Rightarrow> err)"

section \<open>Segment cards\<close>

record seg_perf =
  sp_name :: jsval
  sp_total :: jsval
  sp_supporters :: jsval
  sp_percent :: "rat option"

text \<open>A card shows the name, \<open>Total: \<dots>\<close> and \<open>Supporters: \<dots> (p%)\<close>.\<close>

datatype seg_card = SegCard string string string

definition segment_card :: "seg_perf \<Rightarrow> js_error + seg_card" where
  "segment_card g =
     (case sp_percent g of
        None \<Rightarrow> Inl (TypeError ''seg.percent.toFixed is not a function'')
      | Some x \<Rightarrow> Inr (SegCard (js_to_string (sp_name g)) (''Total: '' @ js_to_string (sp_total g))
                        (''Supporters: '' @ js_to_string (sp_supporters g) @ '' ('' @ to_fixed 0 x @ ''%)'')))"

datatype seg_body = SegNote string | SegCards "seg_card list"

definition no_segments_note :: string where
  "no_segments_note = ''No saved segments. Go to '' @ [CHR 0x22] @ ''Voter Analytics'' @ [CHR 0x22]
                      @ '' to create some.''"

definition loadSegmentPerformance :: "seg_perf list option \<Rightarrow> seg_body" where
  "loadSegmentPerformance resp =
     (case resp of
        None \<Rightarrow> SegNote ''Error loading segment data.''
      | Some [] \<Rightarrow> SegNote no_segments_note
      | Some gs \<Rightarrow> (case map_items segment_card gs of
                      Inl e \<Rightarrow> SegNote ''Error loading segment data.''
                    | Inr cs \<Rightarrow> SegCards cs))"

section \<open>News feed\<close>

datatype news_date = NoDate | LocaleDate jsval

record news_item =
  ni_url :: jsval
  ni_title :: jsval
  ni_publishedAt :: jsval

datatype news_body = NewsLoading | NewsNone | NewsFailed | NewsList "(string \<times> string \<times> news_date) list"

text \<open>An item shows its link, its title and, when \<open>publishedAt\<close> is truthy, the
  localised date.\<close>

definition news_entry :: "news_item \<Rightarrow> string \<times> string \<times> news_date" where
  "news_entry it =
     (js_to_string (ni_url it), js_to_string (ni_title it),
      if js_truthy (ni_publishedAt it) then LocaleDate (ni_publishedAt it) else NoDate)"

definition news_body_of :: "news_item list option \<Rightarrow> news_body" where
  "news_body_of resp =
     (case resp of
        None \<Rightarrow> NewsFailed
      | Some [] \<Rightarrow> NewsNone
      | Some its \<Rightarrow> NewsList (map news_entry its))"

text \<open>
  \<open>#newsFeedList\<close> exists or not, its content, and the requests in flight. A
  request is \<open>loadNewsFeed\<close> up to its \<open>await\<close>: without the list it creates
  one inside \<open>.command-center-grid\<close> (a missing grid raises before the request),
  then shows the loading line. All requests fetch the same URL, so an answer is not
  tied to one of them; the one that arrives last is shown.
\<close>

record news_state =
  ns_has_list :: bool
  ns_body :: news_body
  ns_pending :: nat

definition loadNewsFeed :: "bool \<Rightarrow> news_state \<Rightarrow> js_error + news_state" where
  "loadNewsFeed grid s =
     (if \<not> ns_has_list s \<and> \<not> grid
      then Inl (TypeError ''Cannot read properties of null (reading appendChild)'')
      else Inr \<lparr>ns_has_list = True, ns_body = NewsLoading, ns_pending = Suc (ns_pending s)\<rparr>)"

definition loadNewsFeed_resume :: "news_item list option \<Rightarrow> news_state \<Rightarrow> news_state" where
  "loadNewsFeed_resume resp s =
     (if ns_pending s = 0 then s
      else s\<lparr>ns_body := news_body_of resp, ns_pending := ns_pending s - 1\<rparr>)"

text \<open>\<open>startNewsFeed\<close> makes the first request; \<open>setInterval\<close> makes one more every
  minute (\<open>NewsTick\<close>).\<close>

datatype news_event = NewsTick | NewsAnswer "news_item list option"

fun news_step :: "bool \<Rightarrow> news_state \<Rightarrow> news_event \<Rightarrow> news_state" where
  "news_step grid s NewsTick = (case loadNewsFeed grid s of Inl e \<Rightarrow> s | Inr s' \<Rightarrow> s')"
| "news_step grid s (NewsAnswer r) = loadNewsFeed_resume r s"

definition news_run :: "bool \<Rightarrow> news_state \<Rightarrow> news_event list \<Rightarrow> news_state" where
  "news_run grid s evs = foldl (news_step grid) s evs"

definition startNewsFeed :: "bool \<Rightarrow> news_state \<Rightarrow> news_state" where
  "startNewsFeed grid s = news_step grid s NewsTick"

section \<open>Lemmas\<close>

lemma int_str_0: "int_str 0 = ''0''"
  by code_simp

lemma int_str_100: "int_str 100 = ''100''"
  by code_simp

lemma floor_half: "\<lfloor>1/2 :: rat\<rfloor> = 0"
  by code_simp

lemma floor_201_half: "\<lfloor>201 / 2 :: rat\<rfloor> = 100"
  by code_simp

text \<open>With no task at all the card reads \<open>0%\<close> (\<open>NaN || 0\<close>); with tasks counted
  but a total of zero it reads \<open>Infinity%\<close>.\<close>

lemma tasks_text_zero_total:
  "tasks_text (c, 0) = (if 0 < c then ''Infinity'' else if c < 0 then ''-Infinity'' else ''0'')
                        @ ''% ('' @ int_str c @ '')''"
  by (simp add: tasks_text_def kpi_percent_def js_div_def floor_half int_str_0)

text \<open>All tasks done is exactly \<open>100%\<close>, none done exactly \<open>0%\<close>: the binary64
  quotient and product are exact there.\<close>

lemma kpi_percent_all_done: "0 < t \<Longrightarrow> t \<le> 2 ^ 53 \<Longrightarrow> kpi_percent (t, t) = Fin 100"
proof -
  assume "0 < t" "t \<le> 2 ^ 53"
  have "dbl_round (of_int 1) = Fin (of_int 1)" by (rule dbl_round_int) simp_all
  moreover have "dbl_round (of_int 100) = Fin (of_int 100)" by (rule dbl_round_int) simp_all
  ultimately show ?thesis using \<open>0 < t\<close> by (simp add: kpi_percent_def js_div_def)
qed

lemma tasks_text_all_done: "0 < t \<Longrightarrow> t \<le> 2 ^ 53 \<Longrightarrow> tasks_text (t, t) = ''100% ('' @ int_str t @ '')''"
  by (simp add: tasks_text_def kpi_percent_all_done floor_201_half int_str_100)

lemma tasks_text_none_done: "0 < t \<Longrightarrow> tasks_text (0, t) = ''0% (0)''"
  by (simp add: tasks_text_def kpi_percent_def js_div_def dbl_round_def floor_half int_str_0)

text \<open>A response without \<open>tasksCompleted\<close> shows \<open>Error\<close> on every card while the
  progress bar already shows the new contacted share; the activity feed is not
  loaded.\<close>

lemma loadCommandCenterData_missing_tasks:
  assumes "kd_contacted k = Some ct" and "\<not> js_nullish (kd_supporters k)"
    and "\<not> js_nullish (kd_undecided k)" and "kd_tasks k = None"
  shows "loadCommandCenterData (Some k) v
           = kpi_errors (v\<lparr>kv_bar := css_width (kpi_percent ct) (kv_bar v)\<rparr>)"
  using assms by (simp add: loadCommandCenterData_def kpi_errors_def Let_def)

text \<open>With a total of zero the bar keeps its old width (\<open>NaN%\<close>, \<open>Infinity%\<close>).\<close>

lemma css_width_zero_total: "css_width (kpi_percent (c, 0)) w = w"
  by (simp add: css_width_def kpi_percent_def js_div_def)

lemma leader_list_isl: "isl (leader_list bs) \<longleftrightarrow> (\<exists>b\<in>set bs. isl (booth_item b))"
proof -
  have "isl (map_items booth_item bs) \<longleftrightarrow> (\<exists>b\<in>set bs. isl (booth_item b))" by (rule map_items_isl)
  then show ?thesis by (cases "map_items booth_item bs") (auto simp: leader_list_def)
qed

text \<open>One booth whose \<open>supporter_percent\<close> is not a number blanks both lists.\<close>

lemma loadBoothPerformance_bad_percent:
  assumes "b \<in> set tops \<union> set bottoms" and "bp_percent b = None"
  shows "loadBoothPerformance (Some (Some tops, Some bottoms))
           = (ListNote ''Error loading data.'', ListNote ''Error loading data.'')"
proof -
  have bad: "isl (booth_item b)" using assms(2) by (simp add: booth_item_def)
  have "isl (leader_list tops) \<or> isl (leader_list bottoms)"
    using assms(1) bad by (auto simp: leader_list_isl)
  then show ?thesis
    by (auto simp: loadBoothPerformance_def Let_def split: sum.splits)
qed

text \<open>\<open>toFixed(1)\<close> of a whole percentage appends \<open>.0\<close>.\<close>

lemma to_fixed_one_nat: "to_fixed 1 (of_nat k) = nat_str k @ ''.0''"
proof (cases "k = 0")
  case True
  have "nat_str 0 = ''0''" by code_simp
  then show ?thesis using True by (simp add: to_fixed_def fixed_digits_def floor_half)
next
  case False
  have c0: "char_of (48 :: nat) = CHR ''0''" by code_simp
  have d: "fixed_digits (Suc 0) (of_nat k) = 10 * k"
  proof -
    have "\<lfloor>(of_nat k :: rat) * 10 + 1/2\<rfloor> = int (10 * k)"
      by (rule floor_unique) simp_all
    then show ?thesis by (simp add: fixed_digits_def)
  qed
  have s: "nat_str (10 * k) = nat_str k @ ''0''"
    using False by (simp add: nat_str.simps [of "10 * k"] c0)
  have "nat_str k \<noteq> []" using nat_str_digits [of k] by simp
  then show ?thesis by (simp add: to_fixed_def d s Let_def Suc_le_eq)
qed

text \<open>The news list is never left on its loading line once every request has
  been answered.\<close>

definition news_settled :: "news_state \<Rightarrow> bool" where
  "news_settled s \<longleftrightarrow> (ns_pending s = 0 \<longrightarrow> ns_body s \<noteq> NewsLoading)"

lemma news_body_of_not_loading: "news_body_of r \<noteq> NewsLoading"
  by (simp add: news_body_of_def split: option.splits list.splits)

lemma news_step_settled: "news_settled s \<Longrightarrow> news_settled (news_step g s ev)"
  by (cases ev) (auto simp: news_settled_def loadNewsFeed_def loadNewsFeed_resume_def
                        news_body_of_not_loading split: sum.splits)

lemma news_run_settled: "news_settled s \<Longrightarrow> news_settled (news_run g s evs)"
  unfolding news_run_def by (induction evs arbitrary: s) (simp_all add: news_step_settled)

end
