(* ===== verification/WorkerTasks.thy ===== *)
theory WorkerTasks
  imports Escape
begin

text \<open>
  The tasks, messages and reports sections of the worker dashboard,
  \<open>src/static/js/worker.js\<close>: \<open>fetchTasks\<close>, \<open>fetchMessages\<close> and
  \<open>fetchReports\<close> render a list from the API, the three forms post their fields
  and reload their list, \<open>updateTaskStatus\<close> and \<open>deleteTask\<close> act on one task.
  None of the loaders checks \<open>response.ok\<close> or catches: a body that is not JSON
  rejects before the element is touched, and a JSON body that is not an array (an
  error object) empties the element and then raises on \<open>forEach\<close>. Every field goes
  through \<open>safe\<close> (\<open>Escape\<close>) except the task id, which is written into the
  inline \<open>onclick\<close> handlers as it is.
\<close>

datatype 'a api_body = ApiList "'a list" | ApiOther | ApiNotJson

datatype 'r list_view = ListRows "'r list" | ListNote string | ListCleared

text \<open>
  A loader after its \<open>await\<close>s: \<open>None\<close> is a rejected \<open>fetch\<close>; \<open>has_el\<close>
  says whether the container exists; \<open>row\<close> renders one item and \<open>note\<close> is the
  note for an empty list.
\<close>

definition fetch_list ::
  "('a \<Rightarrow> 'r) \<Rightarrow> string \<Rightarrow> bool \<Rightarrow> 'a api_body option \<Rightarrow> 'r list_view \<Rightarrow> 'r list_view" where
  "fetch_list row note has_el resp v =
     (case resp of
        None \<Rightarrow> v
      | Some ApiNotJson \<Rightarrow> v
      | Some b \<Rightarrow>
          if \<not> has_el then v
          else (case b of
                  ApiList [] \<Rightarrow> ListNote note
                | ApiList xs \<Rightarrow> ListRows (map row xs)
                | _ \<Rightarrow> ListCleared))"

section \<open>Tasks\<close>

record wtask =
  wt_id :: jsval
  wt_title :: jsval
  wt_description :: jsval
  wt_status :: jsval
  wt_due_date :: jsval

definition status_class :: "jsval \<Rightarrow> string" where
  "status_class s =
     (if s = JStr ''Completed'' then ''completed''
      else if s = JStr ''In Progress'' then ''progress'' else ''pending'')"

text \<open>A row: the four escaped cells, the badge class, which option of the status
  select is marked \<open>selected\<close>, and the two inline handlers.\<close>

record wtask_row =
  wr_title :: string
  wr_description :: string
  wr_class :: string
  wr_status :: string
  wr_due :: string
  wr_selected :: "bool list"
  wr_onchange :: string
  wr_onclick :: string

definition task_statuses :: "string list" where
  "task_statuses = [''Pending'', ''In Progress'', ''Completed'']"

definition wtask_row :: "wtask \<Rightarrow> wtask_row" where
  "wtask_row t =
     \<lparr>wr_title = safe (wt_title t),
      wr_description = safe (js_or (wt_description t) (JStr [])),
      wr_class = status_class (wt_status t),
      wr_status = safe (wt_status t),
      wr_due = safe (js_or (wt_due_date t) (JStr [])),
      wr_selected = map (\<lambda>s. wt_status t = JStr s) task_statuses,
      wr_onchange = ''updateTaskStatus('' @ js_to_string (wt_id t) @ '', this.value)'',
      wr_onclick = ''deleteTask('' @ js_to_string (wt_id t) @ '')''\<rparr>"

definition fetchTasks :: "bool \<Rightarrow> wtask api_body option \<Rightarrow> wtask_row list_view \<Rightarrow> wtask_row list_view" where
  "fetchTasks = fetch_list wtask_row ''No tasks assigned''"

text \<open>The effects of the task handlers in order: the request, the form reset, the
  reload of the list, an alert, the \<open>confirm\<close> question.\<close>

datatype worker_effect =
    WRequest string string "(string \<times> string) list"
  | WReset string | WReload string | WAlert string | WConfirm string

text \<open>\<open>Object.fromEntries(formData.entries())\<close>: a repeated name keeps its first
  position and its last value.\<close>

definition put_entry :: "(string \<times> string) list \<Rightarrow> string \<times> string \<Rightarrow> (string \<times> string) list" where
  "put_entry acc kv =
     (if fst kv \<in> fst ` set acc then map (\<lambda>(k, v). if k = fst kv then (k, snd kv) else (k, v)) acc
      else acc @ [kv])"

definition from_entries :: "(string \<times> string) list \<Rightarrow> (string \<times> string) list" where
  "from_entries es = foldl put_entry [] es"

text \<open>A form's \<open>submit\<close> listener: \<open>delivered\<close> is whether the \<open>fetch\<close>
  settles (any status); a rejected \<open>fetch\<close> ends the listener.\<close>

definition form_submit :: "string \<Rightarrow> string \<Rightarrow> string \<Rightarrow> (string \<times> string) list \<Rightarrow> bool \<Rightarrow> worker_effect list" where
  "form_submit form url list es delivered =
     WRequest ''POST'' url (from_entries es) # (if delivered then [WReset form, WReload list] else [])"

definition taskForm_submit :: "(string \<times> string) list \<Rightarrow> bool \<Rightarrow> worker_effect list" where
  "taskForm_submit = form_submit ''taskForm'' ''/api/tasks'' ''tasks''"

definition updateTaskStatus :: "jsval \<Rightarrow> string \<Rightarrow> bool \<Rightarrow> worker_effect list" where
  "updateTaskStatus tid st delivered =
     WRequest ''PUT'' (''/api/tasks/'' @ js_to_string tid) [(''status'', st)]
     # (if delivered then [WReload ''tasks''] else [WAlert ''Error updating task status''])"

definition deleteTask :: "jsval \<Rightarrow> bool \<Rightarrow> bool \<Rightarrow> worker_effect list" where
  "deleteTask tid ok delivered =
     WConfirm ''Are you sure you want to delete this task?''
     # (if \<not> ok then []
        else WRequest ''DELETE'' (''/api/tasks/'' @ js_to_string tid) []
             # (if delivered then [WReload ''tasks''] else [WAlert ''Error deleting task'']))"

section \<open>Messages and reports\<close>

datatype local_date = LocaleOf jsval

record wcard =
  wc_title :: string
  wc_meta :: string
  wc_date :: local_date
  wc_text :: string

record wmessage =
  wm_title :: jsval
  wm_audience :: jsval
  wm_created_at :: jsval
  wm_body :: jsval

definition message_card :: "wmessage \<Rightarrow> wcard" where
  "message_card m =
     \<lparr>wc_title = safe (wm_title m), wc_meta = safe (js_or (wm_audience m) (JStr [])),
      wc_date = LocaleOf (wm_created_at m), wc_text = safe (js_or (wm_body m) (JStr []))\<rparr>"

definition fetchMessages :: "bool \<Rightarrow> wmessage api_body option \<Rightarrow> wcard list_view \<Rightarrow> wcard list_view" where
  "fetchMessages = fetch_list message_card ''No messages found''"

definition messageForm_submit :: "(string \<times> string) list \<Rightarrow> bool \<Rightarrow> worker_effect list" where
  "messageForm_submit = form_submit ''messageForm'' ''/api/messages'' ''messages''"

record wreport =
  wp_title :: jsval
  wp_date :: jsval
  wp_submitted_at :: jsval
  wp_content :: jsval

definition report_card :: "wreport \<Rightarrow> wcard" where
  "report_card r =
     \<lparr>wc_title = safe (wp_title r), wc_meta = safe (js_or (wp_date r) (JStr [])),
      wc_date = LocaleOf (wp_submitted_at r), wc_text = safe (js_or (wp_content r) (JStr []))\<rparr>"

definition fetchReports :: "bool \<Rightarrow> wreport api_body option \<Rightarrow> wcard list_view \<Rightarrow> wcard list_view" where
  "fetchReports = fetch_list report_card ''No reports submitted''"

definition reportForm_submit :: "(string \<times> string) list \<Rightarrow> bool \<Rightarrow> worker_effect list" where
  "reportForm_submit = form_submit ''reportForm'' ''/api/reports'' ''reports''"

section \<open>Lemmas\<close>

lemma fst_put_entry:
  "map fst (put_entry acc kv) = (if fst kv \<in> set (map fst acc) then map fst acc else map fst acc @ [fst kv])"
  by (induction acc) (auto simp: put_entry_def)

lemma map_of_map_replace:
  "map_of (map (\<lambda>(k, v). if k = a then (k, b) else (k, v)) acc)
     = (\<lambda>x. if x = a then (if map_of acc a = None then None else Some b) else map_of acc x)"
  by (induction acc) (auto simp: fun_eq_iff)

lemma map_of_put_entry: "map_of (put_entry acc kv) = (map_of acc)(fst kv \<mapsto> snd kv)"
proof (cases "fst kv \<in> fst ` set acc")
  case True
  then have "map_of acc (fst kv) \<noteq> None" by (simp add: map_of_eq_None_iff)
  then show ?thesis using True by (simp add: put_entry_def map_of_map_replace fun_eq_iff)
next
  case False
  then have "map_of acc (fst kv) = None" by (simp add: map_of_eq_None_iff)
  then show ?thesis using False
    by (auto simp: put_entry_def fun_eq_iff map_add_def split: option.splits)
qed

text \<open>\<open>Object.fromEntries\<close> keeps every name of the form exactly once, with the
  value of its last entry.\<close>

lemma from_entries_keys:
  "distinct (map fst (from_entries es)) \<and> set (map fst (from_entries es)) = set (map fst es)"
proof -
  have "distinct (map fst (foldl put_entry acc es))
        \<and> set (map fst (foldl put_entry acc es)) = set (map fst acc) \<union> set (map fst es)"
    if "distinct (map fst acc)" for acc
    using that
  proof (induction es arbitrary: acc)
    case Nil
    then show ?case by simp
  next
    case (Cons e es)
    have "distinct (map fst (put_entry acc e))" using Cons.prems by (simp add: fst_put_entry)
    then show ?case
      using Cons.IH [of "put_entry acc e"] by (auto simp: fst_put_entry split: if_splits)
  qed
  then show ?thesis by (simp add: from_entries_def)
qed

lemma from_entries_values: "map_of (from_entries es) = map_of (rev es)"
proof -
  have "map_of (foldl put_entry acc es) = map_of acc ++ map_of (rev es)" for acc
  proof (induction es arbitrary: acc)
    case Nil
    then show ?case by simp
  next
    case (Cons e es)
    have "map_of (foldl put_entry acc (e # es)) = map_of (put_entry acc e) ++ map_of (rev es)"
      using Cons.IH by simp
    also have "\<dots> = map_of acc ++ map_of (rev (e # es))"
      by (simp add: map_of_put_entry fun_eq_iff map_add_def split: option.splits)
    finally show ?case .
  qed
  then show ?thesis by (simp add: from_entries_def)
qed

text \<open>The cells of a task row hold no character that opens a tag or ends an
  attribute; the inline handlers, which carry the raw id, can.\<close>

lemma safe_no_markup_char: "c \<in> set (safe v) \<Longrightarrow> \<not> markup_char c"
  unfolding safe_def by (rule escape_str_no_markup)

lemma wtask_row_cells_no_markup:
  "c \<in> set (wr_title (wtask_row t) @ wr_description (wtask_row t) @ wr_status (wtask_row t)
            @ wr_due (wtask_row t)) \<Longrightarrow> \<not> markup_char c"
  by (auto simp: wtask_row_def dest: safe_no_markup_char)

lemma wtask_row_id_injection:
  "wt_id t = JStr s \<Longrightarrow> CHR 0x22 \<in> set s \<Longrightarrow> \<exists>c\<in>set (wr_onchange (wtask_row t)). markup_char c"
  by (auto simp: wtask_row_def markup_char_def)

text \<open>At most one status option is marked; none when the status is not one of the
  three, and the select then shows \<open>Pending\<close> whatever the badge says.\<close>

lemma wtask_row_selected:
  "length (filter (\<lambda>b. b) (wr_selected (wtask_row t)))
     = (if wt_status t \<in> JStr ` set task_statuses then 1 else 0)"
  by (auto simp: wtask_row_def task_statuses_def)

text \<open>An error object from the API empties the list without a note, and a body that
  is not JSON leaves the old list: no loader ever tells the worker that loading
  failed.\<close>

lemma fetch_list_failures:
  "fetch_list row n True (Some ApiOther) v = ListCleared \<and> fetch_list row n h (Some ApiNotJson) v = v
   \<and> fetch_list row n h None v = v"
  by (simp add: fetch_list_def)

text \<open>
  The task form always posts a well-formed JSON object: the body of its
  \<open>POST\<close> to \<open>/api/tasks\<close> names every field of the form exactly once, and each
  name carries the value of its last entry, as \<open>Object.fromEntries\<close> does.
\<close>

theorem taskForm_posts_object:
  "\<exists>body rest. taskForm_submit es delivered = WRequest ''POST'' ''/api/tasks'' body # rest
     \<and> distinct (map fst body) \<and> set (map fst body) = set (map fst es) \<and> map_of body = map_of (rev es)"
  using from_entries_keys [of es] from_entries_values [of es]
  by (simp add: taskForm_submit_def form_submit_def)

end
