(* ===== verification/LocationDialog.thy ===== *)
theory LocationDialog
  imports Households JsNumber
begin

text \<open>
  The voter location dialog of the worker dashboard, \<open>src/static/js/worker.js\<close>:
  a click on a voter chip of the household table calls
  \<open>openVoterLocationModal\<close> with the chip's \<open>data-*\<close> values, which fills the
  dialog and schedules \<open>initVoterMap\<close> 200 ms later; \<open>initVoterMap\<close> removes the
  previous Leaflet map, makes a new one and places a marker when both coordinates
  are truthy; a click on the map moves the marker; \<open>saveLocationDetails\<close> finds
  the voter's row in the table by the name in the dialog title and posts the
  location. The globals \<open>activeVoterId\<close>, \<open>mapInstance\<close> and \<open>marker\<close> are
  fields of \<open>loc_state\<close>; a map is a number, a marker the map it was added to and
  its coordinates. Leaflet itself is not modelled: only which map and marker exist.
\<close>

text \<open>\<open>innerText\<close> of an element holding text: runs of white space read as one
  space (CSS \<open>white-space: normal\<close>), then \<open>trim\<close> as the scripts apply it. A line
  break written into the title through \<open>innerText\<close> reads back as a line feed in a
  browser and as a space here; the chip lookup fails for such a name either way.\<close>

fun collapse_ws :: "bool \<Rightarrow> string \<Rightarrow> string" where
  "collapse_ws prev [] = []"
| "collapse_ws prev (c # cs) =
     (if c \<in> {CHR '' '', CHR 0x09, CHR 0x0A, CHR 0x0C, CHR 0x0D}
      then (if prev then collapse_ws True cs else CHR '' '' # collapse_ws True cs)
      else c # collapse_ws False cs)"

definition inner_text :: "string \<Rightarrow> string" where
  "inner_text s = js_trim (collapse_ws False s)"

text \<open>What \<open>chip.dataset\<close> gives for a rendered chip: the attribute values as
  the parser reads them (the escaped name and landmark decode to the text).\<close>

record chip_data =
  cd_id :: string
  cd_name :: string
  cd_landmark :: string
  cd_lat :: string
  cd_lng :: string

definition chip_dataset :: "voter_chip \<Rightarrow> chip_data" where
  "chip_dataset c =
     \<lparr>cd_id = chip_id c, cd_name = html_unescape (chip_name c), cd_landmark = html_unescape (chip_landmark c),
      cd_lat = chip_lat c, cd_lng = chip_lng c\<rparr>"

record loc_state =
  activeVoterId :: "string option"
  loc_title :: string
  loc_landmark :: string
  loc_open :: bool
  loc_timers :: "(f64 \<times> f64) list"
  loc_map :: "nat option"
  loc_next_map :: nat
  loc_marker :: "(nat \<times> f64 \<times> f64) option"

definition openVoterLocationModal :: "chip_data \<Rightarrow> loc_state \<Rightarrow> loc_state" where
  "openVoterLocationModal c s =
     s\<lparr>activeVoterId := Some (cd_id c), loc_title := cd_name c,
       loc_landmark := (if cd_landmark c \<noteq> [] then cd_landmark c else []),
       loc_open := True,
       loc_timers := loc_timers s @ [(js_parseFloat (cd_lat c), js_parseFloat (cd_lng c))]\<rparr>"

text \<open>\<open>initVoterMap(lat, lng)\<close>: the old map goes, a new one is made; a marker is
  placed only when both coordinates are truthy, and otherwise \<open>marker\<close> keeps
  whatever it held.\<close>

definition initVoterMap :: "f64 \<Rightarrow> f64 \<Rightarrow> loc_state \<Rightarrow> loc_state" where
  "initVoterMap lat lng s =
     (let m = loc_next_map s in
      s\<lparr>loc_map := Some m, loc_next_map := Suc m,
        loc_marker := (if f64_truthy lat \<and> f64_truthy lng then Some (m, lat, lng) else loc_marker s)\<rparr>)"

definition loc_timer :: "loc_state \<Rightarrow> loc_state" where
  "loc_timer s =
     (case loc_timers s of
        [] \<Rightarrow> s
      | (lat, lng) # ts \<Rightarrow> initVoterMap lat lng (s\<lparr>loc_timers := ts\<rparr>))"

definition map_click :: "rat \<Rightarrow> rat \<Rightarrow> loc_state \<Rightarrow> loc_state" where
  "map_click lat lng s =
     (case loc_map s of None \<Rightarrow> s | Some m \<Rightarrow> s\<lparr>loc_marker := Some (m, Fin lat, Fin lng)\<rparr>)"

definition closeLocationModal :: "loc_state \<Rightarrow> loc_state" where
  "closeLocationModal s = s\<lparr>loc_open := False\<rparr>"

text \<open>
  The chip lookup \<open>span.voter-chip[data-name="name"]\<close>: a name holding a quote or a
  line break makes the selector invalid (\<open>SyntaxError\<close>); a backslash starts a CSS
  escape, which the model reads as matching no chip. Otherwise the first chip of the
  table, in document order, whose name is exactly the title; its row's first cell is
  the house.
\<close>

definition chip_house :: "(string \<times> voter_chip list) list \<Rightarrow> string \<Rightarrow> js_error + string" where
  "chip_house rows name =
     (if CHR 0x22 \<in> set name \<or> CHR 0x0A \<in> set name \<or> CHR 0x0D \<in> set name \<or> CHR 0x0C \<in> set name
      then Inl (SyntaxError ''Failed to execute querySelector: not a valid selector'')
      else case find (\<lambda>(h, cs). CHR 0x5C \<notin> set name \<and> (\<exists>c\<in>set cs. cd_name (chip_dataset c) = name)) rows of
        None \<Rightarrow> Inl (TypeError ''Cannot read properties of null (reading closest)'')
      | Some (h, cs) \<Rightarrow> Inr (inner_text (html_unescape h)))"

datatype loc_effect =
    LocAlertPin
  | LocPost string string string f64 f64
  | LocAlertUpdated
  | LocReloadHouseholds

text \<open>\<open>saveLocationDetails()\<close> with the household table and whether the answer is
  JSON (the promise chain has no \<open>catch\<close>: otherwise nothing follows the post).\<close>

definition saveLocationDetails ::
  "(string \<times> voter_chip list) list \<Rightarrow> bool \<Rightarrow> loc_state \<Rightarrow> js_error + loc_effect list \<times> loc_state" where
  "saveLocationDetails rows json_ok s =
     (case loc_marker s of
        None \<Rightarrow> Inr ([LocAlertPin], s)
      | Some (m, lat, lng) \<Rightarrow>
          let name = inner_text (loc_title s) in
          (case chip_house rows name of
             Inl e \<Rightarrow> Inl e
           | Inr house \<Rightarrow>
               let post = LocPost name house (loc_landmark s) lat lng in
               if json_ok then Inr ([post, LocAlertUpdated, LocReloadHouseholds], closeLocationModal s)
               else Inr ([post], s)))"

datatype loc_event =
    LocOpen chip_data | LocTimer | LocMapClick rat rat | LocSave bool | LocClose

fun loc_step :: "(string \<times> voter_chip list) list \<Rightarrow> loc_state \<Rightarrow> loc_event \<Rightarrow> loc_state \<times> loc_effect list" where
  "loc_step rows s (LocOpen c) = (openVoterLocationModal c s, [])"
| "loc_step rows s LocTimer = (loc_timer s, [])"
| "loc_step rows s (LocMapClick a b) = (map_click a b s, [])"
| "loc_step rows s (LocSave ok) = (case saveLocationDetails rows ok s of Inl e \<Rightarrow> (s, []) | Inr r \<Rightarrow> (snd r, fst r))"
| "loc_step rows s LocClose = (closeLocationModal s, [])"

fun loc_run :: "(string \<times> voter_chip list) list \<Rightarrow> loc_state \<Rightarrow> loc_event list \<Rightarrow> loc_state \<times> loc_effect list" where
  "loc_run rows s [] = (s, [])"
| "loc_run rows s (ev # evs) =
     (let (s1, e1) = loc_step rows s ev; (s2, e2) = loc_run rows s1 evs in (s2, e1 @ e2))"

definition loc_init :: loc_state where
  "loc_init =
     \<lparr>activeVoterId = None, loc_title = [], loc_landmark = [], loc_open = False, loc_timers = [],
      loc_map = None, loc_next_map = 0, loc_marker = None\<rparr>"

section \<open>Lemmas\<close>

lemma js_digit_not_sign: "js_digit c \<Longrightarrow> c \<noteq> CHR ''-'' \<and> c \<noteq> CHR ''+'' \<and> c \<noteq> CHR ''I'' \<and> c \<noteq> CHR ''.''"
  by (auto simp: js_digit_def)

lemma js_parseFloat_digits:
  assumes "ds \<noteq> []" and "list_all js_digit ds" and "digits_val ds \<le> 2 ^ 53"
  shows "js_parseFloat ds = Fin (of_nat (digits_val ds))"
proof -
  obtain c cs where ds: "ds = c # cs" using assms(1) by (cases ds) auto
  have c: "js_digit c" using assms(2) ds by simp
  have sp: "dropWhile js_space ds = ds" using c ds by (simp add: js_digit_not_space)
  have sg: "sign_prefix ds = (False, ds)" using js_digit_not_sign [OF c] ds by (simp add: sign_prefix_def)
  have inf: "take 8 ds \<noteq> ''Infinity''" using js_digit_not_sign [OF c] ds by simp
  have tw: "takeWhile js_digit ds = ds" "dropWhile js_digit ds = []"
    using assms(2) by (simp_all add: list_all_iff)
  have r: "dbl_round (of_nat (digits_val ds)) = Fin (of_nat (digits_val ds))"
  proof (cases "digits_val ds = 0")
    case True then show ?thesis by (simp add: dbl_round_def)
  next
    case False
    have "dbl_round (of_int (int (digits_val ds))) = Fin (of_int (int (digits_val ds)))"
      by (rule dbl_round_int) (use False assms(3) in simp_all)
    then show ?thesis by simp
  qed
  show ?thesis using sg inf r assms(1) by (simp add: js_parseFloat_def exponent_part_def sp tw Let_def digits_val_def)
qed

section \<open>Properties\<close>

text \<open>
  C20. The dialog does not forget the previous voter's pin. After the location
  dialog was opened for a voter with coordinates and then for a voter without any,
  \<open>marker\<close> still holds the first voter's marker (from a map that no longer
  exists), so Save, without any click on the map, posts the second voter's name and
  house with the first voter's coordinates.
\<close>

theorem stale_marker_saved:
  assumes "f64_truthy (js_parseFloat (cd_lat a))" and "f64_truthy (js_parseFloat (cd_lng a))"
    and "\<not> f64_truthy (js_parseFloat (cd_lat b))"
    and "chip_house rows (inner_text (cd_name b)) = Inr house"
    and "loc_timers s = []"
  shows "snd (loc_run rows s [LocOpen a, LocTimer, LocOpen b, LocTimer, LocSave True])
         = [LocPost (inner_text (cd_name b)) house (cd_landmark b) (js_parseFloat (cd_lat a)) (js_parseFloat (cd_lng a)),
            LocAlertUpdated, LocReloadHouseholds]"
  using assms
  by (simp add: openVoterLocationModal_def loc_timer_def initVoterMap_def saveLocationDetails_def Let_def)

theorem stale_marker_saved_witness:
  "snd (loc_run [(''12'', [\<lparr>chip_id = ''2'', chip_name = ''Ravi'', chip_landmark = [], chip_lat = [],
                           chip_lng = [], chip_label = ''Ravi''\<rparr>])] loc_init
          [LocOpen \<lparr>cd_id = ''1'', cd_name = ''Asha'', cd_landmark = [], cd_lat = ''16'', cd_lng = ''74''\<rparr>,
           LocTimer,
           LocOpen \<lparr>cd_id = ''2'', cd_name = ''Ravi'', cd_landmark = [], cd_lat = [], cd_lng = []\<rparr>,
           LocTimer, LocSave True])
   = [LocPost ''Ravi'' ''12'' [] (Fin 16) (Fin 74), LocAlertUpdated, LocReloadHouseholds]"
proof -
  have d16: "digits_val ''16'' = 16" unfolding digits_val_def by code_simp
  have a16: "list_all js_digit ''16''" unfolding js_digit_def by code_simp
  have p16: "js_parseFloat ''16'' = Fin 16"
    using js_parseFloat_digits [of "''16''"] d16 a16 by simp
  have d74: "digits_val ''74'' = 74" unfolding digits_val_def by code_simp
  have a74: "list_all js_digit ''74''" unfolding js_digit_def by code_simp
  have p74: "js_parseFloat ''74'' = Fin 74"
    using js_parseFloat_digits [of "''74''"] d74 a74 by simp
  have nan: "js_parseFloat [] = NaN" by (simp add: js_parseFloat_def sign_prefix_def)
  have name: "inner_text ''Ravi'' = ''Ravi''" by code_simp
  have house: "chip_house [(''12'', [\<lparr>chip_id = ''2'', chip_name = ''Ravi'', chip_landmark = [], chip_lat = [],
                           chip_lng = [], chip_label = ''Ravi''\<rparr>])] ''Ravi'' = Inr ''12''"
    unfolding chip_house_def chip_dataset_def inner_text_def by code_simp
  show ?thesis
    using stale_marker_saved [of "\<lparr>cd_id = ''1'', cd_name = ''Asha'', cd_landmark = [], cd_lat = ''16'', cd_lng = ''74''\<rparr>"
            "\<lparr>cd_id = ''2'', cd_name = ''Ravi'', cd_landmark = [], cd_lat = [], cd_lng = []\<rparr>"
            "[(''12'', [\<lparr>chip_id = ''2'', chip_name = ''Ravi'', chip_landmark = [], chip_lat = [],
                           chip_lng = [], chip_label = ''Ravi''\<rparr>])]" "''12''" loc_init]
    by (simp add: p16 p74 nan name house loc_init_def)
qed

end
