(* ===== verification/Charts.thy ===== *)
theory Charts
  imports Prelude
begin

text \<open>
  The charts of the candidate dashboard, \<open>src/static/js/candidate.js\<close>:
  \<open>fetchVisualizationData\<close> writes the four affiliation counts and calls
  \<open>renderAffiliationChart\<close>, \<open>renderIssueChart\<close> and \<open>renderGenderChart\<close>;
  \<open>loadTopIssues\<close> renders the command centre's issue chart. Each render reads
  the labels and values of an object with \<open>Object.keys\<close> and
  \<open>Object.values\<close>, destroys the chart its global variable holds and creates a new
  one on its canvas. Chart.js is reduced to the charts alive, each with its canvas
  and its data; creating a chart on a canvas that already carries a live one raises,
  as Chart.js does (\<open>Canvas is already in use\<close>). A JSON object is the list of its
  members in source order with distinct names.
\<close>

datatype objval = OUndef | ONull | OObj "(string \<times> jsval) list"

text \<open>An array index: a canonical decimal numeral below \<open>2\<^sup>32 - 1\<close>.\<close>

definition array_index :: "string \<Rightarrow> bool" where
  "array_index k \<longleftrightarrow>
     k \<noteq> [] \<and> list_all js_digit k \<and> (k = ''0'' \<or> hd k \<noteq> CHR ''0'') \<and> digits_val k < 2 ^ 32 - 1"

text \<open>\<open>Object.keys\<close> and \<open>Object.values\<close>: array indices first, ascending, then
  the other names in insertion order.\<close>

definition obj_members :: "(string \<times> jsval) list \<Rightarrow> (string \<times> jsval) list" where
  "obj_members ob =
     sort_key (\<lambda>kv. digits_val (fst kv)) (filter (\<lambda>kv. array_index (fst kv)) ob)
     @ filter (\<lambda>kv. \<not> array_index (fst kv)) ob"

definition obj_keys :: "(string \<times> jsval) list \<Rightarrow> string list" where
  "obj_keys ob = map fst (obj_members ob)"

definition obj_values :: "(string \<times> jsval) list \<Rightarrow> jsval list" where
  "obj_values ob = map snd (obj_members ob)"

datatype chart_slot = AffiliationChart | IssueChart | GenderChart | TopIssuesChart

record chart_cfg =
  cc_labels :: "string list"
  cc_values :: "jsval list"
  cc_colors :: "string list"

text \<open>The chart globals (\<open>affiliationChartInstance\<close>, \<open>issueChartInstance\<close>,
  \<open>genderChartInstance\<close>, \<open>topIssueChartInstance\<close>) and the live charts.\<close>

record chart_state =
  ch_inst :: "chart_slot \<Rightarrow> nat option"
  ch_live :: "(nat \<times> chart_slot \<times> chart_cfg) list"
  ch_next :: nat

definition chart_destroy :: "nat \<Rightarrow> chart_state \<Rightarrow> chart_state" where
  "chart_destroy i s = s\<lparr>ch_live := filter (\<lambda>c. fst c \<noteq> i) (ch_live s)\<rparr>"

text \<open>\<open>if (instance) instance.destroy();\<close>\<close>

definition chart_clear :: "chart_slot \<Rightarrow> chart_state \<Rightarrow> chart_state" where
  "chart_clear sl s = (case ch_inst s sl of Some i \<Rightarrow> chart_destroy i s | None \<Rightarrow> s)"

definition new_chart :: "chart_slot \<Rightarrow> chart_cfg \<Rightarrow> chart_state \<Rightarrow> js_error + chart_state" where
  "new_chart sl cfg s =
     (if \<exists>c\<in>set (ch_live s). fst (snd c) = sl
      then Inl (TypeError ''Canvas is already in use'')
      else Inr (s\<lparr>ch_inst := (ch_inst s)(sl := Some (ch_next s)),
                  ch_live := ch_live s @ [(ch_next s, sl, cfg)], ch_next := Suc (ch_next s)\<rparr>))"

text \<open>The bar colour of an affiliation label.\<close>

definition affiliation_color :: "string \<Rightarrow> string" where
  "affiliation_color label =
     (let l = js_lower label in
      if js_includes l ''supporter'' then ''#4CAF50''
      else if js_includes l ''opponent'' then ''#F44336''
      else if js_includes l ''swingvoter'' then ''#FFC107'' else ''#9E9E9E'')"

definition slot_colors :: "chart_slot \<Rightarrow> string list \<Rightarrow> string list" where
  "slot_colors sl labels =
     (case sl of
        AffiliationChart \<Rightarrow> map affiliation_color labels
      | IssueChart \<Rightarrow> [''#2196F3'']
      | GenderChart \<Rightarrow> [''#3f51b5'', ''#e91e63'', ''#9e9e9e'']
      | TopIssuesChart \<Rightarrow> [''rgba(54, 162, 235, 0.6)''])"

text \<open>The data of a new chart: labels, values and colours.\<close>

definition chart_config :: "chart_slot \<Rightarrow> (string \<times> jsval) list \<Rightarrow> chart_cfg" where
  "chart_config sl ob = \<lparr>cc_labels = obj_keys ob, cc_values = obj_values ob, cc_colors = slot_colors sl (obj_keys ob)\<rparr>"

text \<open>One render function (\<open>has_canvas\<close>: its canvas exists): the charts after
  it and the exception it raises, if any. The three renders of the analytics tab
  default an \<open>undefined\<close> argument to \<open>{}\<close>; \<open>Object.keys(null)\<close> raises
  before anything changes; the old chart is destroyed before the new one is made.\<close>

definition render_chart :: "chart_slot \<Rightarrow> bool \<Rightarrow> objval \<Rightarrow> chart_state \<Rightarrow> chart_state \<times> js_error option" where
  "render_chart sl has_canvas data s =
     (if \<not> has_canvas then (s, None)
      else case data of
        ONull \<Rightarrow> (s, Some (TypeError ''Cannot convert undefined or null to object''))
      | _ \<Rightarrow>
          let s1 = chart_clear sl s
          in (case new_chart sl (chart_config sl (case data of OObj ob \<Rightarrow> ob | _ \<Rightarrow> [])) s1 of
                Inl e \<Rightarrow> (s1, Some e) | Inr s2 \<Rightarrow> (s2, None)))"

section \<open>The analytics counts and charts\<close>

record vis_data =
  va_affiliations :: objval
  va_topIssues :: objval
  va_genderSplit :: objval

datatype count_text = CountLocale jsval | CountErr

record vis_state =
  vs_counts :: "count_text list"
  vs_charts :: chart_state

definition affiliation_keys :: "string list" where
  "affiliation_keys = [''Supporter'', ''SwingVoter'', ''Opponent'', ''Empty'']"

text \<open>\<open>(agg.affiliations || {}).K || 0\<close>, shown with \<open>toLocaleString\<close>.\<close>

definition affiliation_count :: "objval \<Rightarrow> string \<Rightarrow> count_text" where
  "affiliation_count a k =
     CountLocale (js_or (case a of OObj ob \<Rightarrow> (case map_of ob k of Some v \<Rightarrow> v | None \<Rightarrow> JUndefined)
                                 | _ \<Rightarrow> JUndefined) (JNum 0))"

text \<open>\<open>fetchVisualizationData\<close> after its \<open>await\<close>s (\<open>None\<close>: failed request,
  status not ok, body not JSON or \<open>null\<close>); \<open>canvas\<close> says which canvases exist.
  The \<open>catch\<close> writes \<open>Err\<close> into the counts; charts drawn before the exception
  stay.\<close>

definition fetchVisualizationData ::
  "(chart_slot \<Rightarrow> bool) \<Rightarrow> vis_data option \<Rightarrow> vis_state \<Rightarrow> vis_state" where
  "fetchVisualizationData canvas resp v =
     (case resp of
        None \<Rightarrow> v\<lparr>vs_counts := replicate 4 CountErr\<rparr>
      | Some a \<Rightarrow>
          let (c1, e1) = render_chart AffiliationChart (canvas AffiliationChart) (va_affiliations a) (vs_charts v);
              (c2, e2) = (if e1 = None then render_chart IssueChart (canvas IssueChart) (va_topIssues a) c1 else (c1, e1));
              (c3, e3) = (if e2 = None then render_chart GenderChart (canvas GenderChart) (va_genderSplit a) c2 else (c2, e2))
          in \<lparr>vs_counts = (if e3 = None then map (affiliation_count (va_affiliations a)) affiliation_keys
                           else replicate 4 CountErr),
              vs_charts = c3\<rparr>)"

text \<open>\<open>loadTopIssues\<close>: every failure is only logged. Its argument has no default,
  so a missing body raises like \<open>null\<close>.\<close>

definition loadTopIssues :: "bool \<Rightarrow> objval option \<Rightarrow> chart_state \<Rightarrow> chart_state" where
  "loadTopIssues has_canvas resp s =
     (case resp of
        None \<Rightarrow> s
      | Some data \<Rightarrow>
          fst (render_chart TopIssuesChart has_canvas (if data = OUndef then ONull else data) s))"

definition chart_init :: chart_state where
  "chart_init = \<lparr>ch_inst = (\<lambda>_. None), ch_live = [], ch_next = 0\<rparr>"

text \<open>The chart code the dashboard runs, in any order: the analytics tab's
  \<open>fetchVisualizationData\<close> (from \<open>applyVoterFilters\<close>) and the command centre's
  \<open>loadTopIssues\<close>, each taken from its response on, where it runs without a
  further \<open>await\<close>.\<close>

datatype chart_event = VisLoad "vis_data option" | TopIssuesLoad "objval option"

fun chart_step :: "(chart_slot \<Rightarrow> bool) \<Rightarrow> vis_state \<Rightarrow> chart_event \<Rightarrow> vis_state" where
  "chart_step canvas v (VisLoad resp) = fetchVisualizationData canvas resp v"
| "chart_step canvas v (TopIssuesLoad resp) =
     v\<lparr>vs_charts := loadTopIssues (canvas TopIssuesChart) resp (vs_charts v)\<rparr>"

section \<open>Lemmas\<close>

text \<open>\<open>Object.keys\<close> lists every member once; an object without array-index
  names keeps its insertion order.\<close>

lemma obj_keys_perm: "set (obj_keys ob) = set (map fst ob) \<and> length (obj_keys ob) = length ob"
  by (auto simp: obj_keys_def obj_members_def sum_length_filter_compl)

lemma obj_keys_plain: "\<forall>kv\<in>set ob. \<not> array_index (fst kv) \<Longrightarrow> obj_keys ob = map fst ob"
  by (simp add: obj_keys_def obj_members_def)

text \<open>The chart globals and the live charts agree: each live chart is the one its
  canvas's global holds, with a fresh number.\<close>

definition chart_wf :: "chart_state \<Rightarrow> bool" where
  "chart_wf s \<longleftrightarrow>
     (\<forall>c\<in>set (ch_live s). ch_inst s (fst (snd c)) = Some (fst c) \<and> fst c < ch_next s)
     \<and> distinct (map fst (ch_live s))"

lemma chart_wf_init: "chart_wf chart_init"
  by (simp add: chart_wf_def chart_init_def)

lemma chart_wf_one_per_canvas: "chart_wf s \<Longrightarrow> distinct (map (\<lambda>c. fst (snd c)) (ch_live s))"
proof -
  assume wf: "chart_wf s"
  let ?G = "\<lambda>c. fst (snd c)" and ?F = "\<lambda>sl. the (ch_inst s sl)"
  have d: "distinct (map fst (ch_live s))" using wf by (simp add: chart_wf_def)
  have e: "map fst (ch_live s) = map ?F (map ?G (ch_live s))"
    using wf by (auto simp: chart_wf_def map_eq_conv)
  have "distinct (map ?F (map ?G (ch_live s)))" using d by (simp only: e [symmetric])
  then show ?thesis using distinct_map [of ?F "map ?G (ch_live s)"] by blast
qed

lemma chart_clear_wf: "chart_wf s \<Longrightarrow> chart_wf (chart_clear sl s)"
  by (auto simp: chart_wf_def chart_clear_def chart_destroy_def distinct_map_filter split: option.splits)

lemma chart_clear_free: "chart_wf s \<Longrightarrow> c \<in> set (ch_live (chart_clear sl s)) \<Longrightarrow> fst (snd c) \<noteq> sl"
  by (auto simp: chart_wf_def chart_clear_def chart_destroy_def split: option.splits)

lemma new_chart_wf:
  assumes "chart_wf s" and "\<forall>c\<in>set (ch_live s). fst (snd c) \<noteq> sl"
  shows "\<exists>s'. new_chart sl cfg s = Inr s' \<and> chart_wf s'"
proof -
  have fresh: "ch_next s \<notin> fst ` set (ch_live s)" using assms(1) by (auto simp: chart_wf_def)
  show ?thesis
    using assms fresh by (auto simp: new_chart_def chart_wf_def)
qed

text \<open>Every render keeps the charts well formed and never meets a canvas in use:
  it raises only on a \<open>null\<close> object.\<close>

lemma render_chart_wf:
  assumes "chart_wf s"
  shows "chart_wf (fst (render_chart sl h d s)) \<and> (snd (render_chart sl h d s) = None \<longleftrightarrow> \<not> (h \<and> d = ONull))"
proof -
  obtain s' where s': "new_chart sl (chart_config sl (case d of OObj ob \<Rightarrow> ob | _ \<Rightarrow> [])) (chart_clear sl s) = Inr s'"
      and wf': "chart_wf s'"
    using new_chart_wf [OF chart_clear_wf [OF assms]] chart_clear_free [OF assms] by blast
  show ?thesis
    using assms s' wf' by (cases d) (auto simp: render_chart_def Let_def)
qed

lemma fetchVisualizationData_wf:
  "chart_wf (vs_charts v) \<Longrightarrow> chart_wf (vs_charts (fetchVisualizationData canvas resp v))"
  using render_chart_wf
  by (auto simp: fetchVisualizationData_def split: option.splits prod.splits) (metis fst_conv)+

lemma render_chart_draws:
  assumes "chart_wf s" and "d \<noteq> ONull"
  shows "(ch_next (chart_clear sl s), sl, chart_config sl (case d of OObj ob \<Rightarrow> ob | _ \<Rightarrow> []))
           \<in> set (ch_live (fst (render_chart sl True d s)))"
proof -
  have "\<forall>c\<in>set (ch_live (chart_clear sl s)). fst (snd c) \<noteq> sl" using chart_clear_free [OF assms(1)] by blast
  then show ?thesis using assms(2) by (cases d) (auto simp: render_chart_def new_chart_def Let_def)
qed

text \<open>A \<open>null\<close> issue list shows \<open>Err\<close> on all four counts although the
  affiliation chart beside them has just been drawn from valid data.\<close>

lemma fetchVisualizationData_null_issues:
  assumes "chart_wf (vs_charts v)" and "canvas AffiliationChart" and "canvas IssueChart"
    and "va_affiliations a = OObj ob" and "va_topIssues a = ONull"
  shows "vs_counts (fetchVisualizationData canvas (Some a) v) = replicate 4 CountErr
         \<and> (\<exists>i. (i, AffiliationChart, chart_config AffiliationChart ob)
                  \<in> set (ch_live (vs_charts (fetchVisualizationData canvas (Some a) v))))"
proof -
  obtain c1 e1 where r1: "render_chart AffiliationChart True (OObj ob) (vs_charts v) = (c1, e1)" by fastforce
  have e1: "e1 = None" using render_chart_wf [OF assms(1), of AffiliationChart True "OObj ob"] r1 by simp
  have c1: "\<exists>i. (i, AffiliationChart, chart_config AffiliationChart ob) \<in> set (ch_live c1)"
    using render_chart_draws [OF assms(1), of "OObj ob" AffiliationChart] r1 by auto
  have r2: "render_chart IssueChart True ONull c1 = (c1, Some (TypeError ''Cannot convert undefined or null to object''))"
    by (simp add: render_chart_def)
  show ?thesis using assms r1 e1 c1 r2 by (simp add: fetchVisualizationData_def)
qed

lemma chart_step_wf: "chart_wf (vs_charts v) \<Longrightarrow> chart_wf (vs_charts (chart_step canvas v ev))"
  by (cases ev) (auto simp: loadTopIssues_def fetchVisualizationData_wf render_chart_wf split: option.splits)

lemma chart_run_wf: "chart_wf (vs_charts v) \<Longrightarrow> chart_wf (vs_charts (foldl (chart_step canvas) v evs))"
  by (induction evs arbitrary: v) (simp_all add: chart_step_wf)

section \<open>Properties\<close>

text \<open>
  C38. Chart.js never finds a canvas in use: after any sequence of analytics and
  top-issue loads from the page as loaded, whatever their responses and whichever
  canvases exist, every canvas carries at most one live chart, and the next render
  on an existing canvas succeeds exactly when its data is not \<open>null\<close> (each render
  destroys the chart its global holds before it makes the new one).
\<close>

theorem charts_canvas_free:
  "let w = vs_charts (foldl (chart_step canvas) \<lparr>vs_counts = cs, vs_charts = chart_init\<rparr> evs) in
     distinct (map (\<lambda>c. fst (snd c)) (ch_live w))
     \<and> (snd (render_chart sl True d w) = None \<longleftrightarrow> d \<noteq> ONull)"
proof -
  let ?w = "vs_charts (foldl (chart_step canvas) \<lparr>vs_counts = cs, vs_charts = chart_init\<rparr> evs)"
  have wf: "chart_wf ?w" by (rule chart_run_wf) (simp add: chart_wf_init)
  show ?thesis
    using chart_wf_one_per_canvas [OF wf] render_chart_wf [OF wf, of sl True d] by (simp add: Let_def)
qed

end
