(* ===== verification/WardMap.thy ===== *)
theory WardMap
  imports UrlQuery JsNumber
begin

text \<open>
  The ward map of the command centre, \<open>loadWardMap\<close> in
  \<open>src/static/js/candidate.js\<close>: it empties \<open>#wardMapContainer\<close>, makes a Leaflet
  map in it, fetches a CSV file and adds a marker with a popup for every row after
  the header whose latitude and longitude fields are non-empty. Leaflet's
  \<open>L.latLng\<close> raises on a NaN coordinate; the \<open>catch\<close> then replaces the whole
  container, map included, with an error line. The file is read with
  \<open>response.text()\<close> whatever the status. Leaflet itself is reduced to the markers
  on the map and to the mark it leaves on its container: \<open>L.map\<close> raises
  \<open>Map container is already initialized\<close> on a container that held a map, and
  emptying the container with \<open>innerHTML\<close> does not remove the mark (only
  \<open>map.remove()\<close> does, which this function never calls). A call is taken as a
  whole, its response included.
\<close>

record ward_marker =
  wm_lat :: f64
  wm_lng :: f64
  wm_name :: string
  wm_supporters :: string
  wm_opponents :: string

datatype ward_view = WardMarkers "ward_marker list" | WardError | WardBlank

text \<open>\<open>const [name, lat, lng, supporters, opponents] = row.split(',')\<close>: a missing
  field is \<open>undefined\<close>.\<close>

definition field_at :: "string list \<Rightarrow> nat \<Rightarrow> jsval" where
  "field_at fs i = (if i < length fs then JStr (fs ! i) else JUndefined)"

definition ward_row :: "string \<Rightarrow> js_error + ward_marker option" where
  "ward_row row =
     (let fs = split_on CHR '','' row; lat = field_at fs 1; lng = field_at fs 2 in
      if js_truthy lat \<and> js_truthy lng
      then (let a = js_parseFloat (js_to_string lat); b = js_parseFloat (js_to_string lng) in
            if a = NaN \<or> b = NaN
            then Inl (TypeError (''Invalid LatLng object''))
            else Inr (Some \<lparr>wm_lat = a, wm_lng = b, wm_name = js_to_string (field_at fs 0),
                            wm_supporters = js_to_string (field_at fs 3),
                            wm_opponents = js_to_string (field_at fs 4)\<rparr>))
      else Inr None)"

text \<open>\<open>csvText.trim().split('\n').slice(1)\<close>\<close>

definition ward_rows :: "string \<Rightarrow> string list" where
  "ward_rows csv = drop 1 (split_on (CHR 0x0A) (js_trim csv))"

text \<open>What \<open>#wardMapContainer\<close> shows (\<open>None\<close>: the page's placeholder) and
  whether Leaflet has marked it.\<close>

record ward_state =
  wd_view :: "ward_view option"
  wd_initialized :: bool

text \<open>The markers the CSV gives once the map exists (\<open>None\<close>: the request or the
  body read failed).\<close>

definition ward_markers :: "string option \<Rightarrow> ward_view" where
  "ward_markers resp =
     (case resp of
        None \<Rightarrow> WardError
      | Some csv \<Rightarrow>
          (case map_items ward_row (ward_rows csv) of
             Inl e \<Rightarrow> WardError
           | Inr ms \<Rightarrow> WardMarkers (List.map_filter id ms)))"

text \<open>\<open>loadWardMap()\<close>: a missing container makes the first statement raise; on a
  marked container the emptying happens and \<open>L.map\<close> then raises, outside the
  \<open>try\<close>, leaving the container blank.\<close>

definition loadWardMap :: "bool \<Rightarrow> string option \<Rightarrow> ward_state \<Rightarrow> ward_state" where
  "loadWardMap has_container resp s =
     (if \<not> has_container then s
      else if wd_initialized s then s\<lparr>wd_view := Some WardBlank\<rparr>
      else \<lparr>wd_view = Some (ward_markers resp), wd_initialized = True\<rparr>)"

section \<open>Lemmas\<close>

text \<open>One row with a non-numeric coordinate hides the whole map, the valid rows'
  markers included.\<close>

lemma loadWardMap_bad_row:
  assumes "row \<in> set (ward_rows csv)" and "isl (ward_row row)"
  shows "ward_markers (Some csv) = WardError"
proof -
  have "isl (map_items ward_row (ward_rows csv))" using assms by (auto simp: map_items_isl)
  then show ?thesis by (cases "map_items ward_row (ward_rows csv)") (simp_all add: ward_markers_def)
qed

text \<open>Without a bad row every row with both coordinates becomes a marker, in file
  order.\<close>

lemma loadWardMap_markers:
  assumes "\<forall>r\<in>set (ward_rows csv). \<not> isl (ward_row r)"
  shows "ward_markers (Some csv) = WardMarkers (List.map_filter (\<lambda>r. projr (ward_row r)) (ward_rows csv))"
proof -
  have "map_items ward_row (ward_rows csv) = Inr (map (\<lambda>r. projr (ward_row r)) (ward_rows csv))"
    using assms by (intro map_items_Inr) (auto simp: sum.collapse(2) [symmetric])
  then show ?thesis by (simp add: ward_markers_def map_filter_def filter_map comp_def)
qed

text \<open>The map survives one visit only: every later call of \<open>loadWardMap\<close>, such as
  the one each return to the command centre makes, leaves the container blank.\<close>

lemma loadWardMap_second_visit_blank:
  "wd_view (loadWardMap True r2 (loadWardMap True r1 s)) = Some WardBlank"
  by (simp add: loadWardMap_def)

end
