(* ===== verification/VoterDetails.thy ===== *)
theory VoterDetails
  imports VoterTable VoterForm UrlQuery
begin

text \<open>
  The voter details row of the worker dashboard, \<open>src/static/js/worker.js\<close>: a
  click on a voter's name runs \<open>toggleDetailsRow\<close>, which closes the details row
  under that voter if there is one, and otherwise removes every details row and
  inserts one under the voter with the static details (\<open>formatValue\<close>) and the
  update form (\<open>VoterForm\<close>); the save button runs \<open>saveVoterDetails\<close>, which
  sends the filled fields with \<open>PUT /api/voters/<id>\<close> (the id through
  \<open>encodeURIComponent\<close>) and, when the answer is ok, removes the details rows,
  reloads the table and reports. The table's rows are numbered; the state holds the
  rows followed by a details row and the open form with its voter id.
\<close>

section \<open>The static details\<close>

datatype detail_val = DText string | DNotProvided | DBadge aff_badge

definition formatValue :: "jsval \<Rightarrow> detail_val" where
  "formatValue v =
     (if \<not> js_truthy v \<or> v = JStr [] \<or> v = JStr ''Not provided'' then DNotProvided else DText (safe v))"

definition alt :: "voter_obj \<Rightarrow> string \<Rightarrow> string \<Rightarrow> jsval" where
  "alt v a b = js_coalesce (v a) (v b)"

definition staticDetails :: "voter_obj \<Rightarrow> (string \<times> detail_val) list" where
  "staticDetails v =
     [(''ID'', DText (safe (prop2 v ''ID'' ''id''))),
      (''Name'', DText (safe (prop2 v ''Name'' ''name''))),
      (''Father/Husband'', formatValue (alt v ''Father's or Husband's name'' ''father_or_husband_name'')),
      (''Age'', DText (safe (prop2 v ''Age'' ''age''))),
      (''Gender'', DText (safe (prop2 v ''Gender'' ''gender''))),
      (''House Number'', DText (safe (prop2 v ''House number'' ''house_number''))),
      (''EPIC Number'', DText (safe (prop2 v ''EPIC number'' ''epic_number''))),
      (''Mobile'', formatValue (alt v ''Mobile Number'' ''mobile_number'')),
      (''Occupation'', formatValue (alt v ''Occupation'' ''occupation'')),
      (''Education'', formatValue (alt v ''Education Level'' ''education_level'')),
      (''Political Affiliation'',
         if js_truthy (alt v ''Political Affiliation'' ''political_affiliation'')
         then DBadge (formatAffiliation (alt v ''Political Affiliation'' ''political_affiliation''))
         else DNotProvided),
      (''Key Issues'', formatValue (alt v ''Key Issues'' ''key_issues'')),
      (''Remarks'', formatValue (alt v ''Remarks'' ''remarks''))]"

section \<open>\<open>encodeURIComponent\<close>\<close>

text \<open>The bytes \<open>encodeURIComponent\<close> keeps: ASCII letters, digits and
  \<open>- _ . ! ~ * ' ( )\<close>; every other UTF-8 byte becomes \<open>%XX\<close>.\<close>

definition uri_safe :: "nat \<Rightarrow> bool" where
  "uri_safe b \<longleftrightarrow>
     b \<in> {0x2D, 0x5F, 0x2E, 0x21, 0x7E, 0x2A, 0x27, 0x28, 0x29} \<or> (48 \<le> b \<and> b \<le> 57)
     \<or> (65 \<le> b \<and> b \<le> 90) \<or> (97 \<le> b \<and> b \<le> 122)"

definition enc_uri_byte :: "nat \<Rightarrow> string" where
  "enc_uri_byte b = (if uri_safe b then [char_of b] else [CHR ''%'', hex_char (b div 16), hex_char (b mod 16)])"

definition encodeURIComponent :: "string \<Rightarrow> string" where
  "encodeURIComponent s = concat (map enc_uri_byte (concat (map utf8_bytes s)))"

text \<open>The server's reading of a path segment: \<open>%XX\<close> is a byte, the bytes UTF-8.\<close>

fun uri_bytes :: "string \<Rightarrow> nat list" where
  "uri_bytes [] = []"
| "uri_bytes (c # cs) =
     (if c = CHR ''%'' then
        (case cs of h # l # rest \<Rightarrow> (16 * hex_val h + hex_val l) # uri_bytes rest | _ \<Rightarrow> of_char c # uri_bytes cs)
      else of_char c # uri_bytes cs)"

definition decodeURIComponent :: "string \<Rightarrow> string" where
  "decodeURIComponent s = utf8_dec (uri_bytes s)"

section \<open>Toggling and saving\<close>

record details_state =
  ds_rows :: "nat list"
  ds_details :: "(string \<times> detail_val) list"
  ds_form :: "(jsval \<times> voter_form) option"

text \<open>\<open>toggleDetailsRow(row, voter, colCount)\<close> for the \<open>i\<close>-th row. The details
  row is inserted before the form lookup, so a failed lookup leaves a details row
  whose form has no listener.\<close>

definition toggleDetailsRow :: "nat \<Rightarrow> voter_obj \<Rightarrow> details_state \<Rightarrow> details_state" where
  "toggleDetailsRow i v s =
     (if i \<in> set (ds_rows s) then s\<lparr>ds_rows := removeAll i (ds_rows s), ds_form := None\<rparr>
      else \<lparr>ds_rows = [i], ds_details = staticDetails v,
            ds_form = (case openVoterForm (row_form_id v) of
                         Inl e \<Rightarrow> None | Inr f \<Rightarrow> Some (row_form_id v, f))\<rparr>)"

datatype save_effect = SavePut string "(string \<times> string) list" | SaveRemoveDetails | SaveReload | SaveAlert string

text \<open>\<open>saveVoterDetails(voterId)\<close> with the form it finds and the answer
  (\<open>Some ok\<close>: the status was or was not ok; \<open>None\<close>: the request failed).\<close>

definition saveVoterDetails_request :: "jsval \<Rightarrow> voter_form \<Rightarrow> (string \<times> (string \<times> string) list) option" where
  "saveVoterDetails_request vid f =
     (if form_lookup_id vid \<noteq> form_html_id vid then None
      else case saveVoterDetails f of
        None \<Rightarrow> None
      | Some ups \<Rightarrow> Some (''/api/voters/'' @ encodeURIComponent (js_to_string vid), ups))"

definition saveVoterDetails_effects :: "jsval \<Rightarrow> voter_form \<Rightarrow> bool option \<Rightarrow> save_effect list" where
  "saveVoterDetails_effects vid f resp =
     (case saveVoterDetails_request vid f of
        None \<Rightarrow> []
      | Some (url, ups) \<Rightarrow>
          SavePut url ups
          # (if resp = Some True then [SaveRemoveDetails, SaveReload, SaveAlert ''Voter details updated successfully'']
             else [SaveAlert ''Error saving voter details'']))"

datatype details_event =
    NameClick nat voter_obj | DetailsForm form_event | SaveClick "bool option" | TableReload

fun details_step :: "details_state \<Rightarrow> details_event \<Rightarrow> details_state \<times> save_effect list" where
  "details_step s (NameClick i v) = (toggleDetailsRow i v s, [])"
| "details_step s (DetailsForm ev) =
     (case ds_form s of None \<Rightarrow> (s, []) | Some (vid, f) \<Rightarrow> (s\<lparr>ds_form := Some (vid, form_step f ev)\<rparr>, []))"
| "details_step s (SaveClick resp) =
     (case ds_form s of
        None \<Rightarrow> (s, [])
      | Some (vid, f) \<Rightarrow>
          if vf_save_disabled f then (s, [])
          else let effs = saveVoterDetails_effects vid f resp in
               (if SaveRemoveDetails \<in> set effs then s\<lparr>ds_rows := [], ds_form := None\<rparr> else s, effs))"
| "details_step s TableReload = (s\<lparr>ds_rows := [], ds_form := None\<rparr>, [])"

inductive details_reach :: "details_state \<Rightarrow> bool" where
  init: "details_reach \<lparr>ds_rows = [], ds_details = [], ds_form = None\<rparr>"
| step: "details_reach s \<Longrightarrow> details_reach (fst (details_step s ev))"

section \<open>Lemmas\<close>

lemma uri_bytes_enc_uri_byte: "b < 256 \<Longrightarrow> uri_bytes (enc_uri_byte b @ rest) = b # uri_bytes rest"
proof -
  assume b: "b < 256"
  have h: "b div 16 < 16" "b mod 16 < 16" using b by auto
  show ?thesis
  proof (cases "uri_safe b")
    case True
    have c: "(of_char (char_of b :: char) :: nat) = b" using b by (rule of_char_char_of_small)
    moreover have "b \<noteq> 37" using True by (auto simp: uri_safe_def)
    ultimately have "char_of b \<noteq> CHR ''%''" by (auto dest: arg_cong [where f = "of_char :: char \<Rightarrow> nat"])
    then show ?thesis using True c by (simp add: enc_uri_byte_def)
  next
    case False
    then show ?thesis using hex_val_hex_char [OF h(1)] hex_val_hex_char [OF h(2)] by (simp add: enc_uri_byte_def)
  qed
qed

text \<open>The server reads back the id the script encoded.\<close>

lemma decodeURIComponent_encode: "decodeURIComponent (encodeURIComponent s) = s"
proof -
  have enc: "uri_bytes (concat (map enc_uri_byte bs) @ rest) = bs @ uri_bytes rest"
    if "\<forall>b\<in>set bs. b < 256" for bs rest
    using that by (induction bs) (simp_all add: uri_bytes_enc_uri_byte)
  have "\<forall>b\<in>set (concat (map utf8_bytes s)). b < 256" using utf8_bytes_lt by auto
  then show ?thesis
    using enc [of "concat (map utf8_bytes s)" "[]"]
    by (simp add: decodeURIComponent_def encodeURIComponent_def utf8_dec_bytes)
qed

text \<open>The page never holds more than one details row, and an open form always
  sits in the one details row there is.\<close>

definition details_ok :: "details_state \<Rightarrow> bool" where
  "details_ok s \<longleftrightarrow> length (ds_rows s) \<le> 1 \<and> (ds_form s \<noteq> None \<longrightarrow> ds_rows s \<noteq> [])"

lemma removeAll_short: "length xs \<le> 1 \<Longrightarrow> x \<in> set xs \<Longrightarrow> removeAll x xs = []"
  by (cases xs) auto

lemma details_step_ok: "details_ok s \<Longrightarrow> details_ok (fst (details_step s ev))"
  by (cases ev)
     (auto simp: details_ok_def toggleDetailsRow_def removeAll_short Let_def split: option.splits)

lemma details_reach_ok: "details_reach s \<Longrightarrow> details_ok s"
proof (induction rule: details_reach.induct)
  case init
  then show ?case by (simp add: details_ok_def)
next
  case (step s ev)
  from step.IH show ?case by (rule details_step_ok)
qed

text \<open>A save that the server accepts clears the details row; any other answer
  leaves the form open with what the worker typed.\<close>

lemma details_save_ok:
  assumes "ds_form s = Some (vid, f)" and "\<not> vf_save_disabled f"
    and "saveVoterDetails_request vid f = Some (url, ups)"
  shows "details_step s (SaveClick (Some True))
           = (s\<lparr>ds_rows := [], ds_form := None\<rparr>,
              [SavePut url ups, SaveRemoveDetails, SaveReload, SaveAlert ''Voter details updated successfully''])"
    and "resp \<noteq> Some True \<Longrightarrow> details_step s (SaveClick resp) = (s, [SavePut url ups, SaveAlert ''Error saving voter details''])"
  using assms by (simp_all add: saveVoterDetails_effects_def)

end
