(* ===== verification/WorkerFlows.thy ===== *)
theory WorkerFlows
  imports LocationDialog
begin

text \<open>
  How the worker page's household table (\<open>Households\<close>) and the location dialog
  (\<open>LocationDialog\<close>) work together: the dialog is opened from a chip that
  \<open>renderHouseholds\<close> produced, and \<open>saveLocationDetails\<close> finds the house
  number again by searching the rendered rows for the voter's name.
\<close>

text \<open>The text \<open>String(v ?? '')\<close> that \<open>safe\<close> escapes.\<close>

definition shown_text :: "jsval \<Rightarrow> string" where
  "shown_text v = js_to_string (js_coalesce v (JStr []))"

definition household_voters :: "household \<Rightarrow> hh_voter list" where
  "household_voters h = (case hh_voters h of None \<Rightarrow> [] | Some vs \<Rightarrow> vs)"

definition plain_name :: "string \<Rightarrow> bool" where
  "plain_name n \<longleftrightarrow> (\<forall>c\<in>{CHR 0x22, CHR 0x0A, CHR 0x0D, CHR 0x0C, CHR 0x5C}. c \<notin> set n)"

section \<open>Lemmas\<close>

lemma find_first: "\<forall>x\<in>set xs. \<not> P x \<Longrightarrow> P y \<Longrightarrow> find P (xs @ y # ys) = Some y"
  by (induction xs) auto

lemma html_unescape_safe: "html_unescape (safe v) = shown_text v"
  by (simp add: safe_def shown_text_def html_unescape_escape_str)

lemma chip_dataset_name: "cd_name (chip_dataset (render_chip v)) = shown_text (v_name v)"
  by (simp add: chip_dataset_def render_chip_def html_unescape_safe)

lemma has_name_row:
  "(\<exists>c\<in>set (snd (render_household_row h)). cd_name (chip_dataset c) = n)
     \<longleftrightarrow> (\<exists>v\<in>set (household_voters h). shown_text (v_name v) = n)"
  by (auto simp: render_household_row_def household_voters_def chip_dataset_name split: option.splits)

text \<open>The save finds the first rendered household, in table order, that has a voter
  of that name, and reads its house number back as it was shown.\<close>

lemma chip_house_rendered:
  assumes "plain_name n"
    and "\<forall>h'\<in>set hs1. \<forall>v\<in>set (household_voters h'). shown_text (v_name v) \<noteq> n"
    and "v \<in> set (household_voters h)" and "shown_text (v_name v) = n"
  shows "chip_house (map render_household_row (hs1 @ h # hs2)) n
           = Inr (inner_text (shown_text (house_number h)))"
proof -
  have none: "\<not> (\<exists>c\<in>set (snd (render_household_row h')). cd_name (chip_dataset c) = n)" if "h' \<in> set hs1" for h'
    using assms(2) that by (simp add: has_name_row)
  have here: "\<exists>c\<in>set (snd (render_household_row h)). cd_name (chip_dataset c) = n"
    using assms(3,4) by (auto simp: has_name_row)
  have fst_row: "fst (render_household_row h) = safe (house_number h)"
    by (simp add: render_household_row_def)
  have "find (\<lambda>(hc, cs). CHR 0x5C \<notin> set n \<and> (\<exists>c\<in>set cs. cd_name (chip_dataset c) = n))
             (map render_household_row hs1 @ render_household_row h # map render_household_row hs2)
        = Some (render_household_row h)"
    using none here assms(1) by (intro find_first) (auto simp: plain_name_def split: prod.splits)
  then show ?thesis
    using assms(1) fst_row
    by (auto simp: chip_house_def plain_name_def html_unescape_safe split: prod.splits)
qed

text \<open>Two voters of the same name in different households: whichever of them the
  dialog was opened for, Save posts the house number of the first household in the
  table.\<close>

lemma save_same_name_first_house:
  assumes "plain_name n" and "inner_text (loc_title s) = n" and "loc_marker s = Some (m, la, lo)"
    and "v \<in> set (household_voters h)" and "shown_text (v_name v) = n"
  shows "saveLocationDetails (map render_household_row (h # hs)) True s
           = Inr ([LocPost n (inner_text (shown_text (house_number h))) (loc_landmark s) la lo,
                   LocAlertUpdated, LocReloadHouseholds], closeLocationModal s)"
proof -
  have "chip_house (map render_household_row ([] @ h # hs)) n = Inr (inner_text (shown_text (house_number h)))"
    using assms(1,4,5) by (intro chip_house_rendered) simp_all
  then show ?thesis using assms(2,3) by (simp add: saveLocationDetails_def Let_def)
qed

text \<open>The dialog as a chip click leaves it, then the map timer and a click on the
  map.\<close>

lemma open_pin_state:
  assumes "loc_timers s = []"
  shows "loc_title (fst (loc_run rows s [LocOpen c, LocTimer, LocMapClick a b])) = cd_name c
         \<and> loc_landmark (fst (loc_run rows s [LocOpen c, LocTimer, LocMapClick a b])) = cd_landmark c
         \<and> (\<exists>m. loc_marker (fst (loc_run rows s [LocOpen c, LocTimer, LocMapClick a b])) = Some (m, Fin a, Fin b))
         \<and> snd (loc_run rows s [LocOpen c, LocTimer, LocMapClick a b]) = []"
  using assms
  by (simp add: openVoterLocationModal_def loc_timer_def initVoterMap_def map_click_def Let_def)

lemma loc_run_append:
  "loc_run rows s (xs @ ys)
     = (let (s1, e1) = loc_run rows s xs; (s2, e2) = loc_run rows s1 ys in (s2, e1 @ e2))"
  by (induction xs arbitrary: s) (auto simp: Let_def split: prod.splits)

section \<open>Properties\<close>

text \<open>
  C15. The location is saved to the wrong house when two voters share a name: the
  worker clicks the chip of a voter in any household of the table, waits for the
  map, pins a location and saves; the post names the house of the first household
  in the table that has a voter of that name, not the household of the chip
  clicked (\<open>saveLocationDetails\<close> finds the house again by the name in the dialog
  title).
\<close>

theorem save_posts_first_namesake_house:
  assumes "plain_name n" and "inner_text n = n" and "loc_timers s = []"
    and "v \<in> set (household_voters h)" and "shown_text (v_name v) = n"
    and "h' \<in> set (h # hs)" and "v' \<in> set (household_voters h')" and "shown_text (v_name v') = n"
  shows "snd (loc_run (map render_household_row (h # hs)) s
                [LocOpen (chip_dataset (render_chip v')), LocTimer, LocMapClick a b, LocSave True])
         = [LocPost n (inner_text (shown_text (house_number h))) (cd_landmark (chip_dataset (render_chip v')))
                    (Fin a) (Fin b),
            LocAlertUpdated, LocReloadHouseholds]"
proof -
  let ?rows = "map render_household_row (h # hs)" and ?c = "chip_dataset (render_chip v')"
  let ?s3 = "fst (loc_run ?rows s [LocOpen ?c, LocTimer, LocMapClick a b])"
  obtain m where st: "loc_title ?s3 = n" "loc_landmark ?s3 = cd_landmark ?c"
      "loc_marker ?s3 = Some (m, Fin a, Fin b)" "snd (loc_run ?rows s [LocOpen ?c, LocTimer, LocMapClick a b]) = []"
    using open_pin_state [OF assms(3), of ?rows ?c a b] assms(8) by (auto simp: chip_dataset_name)
  have "saveLocationDetails ?rows True ?s3
          = Inr ([LocPost n (inner_text (shown_text (house_number h))) (loc_landmark ?s3) (Fin a) (Fin b),
                  LocAlertUpdated, LocReloadHouseholds], closeLocationModal ?s3)"
    using save_same_name_first_house [OF assms(1) _ st(3) assms(4,5)] st(1) assms(2) by simp
  then show ?thesis
    using loc_run_append [of ?rows s "[LocOpen ?c, LocTimer, LocMapClick a b]" "[LocSave True]"] st(2,4)
    by (simp add: split_def Let_def)
qed

theorem save_posts_first_namesake_house_witness:
  "snd (loc_run (map render_household_row
           [\<lparr>house_number = JStr ''12'', hh_voters = Some [\<lparr>v_id = JNum 1, v_name = JStr ''Ram'',
               v_landmark = JNull, v_latitude = JNull, v_longitude = JNull\<rparr>]\<rparr>,
            \<lparr>house_number = JStr ''14'', hh_voters = Some [\<lparr>v_id = JNum 2, v_name = JStr ''Ram'',
               v_landmark = JNull, v_latitude = JNull, v_longitude = JNull\<rparr>]\<rparr>])
          \<lparr>activeVoterId = None, loc_title = [], loc_landmark = [], loc_open = False, loc_timers = [],
           loc_map = None, loc_next_map = 0, loc_marker = None\<rparr>
          [LocOpen (chip_dataset (render_chip \<lparr>v_id = JNum 2, v_name = JStr ''Ram'',
               v_landmark = JNull, v_latitude = JNull, v_longitude = JNull\<rparr>)),
           LocTimer, LocMapClick 1 2, LocSave True])
   = [LocPost ''Ram'' ''12'' [] (Fin 1) (Fin 2), LocAlertUpdated, LocReloadHouseholds]"
proof -
  have n: "plain_name ''Ram''" and t: "inner_text ''Ram'' = ''Ram''"
    by (simp_all add: plain_name_def inner_text_def js_space_def)
  have h: "inner_text (shown_text (JStr ''12'')) = ''12''" by (simp add: shown_text_def inner_text_def js_space_def)
  have l: "cd_landmark (chip_dataset (render_chip \<lparr>v_id = JNum 2, v_name = JStr ''Ram'',
               v_landmark = JNull, v_latitude = JNull, v_longitude = JNull\<rparr>)) = []"
    by (simp add: chip_dataset_def render_chip_def safe_def js_or_def)
  show ?thesis
    using save_posts_first_namesake_house [OF n t, of "\<lparr>activeVoterId = None, loc_title = [], loc_landmark = [],
        loc_open = False, loc_timers = [], loc_map = None, loc_next_map = 0, loc_marker = None\<rparr>"
        "\<lparr>v_id = JNum 1, v_name = JStr ''Ram'', v_landmark = JNull, v_latitude = JNull, v_longitude = JNull\<rparr>"
        "\<lparr>house_number = JStr ''12'', hh_voters = Some [\<lparr>v_id = JNum 1, v_name = JStr ''Ram'',
               v_landmark = JNull, v_latitude = JNull, v_longitude = JNull\<rparr>]\<rparr>"
        "\<lparr>house_number = JStr ''14'', hh_voters = Some [\<lparr>v_id = JNum 2, v_name = JStr ''Ram'',
               v_landmark = JNull, v_latitude = JNull, v_longitude = JNull\<rparr>]\<rparr>"
        "[\<lparr>house_number = JStr ''14'', hh_voters = Some [\<lparr>v_id = JNum 2, v_name = JStr ''Ram'',
               v_landmark = JNull, v_latitude = JNull, v_longitude = JNull\<rparr>]\<rparr>]"
        "\<lparr>v_id = JNum 2, v_name = JStr ''Ram'', v_landmark = JNull, v_latitude = JNull, v_longitude = JNull\<rparr>" 1 2]
    h l by (simp add: household_voters_def shown_text_def)
qed

end
