(* ===== verification/CandidateFlows.thy ===== *)
theory CandidateFlows
  imports Navigation WardMap
begin

text \<open>
  How the candidate dashboard's section navigation (\<open>showSection\<close> of
  \<open>candidate.js\<close>, \<open>Navigation\<close>) drives the ward map (\<open>WardMap\<close>): every visit
  to the command centre runs its loaders, \<open>loadWardMap\<close> among them. A visit is
  the list of loaders \<open>candidate_loads\<close> names for the section; the ward map sees
  only \<open>LoadWardMap\<close>, answered by the CSV response \<open>r\<close>.
\<close>

fun ward_loader :: "string option \<Rightarrow> ward_state \<Rightarrow> loader \<Rightarrow> ward_state" where
  "ward_loader r s LoadWardMap = loadWardMap True r s"
| "ward_loader r s _ = s"

definition visit_ward :: "string option \<Rightarrow> ward_state \<Rightarrow> element_id \<Rightarrow> ward_state" where
  "visit_ward r s sid = foldl (ward_loader r) s (candidate_loads sid)"

definition visits_ward :: "string option \<Rightarrow> ward_state \<Rightarrow> element_id list \<Rightarrow> ward_state" where
  "visits_ward r s sids = foldl (visit_ward r) s sids"

section \<open>Lemmas\<close>

lemma visit_ward_eq:
  "visit_ward r s sid = (if sid = ''commandCenter'' then loadWardMap True r s else s)"
  by (simp add: visit_ward_def candidate_loads_def)

lemma visits_ward_other:
  "''commandCenter'' \<notin> set sids \<Longrightarrow> visits_ward r s sids = s"
  by (induction sids arbitrary: s) (auto simp: visits_ward_def visit_ward_eq)

lemma visits_ward_blank_stays:
  "wd_initialized s \<Longrightarrow> wd_view s = Some WardBlank \<Longrightarrow> wd_view (visits_ward r s sids) = Some WardBlank"
proof (induction sids arbitrary: s)
  case Nil
  then show ?case by (simp add: visits_ward_def)
next
  case (Cons sid sids)
  have "wd_initialized (visit_ward r s sid) \<and> wd_view (visit_ward r s sid) = Some WardBlank"
    using Cons.prems by (simp add: visit_ward_eq loadWardMap_def)
  then show ?case using Cons.IH by (simp add: visits_ward_def)
qed

text \<open>Once the map has been made, the next visit to the command centre blanks it
  for good, whatever the other sections visited and whatever the responses.\<close>

lemma visits_ward_initialized:
  "wd_initialized s \<Longrightarrow> ''commandCenter'' \<in> set sids \<Longrightarrow> wd_view (visits_ward r s sids) = Some WardBlank"
proof -
  assume init: "wd_initialized s" and cc: "''commandCenter'' \<in> set sids"
  obtain xs ys where sids: "sids = xs @ ''commandCenter'' # ys" and xs: "''commandCenter'' \<notin> set xs"
    using split_list_first [OF cc] by blast
  have "visits_ward r s xs = s" using xs by (rule visits_ward_other)
  moreover have "wd_initialized (loadWardMap True r s) \<and> wd_view (loadWardMap True r s) = Some WardBlank"
    using init by (simp add: loadWardMap_def)
  ultimately show ?thesis
    using visits_ward_blank_stays [of "loadWardMap True r s" r ys]
    by (simp add: sids visits_ward_def visit_ward_eq)
qed

section \<open>Properties\<close>

text \<open>
  C34. The ward map does not survive a return to the command centre: from the page
  as loaded, once the command centre has been shown twice (the start-up shows it
  once), \<open>L.map\<close> meets a container it already initialised and the map area stays
  blank, whatever else was visited and whatever the CSV responses.
\<close>

theorem ward_map_lost_on_return:
  assumes "\<not> wd_initialized s" and "sids = xs @ ''commandCenter'' # ys" and "''commandCenter'' \<in> set ys"
  shows "wd_view (visits_ward r s sids) = Some WardBlank"
proof -
  have "wd_initialized (visits_ward r s (xs @ [''commandCenter'']))"
  proof (cases "''commandCenter'' \<in> set xs")
    case True
    then show ?thesis by (simp add: visits_ward_def visit_ward_eq loadWardMap_def)
  next
    case False
    then show ?thesis using assms(1)
      by (simp add: visits_ward_def visit_ward_eq loadWardMap_def visits_ward_other [unfolded visits_ward_def])
  qed
  then show ?thesis
    using visits_ward_initialized [of "visits_ward r s (xs @ [''commandCenter''])" ys r] assms(2,3)
    by (simp add: visits_ward_def)
qed

theorem ward_map_lost_on_return_witness:
  "wd_view (visits_ward None \<lparr>wd_view = None, wd_initialized = False\<rparr>
              [''commandCenter'', ''voterAnalytics'', ''commandCenter'']) = Some WardBlank"
  using ward_map_lost_on_return [of "\<lparr>wd_view = None, wd_initialized = False\<rparr>"
          "[''commandCenter'', ''voterAnalytics'', ''commandCenter'']" "[]" "[''voterAnalytics'', ''commandCenter'']" None]
  by simp

end
