(* ===== verification/Spec2Isabelle.thy ===== *)
theory Spec2Isabelle
  imports Escape Login RoleModal WorkerPage ActivityFeed CsvExport VoterForm VoterTable Navigation
    VoterFilters Admin BoothDialog Chatbot CandidatePage CampaignHub CommandCentre
    WorkerTasks LocationDialog Charts WardMap VoterDetails
    WorkerFlows CandidateFlows
begin

text \<open>
  \<^bold>\<open>A verification model of JanPath's dashboard scripts.\<close>

  JanPath is a campaign dashboard with three roles (admin, candidate, party worker).
  Its client side is six scripts under \<open>src/static/js\<close>; all storage, filtering and
  authentication live in a backend the scripts reach by \<open>fetch\<close>. What the scripts
  decide themselves, and what this development models, is how user input and server
  data become page state: which dialog is open, what a form accepts, which page of a
  table is shown, how text is escaped before it reaches \<open>innerHTML\<close>.

  \<^bold>\<open>Theories.\<close>
  \<^item> \<open>Prelude\<close>: JavaScript values (\<open>jsval\<close>), \<open>||\<close>, \<open>??\<close>, \<open>String(v)\<close>,
    \<open>trim\<close>, \<open>toLowerCase\<close> and \<open>includes\<close> on strings of Latin-1 code units, and
    the list lemmas the components share.
  \<^item> \<open>Escape\<close>: \<open>safe\<close> of \<open>worker.js\<close>, the escaping of every server field the
    worker page renders. Lemmas: decoding inverts escaping (C1), escaped text holds no
    \<open>< > " '\<close> (C2).
  \<^item> \<open>Login\<close>: the submit handler of \<open>login.js\<close>. Lemmas: which inputs reach which
    dashboard (C3), exactly one alert per submission (C4).
  \<^item> \<open>RoleModal\<close>: the dialogs of \<open>script.js\<close> as a state machine (\<open>modal_step\<close>
    on \<open>modal_ui\<close>, for the elements \<open>modal_dom\<close> the page holds) with its reachable
    states \<open>modal_reach\<close>. Lemmas: an invariant kept by every listener, the greeting
    names the stored role (C5), Escape closes both dialogs (C6), choosing a role (C7)
    and the \<open>TypeError\<close> without a role dialog (C8).

  \<^item> \<open>Households\<close>: the household table of \<open>worker.js\<close> (\<open>renderHouseholds\<close>,
    \<open>fetchHouseholds\<close>, the paging listeners) on the globals
    \<open>householdCurrentPage\<close>, \<open>householdEntriesPerPage\<close>, \<open>allHouseholds\<close>.
    Lemmas: the page is clamped into \<open>[1, totalPages]\<close> (C9), the pages partition the
    filtered list (C10), the page stays positive in every reachable state (C11), the
    search filter (C12) and the \<open>TypeError\<close> on a numeric house number (C13);
    whatever listeners are installed, the page never leaves 1, since the next-page
    listener raises on the undeclared \<open>totalPages\<close> (C16).
  \<^item> \<open>PageScript\<close> and \<open>WorkerPage\<close>: the top level of \<open>worker.js\<close> as a list of
    statements run in order until the first exception. Lemmas: on a page with
    \<open>#householdNextPage\<close> the script stops with a \<open>ReferenceError\<close> (C14), and
    without it every listener is installed.
  \<^item> \<open>ActivityFeed\<close>: the candidate's activity feed (\<open>loadActivityFeed\<close>,
    \<open>addActivityItem\<close>, the stream handler). The trimming \<open>while\<close> loop is a
    \<open>function\<close> with a length measure, shown equal to \<open>take 30\<close> (C17); the feed
    never exceeds 30 items (C18); loads (C19, C21) and stream messages.
  \<^item> \<open>CsvExport\<close>: \<open>jsonToCsv\<close> of \<open>candidate.js\<close>, with an RFC 4180 style
    reader \<open>csv_parse\<close> (a \<open>function\<close> with a length measure) as its meaning.
    Lemmas: reading the export gives back every field when no field holds a line
    break (C22), and a line break splits a voter into two records (C23).
  \<^item> \<open>VoterForm\<close>: the voter details form of \<open>worker.js\<close>
    (\<open>validateField\<close>, \<open>updateSaveState\<close>, the field listeners,
    \<open>saveVoterDetails\<close>, the form lookup of \<open>toggleDetailsRow\<close>). Lemmas: the
    error lines and the save button always match the values (C24), only valid updates
    are sent (C25), and, the parser decoding the escaped id attribute, the form is
    missed exactly for an \<open>undefined\<close> or \<open>null\<close> id (C26). The parser's
    newline normalisation of attribute values is not modelled.
  \<^item> \<open>VoterTable\<close>: the worker's voter table (\<open>fetchVoters\<close> split at its
    \<open>await\<close>, \<open>renderVoterRows\<close>, \<open>formatAffiliation\<close>, the five paging
    listeners) with the requests in flight, answered in any order. Lemmas: the page
    stays positive (C27), the request's page and page size parse back (C28),
    an answer arriving after a later one is what the table shows, whatever the
    state (C29), row shape (C30); with \<open>VoterForm\<close>, a voter without id
    gets a form that cannot open (C31, below).
  \<^item> \<open>Navigation\<close>: the three \<open>showSection\<close> functions. Lemmas: exactly the
    chosen section is shown (C32), the link \<open>main.js\<close> marks (C33), and the three
    versions disagree on the active link.
  \<^item> \<open>UrlQuery\<close>: \<open>URLSearchParams\<close> serialisation (UTF-8, \<open>+\<close>, \<open>%XX\<close>) and
    the server's reading \<open>parse_query\<close> of a query string; the round trip
    \<open>parse_query (query_string ps) = ps\<close> is proved for all Latin-1 pairs.
  \<^item> \<open>VoterFilters\<close>: the candidate's analytics tab (\<open>applyVoterFilters\<close>,
    \<open>resetFilters\<close>, \<open>getAffiliationClass\<close>, \<open>saveSegment\<close>,
    \<open>exportVoters\<close>). Lemmas: the request refines the filter form (C35), a saved
    segment keeps only four of the seven filters (C36), the export asks for the
    table's voters (C37).
  \<^item> \<open>Admin\<close>: every handler of \<open>admin.js\<close> as its list of effects, and the
    import with its timers. Lemma: the timers fire in order and all report (C39).
  \<^item> \<open>BoothDialog\<close>: the booth tab of \<open>candidate.js\<close> (\<open>loadBoothStrategy\<close>,
    \<open>openBoothModal\<close> split at its \<open>await\<close>, the form submit, \<open>deleteBooth\<close>).
    Lemma: an edit overtaken by an add saves a duplicate booth (C40).
  \<^item> \<open>Chatbot\<close>: \<open>addMessage\<close>, \<open>sendToServer\<close> split at its \<open>await\<close>
    (requests in flight answered in any order), the send, Enter, speech and
    language-button listeners. Lemmas: a request carries the trimmed input and the
    language of its moment, the window only grows, answering drains the queue with
    one bot bubble per request.
  \<^item> \<open>CandidatePage\<close>: the top level of \<open>candidate.js\<close> and its start-up
    listener as \<open>PageScript\<close> statements. Lemmas: the start-up always stops at the
    undefined \<open>loadElectionNews\<close>; without \<open>#boothForm\<close> the chatbot is never set up.
  \<^item> \<open>CampaignHub\<close>: \<open>loadCampaignHub\<close>'s task table, \<open>loadSegments\<close>,
    \<open>showHubTab\<close> and the task and message form listeners with their resets.
    Lemmas: one task with a non-string status blanks the whole table; a message
    without a chosen segment is posted to the audience \<open>Select Segment...\<close>;
    the audience is a segment's name, not its id.
  \<^item> \<open>JsNumber\<close>: binary64 numbers as exact rationals with round-to-nearest-even
    (\<open>dbl_round\<close>), the non-finite values, \<open>Math.round\<close> and \<open>toFixed\<close>.
    Lemmas: \<open>rat_log2\<close> brackets its argument, integers up to \<open>2\<^sup>53\<close> are
    exact, \<open>toFixed\<close> picks the digits ECMA-262 asks for.
  \<^item> \<open>CommandCentre\<close>: the KPI cards, the overdue-task and booth leaderboard
    lists, the segment cards and the news list with its one-minute reload. Lemmas:
    \<open>0%\<close>/\<open>Infinity%\<close> for a zero total, exact \<open>0%\<close> and \<open>100%\<close>, a
    response without \<open>tasksCompleted\<close> shows \<open>Error\<close> beside an updated bar, one
    non-numeric percentage blanks both leaderboards, the news list never stays on
    its loading line once every request is answered.
  \<^item> \<open>WorkerTasks\<close>: the worker's tasks, messages and reports
    (\<open>fetchTasks\<close>, \<open>fetchMessages\<close>, \<open>fetchReports\<close> through one
    \<open>fetch_list\<close>, the three form listeners with \<open>Object.fromEntries\<close>,
    \<open>updateTaskStatus\<close>, \<open>deleteTask\<close>). Lemmas: \<open>fromEntries\<close> keeps each
    name once with its last value, the row cells are markup-free while the inline
    handlers carry the raw id, at most one status option is selected, failures are
    never reported, the task form posts each field once with its last value.
  \<^item> \<open>LocationDialog\<close>: the worker's voter location dialog
    (\<open>openVoterLocationModal\<close>, the 200 ms timer running \<open>initVoterMap\<close>, map
    clicks, \<open>saveLocationDetails\<close> with its chip lookup by name) over the globals
    \<open>activeVoterId\<close>, \<open>mapInstance\<close> and \<open>marker\<close>; coordinates go through
    \<open>parseFloat\<close> (\<open>JsNumber\<close>). Lemma: a voter without coordinates is saved
    with the previous voter's pin (C20).
  \<^item> \<open>VoterDetails\<close>: \<open>toggleDetailsRow\<close> (the static details with
    \<open>formatValue\<close>, the form of \<open>VoterForm\<close>), \<open>saveVoterDetails\<close> with its
    \<open>PUT\<close> to \<open>/api/voters/\<close> and \<open>encodeURIComponent\<close>, and the answer's
    effects, as a step function with an \<open>inductive\<close> reachability. Lemmas: the
    server decodes the id the script encoded; at most one details row is ever shown
    and an open form lies in it (rule induction); an accepted save closes the row,
    any other answer keeps the typed values.
  \<^item> \<open>WorkerFlows\<close>: the household table and the location dialog together.
    Lemmas: Save finds the house of the first rendered household holding a voter
    of the dialog's name and reads it back as shown; a chip click, the map timer, a
    pin and Save (\<open>loc_run\<close>) post that house whichever namesake's chip was
    clicked (C15).
  \<^item> \<open>CandidateFlows\<close>: the candidate's section navigation driving
    \<open>loadWardMap\<close>. Lemma: from the page as loaded, a second visit to the command
    centre leaves the ward map blank for good (C34).
  \<^item> \<open>Charts\<close>: \<open>fetchVisualizationData\<close>, the three render functions and
    \<open>loadTopIssues\<close>, with \<open>Object.keys\<close> order and Chart.js reduced to the live
    charts per canvas. Lemmas: \<open>Object.keys\<close> is a permutation keeping insertion
    order for plain names; over any sequence of analytics and top-issue loads
    (\<open>chart_step\<close>), destroy-then-create keeps one live chart per canvas and the
    next render succeeds exactly on non-\<open>null\<close> data (C38); a \<open>null\<close> issue list shows \<open>Err\<close> counts beside
    a freshly drawn affiliation chart.
  \<^item> \<open>WardMap\<close>: \<open>loadWardMap\<close>'s CSV reading (\<open>trim\<close>, \<open>split\<close>,
    destructuring, \<open>parseFloat\<close>, Leaflet's NaN check). Lemmas: one row with a
    non-numeric coordinate replaces the whole map with the error line; otherwise every
    row with both coordinates is a marker, in file order. The state
    (\<open>ward_state\<close>) also records Leaflet's mark on the container, so a
    second call leaves the container blank.

  \<^bold>\<open>Modelling conventions.\<close> A handler is a function from the state it reads to the
  state it writes; an exception is an \<open>Inl\<close> of \<open>js_error\<close> and ends only the
  listener that raised it. Elements the scripts look up are booleans (present or
  null). Strings are \<open>char\<close> lists read as Latin-1 code units, so \<open>length\<close> is
  JavaScript's \<open>.length\<close> there; code units above 255 are not modelled. Numbers
  from the server are integers (\<open>JNum\<close>); a sequence of events is a list folded
  by the component's step function, and reachability is an \<open>inductive\<close> relation.
  No loop of the scripts needs fuel: every loop modelled (the feed trimming, the CSV
  reader) is a \<open>function\<close> with a measure.

  \<^bold>\<open>Plan.\<close> Every handler of the six scripts is modelled; what remains
  is the composition of components (the worker page's start-up feeding the table,
  households and details) and stronger properties of the existing models.

  \<^bold>\<open>Not modelled.\<close> The backend (only the responses the scripts read are inputs),
  Leaflet maps and Chart.js charts (library calls), \<open>Date\<close> formatting and
  \<open>toLocaleString\<close>, \<open>Blob\<close> and anchor downloads (the export's download is an
  effect carrying the CSV text), and the HTML pages themselves (the element sets
  are parameters).
\<close>

section \<open>Properties spanning components\<close>

text \<open>
  C31. A voter the API lists without an id (neither \<open>ID\<close> nor \<open>id\<close>, or both
  \<open>null\<close>) is rendered by \<open>renderVoterRows\<close> (\<open>VoterTable\<close>) with an empty
  id cell, and a click on its name opens a details form that cannot be found
  (\<open>VoterForm\<close>): \<open>toggleDetailsRow\<close> raises.
\<close>

theorem voter_without_id_form_fails:
  assumes "renderVoterRows vs c = VtRows rows" and "(v, cells) \<in> set rows"
    and "v ''ID'' \<in> {JUndefined, JNull}" and "v ''id'' \<in> {JUndefined, JNull}"
  shows "hd cells = TextCell [] \<and> (\<exists>e. openVoterForm (row_form_id v) = Inl e)"
proof -
  have "cells = voter_cells v c" using assms(1,2) by (auto simp: renderVoterRows_def split: if_splits)
  then have "hd cells = TextCell []" using assms(3,4) by (auto simp: voter_cells_def prop2_def safe_def)
  moreover have "row_form_id v \<in> {JUndefined, JNull}" using assms(3,4) by (auto simp: row_form_id_def)
  then have "form_lookup_id (row_form_id v) \<noteq> form_html_id (row_form_id v)" using form_ids_match by blast
  then have "\<exists>e. openVoterForm (row_form_id v) = Inl e" by (simp add: openVoterForm_def)
  ultimately show ?thesis by simp
qed

theorem voter_without_id_form_fails_witness:
  "hd (voter_cells (\<lambda>k. JUndefined) 8) = TextCell []
   \<and> (\<exists>e. openVoterForm (row_form_id (\<lambda>k. JUndefined)) = Inl e)"
  by (rule voter_without_id_form_fails [of "[\<lambda>k. JUndefined]" 8 "[(\<lambda>k. JUndefined, voter_cells (\<lambda>k. JUndefined) 8)]"])
     (simp_all add: renderVoterRows_def)

end
